(* ===== verification/Prelude.thy ===== *)
theory Prelude
  imports Complex_Main "HOL-Library.Char_ord" "HOL-Library.List_Lexorder" "HOL-Library.Multiset"
begin

text \<open>
  Shared vocabulary of the development: the JavaScript idioms the TypeScript sources
  of the booking front end rely on (truthiness of strings and numbers, the \<open>x || d\<close>
  default, \<open>Array.prototype.join\<close>, number-to-string conversion in template literals),
  the type synonyms naming identifiers and amounts, and the collections of rules the
  component theories share.

  Amounts (prices, totals) are JavaScript numbers in the source; they are modelled as
  exact rationals, so floating-point rounding is not modelled.  Counts and row numbers
  are non-negative integers in every use the source makes of them and are modelled as
  \<open>nat\<close>.
\<close>

named_theorems js_simps "evaluation rules of the JavaScript helpers"
named_theorems view_defs "definitions of view-local operations unfolded by the step proofs"

type_synonym ident = string
type_synonym money = rat

section \<open>Truthiness and defaults\<close>

text \<open>A string is truthy iff it is non-empty; \<open>undefined\<close> is falsy.\<close>

definition truthy_str :: "string \<Rightarrow> bool" where
  "truthy_str s \<longleftrightarrow> s \<noteq> []"

definition truthy_opt :: "string option \<Rightarrow> bool" where
  "truthy_opt s \<longleftrightarrow> (case s of None \<Rightarrow> False | Some v \<Rightarrow> truthy_str v)"

text \<open>\<open>x || d\<close> on a number that may be \<open>undefined\<close>: \<open>0\<close> and \<open>undefined\<close> give \<open>d\<close>.\<close>

definition or_default :: "nat option \<Rightarrow> nat \<Rightarrow> nat" where
  "or_default x d = (case x of None \<Rightarrow> d | Some n \<Rightarrow> if n = 0 then d else n)"

text \<open>\<open>x || d\<close> on strings: the empty string gives \<open>d\<close>.\<close>

definition str_or :: "string \<Rightarrow> string \<Rightarrow> string" where
  "str_or x d = (if truthy_str x then x else d)"

section \<open>Array.prototype.join\<close>

fun join_with :: "string \<Rightarrow> string list \<Rightarrow> string" where
  "join_with sep [] = []"
| "join_with sep [x] = x"
| "join_with sep (x # y # ys) = x @ sep @ join_with sep (y # ys)"

section \<open>Decimal rendering of naturals\<close>

text \<open>
  A template literal \<open>`${n}`\<close> on a non-negative integer writes its decimal digits,
  most significant first.  \<open>nat_of_digits\<close> reads them back.
\<close>

definition digit_char :: "nat \<Rightarrow> char" where
  "digit_char d = char_of (48 + d)"

definition is_digit :: "char \<Rightarrow> bool" where
  "is_digit c \<longleftrightarrow> 48 \<le> (of_char c :: nat) \<and> (of_char c :: nat) < 58"

fun string_of_nat :: "nat \<Rightarrow> string" where
  "string_of_nat n = (if n < 10 then [digit_char n] else string_of_nat (n div 10) @ [digit_char (n mod 10)])"

declare string_of_nat.simps [simp del]

definition nat_of_digits :: "string \<Rightarrow> nat" where
  "nat_of_digits s = foldl (\<lambda>acc c. 10 * acc + (of_char c - 48)) 0 s"

section \<open>Lemmas on the helpers\<close>

lemma truthy_str_iff [js_simps]: "truthy_str s \<longleftrightarrow> s \<noteq> []"
  by (simp add: truthy_str_def)

lemma truthy_opt_simps [js_simps, simp]:
  "truthy_opt None = False" "truthy_opt (Some v) = (v \<noteq> [])"
  by (simp_all add: truthy_opt_def truthy_str_def)

lemma or_default_simps [js_simps, simp]:
  "or_default None d = d" "or_default (Some n) d = (if n = 0 then d else n)"
  by (simp_all add: or_default_def)

lemma str_or_simps [js_simps, simp]:
  "x \<noteq> [] \<Longrightarrow> str_or x d = x" "str_or [] d = d"
  by (simp_all add: str_or_def truthy_str_def)

lemma or_default_pos [simp]: "0 < d \<Longrightarrow> 0 < or_default x d"
  by (cases x) auto

lemma join_with_Cons [simp]:
  "xs \<noteq> [] \<Longrightarrow> join_with sep (x # xs) = x @ sep @ join_with sep xs"
  by (cases xs) auto

lemma length_join_with:
  "xs \<noteq> [] \<Longrightarrow> length (join_with sep xs) = sum_list (map length xs) + length sep * (length xs - 1)"
proof (induction xs rule: join_with.induct)
  case (3 sep x y ys)
  then show ?case by (cases ys) (auto simp: algebra_simps)
qed auto

lemma digit_char_is_digit [simp]: "d < 10 \<Longrightarrow> is_digit (digit_char d)"
  by (simp add: digit_char_def is_digit_def)

lemma of_char_digit_char [simp]: "d < 10 \<Longrightarrow> of_char (digit_char d) = 48 + d"
  by (simp add: digit_char_def)

lemma digit_char_eval [simp]:
  "digit_char 0 = CHR ''0''" "digit_char 1 = CHR ''1''" "digit_char (Suc 0) = CHR ''1''"
  "digit_char 2 = CHR ''2''" "digit_char 3 = CHR ''3''" "digit_char 4 = CHR ''4''"
  "digit_char 5 = CHR ''5''" "digit_char 6 = CHR ''6''" "digit_char 7 = CHR ''7''"
  "digit_char 8 = CHR ''8''" "digit_char 9 = CHR ''9''"
  unfolding digit_char_def by code_simp+

lemma string_of_nat_digits: "c \<in> set (string_of_nat n) \<Longrightarrow> is_digit c"
proof (induction n rule: string_of_nat.induct)
  case (1 n)
  then show ?case by (cases "n < 10") (auto simp: string_of_nat.simps [of n])
qed

lemma string_of_nat_ne [simp]: "string_of_nat n \<noteq> []"
  by (subst string_of_nat.simps) simp

lemma nat_of_digits_snoc [simp]:
  "nat_of_digits (s @ [c]) = 10 * nat_of_digits s + (of_char c - 48)"
  by (simp add: nat_of_digits_def)

lemma nat_of_digits_string_of_nat [simp]: "nat_of_digits (string_of_nat n) = n"
proof (induction n rule: string_of_nat.induct)
  case (1 n)
  show ?case
  proof (cases "n < 10")
    case True
    then show ?thesis by (simp add: string_of_nat.simps [of n] nat_of_digits_def)
  next
    case False
    then have "nat_of_digits (string_of_nat n) = 10 * (n div 10) + n mod 10"
      using "1.IH" by (simp add: string_of_nat.simps [of n])
    then show ?thesis by simp
  qed
qed

lemma string_of_nat_inj: "string_of_nat m = string_of_nat n \<Longrightarrow> m = n"
  by (metis nat_of_digits_string_of_nat)

section \<open>Lists updated in place by a predicate\<close>

text \<open>
  \<open>xs.map(x => p(x) ? f(x) : x)\<close> is the idiom the source uses to patch the elements
  of a list that match an identifier; these facts are shared by the reconciler and the
  page.
\<close>

lemma map_if_id: "\<forall>x\<in>set xs. \<not> p x \<Longrightarrow> map (\<lambda>x. if p x then f x else x) xs = xs"
  by (induction xs) auto

end
