(* ===== verification/Domain.thy ===== *)
theory Domain
  imports Prelude
begin

text \<open>
  The data model of \<^verbatim>\<open>src/frontend/src/types/index.ts\<close>: each TypeScript interface is a
  record, each string-literal union a datatype with one constructor per literal.
  Record fields carry a prefix of their record where two interfaces share a field name
  (\<open>id\<close>, \<open>origin\<close>, \<open>price\<close>, \<open>city\<close>, ...), since record fields are global constants.
  Optional properties (\<open>p?: T\<close>) are \<open>T option\<close>, \<open>None\<close> standing for \<open>undefined\<close>.
\<close>

datatype cabin_class = Economy | Business | First

datatype title = Mr | Mrs | Ms | Dr

datatype seat_type = Window | Middle | Aisle

datatype seat_status = Available | Occupied | Selected

datatype booking_status = Pending | Confirmed | Cancelled

record airport =
  airport_code :: string
  airport_name :: string
  airport_city :: string
  airport_country :: string

record flight =
  flight_id :: ident
  flight_number :: string
  airline :: string
  airline_logo :: string
  flight_origin :: airport
  flight_destination :: airport
  departure_time :: string
  arrival_time :: string
  duration :: nat
  price :: money
  currency :: string
  stops :: nat
  layovers :: "airport list option"
  available_seats :: nat
  flight_class :: cabin_class

record search_params =
  sp_origin :: string
  sp_destination :: string
  departure_date :: string
  return_date :: "string option"
  sp_passengers :: nat
  sp_class :: cabin_class

record passenger =
  passenger_id :: ident
  title :: title
  first_name :: string
  last_name :: string
  date_of_birth :: string
  email :: "string option"
  phone :: "string option"
  passport_number :: "string option"
  nationality :: "string option"

record seat =
  seat_id :: ident
  seat_row :: nat
  seat_column :: string
  seat_type :: seat_type
  seat_status :: seat_status
  seat_price :: "money option"

record booking =
  bk_id :: ident
  bk_flight_id :: ident
  bk_passengers :: "passenger list"
  bk_seats :: "seat list"
  total_price :: money
  bk_currency :: string
  bk_status :: booking_status
  booking_reference :: string
  created_at :: string

record billing_address =
  street :: string
  addr_city :: string
  addr_state :: string
  zip_code :: string
  addr_country :: string

record payment_info =
  card_number :: string
  card_holder :: string
  expiry_date :: string
  cvv :: string
  billing_address :: billing_address

record price_update =
  update_flight_id :: ident
  new_price :: money
  update_timestamp :: string

end
