(* ===== verification/Reconciler.thy ===== *)
theory Reconciler
  imports Domain
begin

text \<open>
  The Live Price Reconciler: the callback \<^verbatim>\<open>SearchPage\<close> hands to
  \<^verbatim>\<open>usePriceUpdates\<close> (\<^verbatim>\<open>pages/SearchPage.tsx\<close>, lines 24--31).  Every parsed
  \<open>PriceUpdate\<close> is applied as a functional state update to the held flight list:
  each flight whose \<open>id\<close> equals the update's \<open>flightId\<close> gets the new price, every other
  flight is kept.  React applies queued functional updates in the order they were
  enqueued, so a sequence of updates is a left fold in receipt order.

  The abstract specification is a map from flight identifiers to the latest price
  received for them; the refinement theorem says the list the page holds is always the
  search result overlaid with that map.
\<close>

definition apply_price_update :: "price_update \<Rightarrow> flight list \<Rightarrow> flight list" where
  "apply_price_update u fs =
     map (\<lambda>f. if flight_id f = update_flight_id u then f\<lparr>price := new_price u\<rparr> else f) fs"

definition apply_updates :: "price_update list \<Rightarrow> flight list \<Rightarrow> flight list" where
  "apply_updates us fs = fold apply_price_update us fs"

subsection \<open>Abstract specification: the latest price per flight\<close>

definition record_price :: "price_update \<Rightarrow> (ident \<rightharpoonup> money) \<Rightarrow> (ident \<rightharpoonup> money)" where
  "record_price u m = m(update_flight_id u \<mapsto> new_price u)"

definition latest_prices :: "price_update list \<Rightarrow> (ident \<rightharpoonup> money)" where
  "latest_prices us = fold record_price us Map.empty"

definition overlay :: "(ident \<rightharpoonup> money) \<Rightarrow> flight list \<Rightarrow> flight list" where
  "overlay m fs = map (\<lambda>f. case m (flight_id f) of None \<Rightarrow> f | Some p \<Rightarrow> f\<lparr>price := p\<rparr>) fs"

subsection \<open>Lemmas\<close>

lemma overlay_empty [simp]: "overlay Map.empty fs = fs"
  by (simp add: overlay_def)

lemma apply_price_update_overlay:
  "apply_price_update u (overlay m fs) = overlay (record_price u m) fs"
  by (induction fs) (auto simp: apply_price_update_def overlay_def record_price_def split: option.splits)

lemma apply_updates_overlay:
  "apply_updates us (overlay m fs) = overlay (fold record_price us m) fs"
  by (induction us arbitrary: m) (simp_all add: apply_updates_def apply_price_update_overlay)

lemma apply_updates_snoc [simp]:
  "apply_updates (us @ [u]) fs = apply_price_update u (apply_updates us fs)"
  by (simp add: apply_updates_def)

lemma latest_prices_snoc [simp]:
  "latest_prices (us @ [u]) = (latest_prices us)(update_flight_id u \<mapsto> new_price u)"
  by (simp add: latest_prices_def record_price_def)

lemma map_flight_id_apply_price_update [simp]:
  "map flight_id (apply_price_update u fs) = map flight_id fs"
  by (induction fs) (simp_all add: apply_price_update_def)

lemma map_flight_id_overlay [simp]: "map flight_id (overlay m fs) = map flight_id fs"
  by (induction fs) (simp_all add: overlay_def split: option.splits)

subsection \<open>Properties\<close>

text \<open>
  C6 (refinement): after any sequence of price updates, in receipt order, the held
  list is the original list with each flight's price replaced by the latest price
  received for its identifier, order, length and every other field unchanged.
\<close>

theorem apply_updates_refines_latest_prices:
  "apply_updates us fs = overlay (latest_prices us) fs"
  using apply_updates_overlay [of us Map.empty fs] by (simp add: latest_prices_def)

text \<open>
  C7: an update for a flight identifier that is not in the held list leaves the list
  unchanged in content and order.
\<close>

theorem apply_price_update_unknown_id:
  assumes "update_flight_id u \<notin> flight_id ` set fs"
  shows "apply_price_update u fs = fs"
  using assms unfolding apply_price_update_def by (intro map_if_id) (auto simp: image_iff)

text \<open>Updates for different flights commute.\<close>

lemma apply_price_update_commute:
  "update_flight_id u \<noteq> update_flight_id v \<Longrightarrow>
   apply_price_update u (apply_price_update v fs) = apply_price_update v (apply_price_update u fs)"
  by (induction fs) (auto simp: apply_price_update_def)

end
