(* ===== verification/Seat_Map.thy ===== *)
theory Seat_Map
  imports Domain
begin

text \<open>
  The seat-selection view \<^verbatim>\<open>components/SeatMap.tsx\<close>.  Its local state is the
  selection \<open>selectedSeats\<close> (a list, in click order); its props are the fetched seats,
  \<open>maxSelections\<close> and the \<open>onSelectionChange\<close> callback.  A click either does nothing
  (occupied seat), is rejected with an \<open>alert\<close> (selection full), or produces a new
  selection that is stored and emitted to the page.  The grid groups the seats by row
  (rows ascending, numerically) and sorts each row by column.
\<close>

datatype click_outcome = Ignored | Rejected string | Changed "seat list"

datatype seat_cell = SeatCell seat | AisleGap

subsection \<open>Clicks\<close>

definition is_selected :: "seat list \<Rightarrow> seat \<Rightarrow> bool" where
  "is_selected sel seat \<longleftrightarrow> list_ex (\<lambda>s. seat_id s = seat_id seat) sel"

definition handle_seat_click :: "nat \<Rightarrow> seat list \<Rightarrow> seat \<Rightarrow> click_outcome" where
  "handle_seat_click max_sel sel seat =
     (if seat_status seat = Occupied then Ignored
      else if is_selected sel seat then Changed (filter (\<lambda>s. seat_id s \<noteq> seat_id seat) sel)
      else if max_sel \<le> length sel
        then Rejected (''You can only select '' @ string_of_nat max_sel @ '' seat(s)'')
      else Changed (sel @ [seat]))"

text \<open>The selection after a click: \<open>setSelectedSeats(newSelection)\<close> on a change only.\<close>

definition seat_map_click :: "nat \<Rightarrow> seat list \<Rightarrow> seat \<Rightarrow> seat list" where
  "seat_map_click max_sel sel seat =
     (case handle_seat_click max_sel sel seat of Changed sel' \<Rightarrow> sel' | _ \<Rightarrow> sel)"

definition seat_type_name :: "seat_type \<Rightarrow> string" where
  "seat_type_name t = (case t of Window \<Rightarrow> ''window'' | Middle \<Rightarrow> ''middle'' | Aisle \<Rightarrow> ''aisle'')"

definition seat_status_name :: "seat_status \<Rightarrow> string" where
  "seat_status_name st =
     (case st of Available \<Rightarrow> ''available'' | Occupied \<Rightarrow> ''occupied'' | Selected \<Rightarrow> ''selected'')"

definition get_seat_class :: "seat list \<Rightarrow> seat \<Rightarrow> string" where
  "get_seat_class sel seat =
     ''seat seat-'' @ seat_type_name (seat_type seat) @ '' seat-'' @
     (if is_selected sel seat then ''selected'' else seat_status_name (seat_status seat))"

subsection \<open>Layout\<close>

text \<open>
  \<open>seats.reduce(...)\<close> groups the seats into a record keyed by row, each row's list in
  input order.  \<open>Object.keys\<close> enumerates integer keys in ascending order; the source
  maps them back to numbers and sorts them numerically.  Each row is then sorted by
  \<open>column.localeCompare\<close>, modelled as the lexicographic order on character codes
  (the two agree on the single upper-case letters the seat columns use).
\<close>

definition seats_by_row :: "seat list \<Rightarrow> (nat \<rightharpoonup> seat list)" where
  "seats_by_row seats =
     foldl (\<lambda>acc s. acc(seat_row s \<mapsto> (case acc (seat_row s) of None \<Rightarrow> [] | Some l \<Rightarrow> l) @ [s]))
       Map.empty seats"

definition seat_rows :: "seat list \<Rightarrow> nat list" where
  "seat_rows seats = sort (remdups (map seat_row seats))"

definition row_seats :: "seat list \<Rightarrow> nat \<Rightarrow> seat list" where
  "row_seats seats r =
     sort_key seat_column (case seats_by_row seats r of None \<Rightarrow> [] | Some l \<Rightarrow> l)"

definition seat_layout :: "seat list \<Rightarrow> (nat \<times> seat list) list" where
  "seat_layout seats = map (\<lambda>r. (r, row_seats seats r)) (seat_rows seats)"

text \<open>A gap follows a seat of column C unless it is the last seat of its row.\<close>

definition row_cells :: "seat list \<Rightarrow> seat_cell list" where
  "row_cells ss =
     concat (map (\<lambda>(i, s). SeatCell s #
                    (if seat_column s = ''C'' \<and> i < length ss - 1 then [AisleGap] else []))
                 (enumerate 0 ss))"

subsection \<open>Labels\<close>

text \<open>\<open>`${s.row}${s.column}`\<close>, and the summary line joining them with \<open>', '\<close>.\<close>

definition seat_label :: "seat \<Rightarrow> string" where
  "seat_label s = string_of_nat (seat_row s) @ seat_column s"

definition selection_summary :: "seat list \<Rightarrow> string" where
  "selection_summary sel = join_with '', '' (map seat_label sel)"

definition parse_seat_label :: "string \<Rightarrow> nat \<times> string" where
  "parse_seat_label l = (nat_of_digits (takeWhile is_digit l), dropWhile is_digit l)"

subsection \<open>Invariant and observations\<close>

text \<open>The seats a rendered row shows, in order, forgetting the aisle gaps.\<close>

definition seats_of_cells :: "seat_cell list \<Rightarrow> seat list" where
  "seats_of_cells cs = concat (map (\<lambda>c. case c of SeatCell s \<Rightarrow> [s] | AisleGap \<Rightarrow> []) cs)"

text \<open>The selection after a sequence of clicks on a freshly mounted map.\<close>

definition seat_map_run :: "nat \<Rightarrow> seat list \<Rightarrow> seat list" where
  "seat_map_run max_sel clicks = fold (\<lambda>s sel. seat_map_click max_sel sel s) clicks []"

definition selection_ok :: "nat \<Rightarrow> seat list \<Rightarrow> bool" where
  "selection_ok max_sel sel \<longleftrightarrow>
     length sel \<le> max_sel \<and> distinct (map seat_id sel) \<and> list_all (\<lambda>s. seat_status s \<noteq> Occupied) sel"

subsection \<open>Lemmas\<close>

lemma seats_by_row_eq:
  "seats_by_row seats r =
     (if r \<in> seat_row ` set seats then Some (filter (\<lambda>s. seat_row s = r) seats) else None)"
  unfolding seats_by_row_def
proof (induction seats rule: rev_induct)
  case Nil
  then show ?case by simp
next
  case (snoc x xs)
  then show ?case
    by (auto simp: filter_empty_conv empty_filter_conv image_iff split: option.splits if_splits)
qed

lemma row_seats_eq: "row_seats seats r = sort_key seat_column (filter (\<lambda>s. seat_row s = r) seats)"
proof (cases "r \<in> seat_row ` set seats")
  case True
  then show ?thesis by (simp add: row_seats_def seats_by_row_eq)
next
  case False
  then have "filter (\<lambda>s. seat_row s = r) seats = []"
    by (auto simp: filter_empty_conv)
  with False show ?thesis by (simp add: row_seats_def seats_by_row_eq)
qed

lemma mset_concat_filter_Cons:
  "distinct rs \<Longrightarrow>
   mset (concat (map (\<lambda>r. filter (\<lambda>y. key y = r) (x # xs)) rs)) =
   mset (concat (map (\<lambda>r. filter (\<lambda>y. key y = r) xs) rs)) + (if key x \<in> set rs then {#x#} else {#})"
  by (induction rs) auto

lemma mset_concat_filter_partition:
  "distinct rs \<Longrightarrow> key ` set xs \<subseteq> set rs \<Longrightarrow>
   mset (concat (map (\<lambda>r. filter (\<lambda>y. key y = r) xs) rs)) = mset xs"
proof (induction xs)
  case Nil
  then show ?case by (induction rs) simp_all
next
  case (Cons a xs)
  then have "key a \<in> set rs" and "key ` set xs \<subseteq> set rs" by auto
  with Cons.prems(1) mset_concat_filter_Cons [of rs key a xs]
  have "mset (concat (map (\<lambda>r. filter (\<lambda>y. key y = r) (a # xs)) rs)) =
        mset (concat (map (\<lambda>r. filter (\<lambda>y. key y = r) xs) rs)) + {#a#}"
    by simp
  with Cons.IH Cons.prems(1) \<open>key ` set xs \<subseteq> set rs\<close> show ?case by simp
qed

lemma seat_layout_rows: "map fst (seat_layout seats) = seat_rows seats"
  by (simp add: seat_layout_def comp_def)

lemma seat_layout_perm: "mset (concat (map snd (seat_layout seats))) = mset seats"
proof -
  have "mset (concat (map snd (seat_layout seats))) =
        mset (concat (map (\<lambda>r. filter (\<lambda>s. seat_row s = r) seats) (seat_rows seats)))"
    by (simp add: seat_layout_def row_seats_eq mset_concat comp_def)
  also have "\<dots> = mset seats"
    by (rule mset_concat_filter_partition) (auto simp: seat_rows_def)
  finally show ?thesis .
qed

lemma seat_layout_sorted:
  "sorted (map fst (seat_layout seats)) \<and> distinct (map fst (seat_layout seats)) \<and>
   list_all (\<lambda>(r, ss). sorted (map seat_column ss) \<and> list_all (\<lambda>s. seat_row s = r) ss) (seat_layout seats)"
  by (auto simp: seat_layout_def seat_rows_def row_seats_eq list_all_iff comp_def)

lemma seats_of_cells_enumerate:
  "seats_of_cells (concat (map (\<lambda>(i, s). SeatCell s # (if P i s then [AisleGap] else [])) (enumerate n ss))) = ss"
  by (induction ss arbitrary: n) (simp_all add: seats_of_cells_def)

lemma seats_of_row_cells: "seats_of_cells (row_cells ss) = ss"
  unfolding row_cells_def by (rule seats_of_cells_enumerate)

lemma is_selected_iff: "is_selected sel seat \<longleftrightarrow> seat_id seat \<in> seat_id ` set sel"
  unfolding is_selected_def list_ex_iff image_iff by metis

lemma selection_ok_click:
  "selection_ok m sel \<Longrightarrow> selection_ok m (seat_map_click m sel seat)"
  by (auto simp: selection_ok_def seat_map_click_def handle_seat_click_def is_selected_iff
        distinct_map_filter list_all_iff intro: order_trans [OF length_filter_le])

lemma click_adds:
  "\<not> is_selected sel s \<Longrightarrow> seat_status s \<noteq> Occupied \<Longrightarrow> length sel < m \<Longrightarrow>
   seat_map_click m sel s = sel @ [s]"
  by (simp add: seat_map_click_def handle_seat_click_def)

lemma click_toggle:
  assumes "\<not> is_selected sel s" "seat_status s \<noteq> Occupied" "length sel < m"
  shows "seat_map_click m (seat_map_click m sel s) s = sel"
proof -
  have "seat_map_click m sel s = sel @ [s]"
    using assms by (rule click_adds)
  moreover have "filter (\<lambda>x. seat_id x \<noteq> seat_id s) sel = sel"
    using assms(1) by (auto simp: is_selected_def list_ex_iff filter_id_conv)
  ultimately show ?thesis
    using assms by (simp add: seat_map_click_def handle_seat_click_def is_selected_def)
qed

lemma parse_seat_label:
  assumes "seat_column s = [] \<or> \<not> is_digit (hd (seat_column s))"
  shows "parse_seat_label (seat_label s) = (seat_row s, seat_column s)"
proof -
  have d: "\<And>c. c \<in> set (string_of_nat (seat_row s)) \<Longrightarrow> is_digit c"
    by (rule string_of_nat_digits)
  have "takeWhile is_digit (seat_column s) = []" "dropWhile is_digit (seat_column s) = seat_column s"
    using assms by (cases "seat_column s"; simp)+
  then show ?thesis
    by (simp add: parse_seat_label_def seat_label_def takeWhile_append2 dropWhile_append2 d)
qed


text \<open>Clicks on distinct free seats within the bound append them in click order.\<close>

lemma fold_clicks_append:
  assumes "distinct (map seat_id clicks)" "\<forall>c\<in>set clicks. seat_status c \<noteq> Occupied \<and> \<not> is_selected sel c"
    and "length sel + length clicks \<le> m"
  shows "fold (\<lambda>s sel. seat_map_click m sel s) clicks sel = sel @ clicks"
  using assms
proof (induction clicks arbitrary: sel)
  case (Cons c cs)
  have add: "seat_map_click m sel c = sel @ [c]"
    using Cons.prems by (intro click_adds) auto
  have "\<forall>c'\<in>set cs. seat_status c' \<noteq> Occupied \<and> \<not> is_selected (sel @ [c]) c'"
    using Cons.prems(1,2) by (auto simp: is_selected_def)
  with Cons.prems(1,3) have "fold (\<lambda>s sel. seat_map_click m sel s) cs (sel @ [c]) = (sel @ [c]) @ cs"
    by (intro Cons.IH) auto
  with add show ?case by simp
qed simp

lemma selection_ok_fold:
  "selection_ok m sel \<Longrightarrow> selection_ok m (fold (\<lambda>s sel. seat_map_click m sel s) clicks sel)"
  by (induction clicks arbitrary: sel) (simp_all add: selection_ok_click)

subsection \<open>Properties\<close>

text \<open>
  C12 (invariant): whatever seats the user clicks, the selection of a seat map never
  holds more than \<open>maxSelections\<close> seats, never holds the same seat twice, and never
  holds an occupied seat.
\<close>

theorem seat_map_run_selection_ok: "selection_ok m (seat_map_run m clicks)"
  unfolding seat_map_run_def
  by (rule selection_ok_fold) (simp add: selection_ok_def)

text \<open>
  C13 (roundtrip): clicking an available, unselected seat while the selection has room
  appends it to the selection, and clicking it again gives back the selection it
  started from.
\<close>

theorem seat_click_toggle_roundtrip:
  assumes "\<not> is_selected sel s" "seat_status s \<noteq> Occupied" "length sel < m"
  shows "seat_map_click m sel s = sel @ [s] \<and> seat_map_click m (seat_map_click m sel s) s = sel"
  using click_adds [OF assms] click_toggle [OF assms] by simp

text \<open>
  C23 (functional): clicks on distinct seats that are not occupied, no more of them than
  \<open>maxSelections\<close>, give a freshly mounted seat map exactly those seats, in the order
  they were clicked; the page and the confirmation use this order (not a sorted one).
\<close>

theorem seat_map_run_click_order:
  assumes "distinct (map seat_id clicks)" "\<forall>c\<in>set clicks. seat_status c \<noteq> Occupied"
    and "length clicks \<le> m"
  shows "seat_map_run m clicks = clicks"
  using fold_clicks_append [of clicks "[]" m] assms by (simp add: seat_map_run_def is_selected_def)

text \<open>
  C14 (sorted permutation): the seat grid shows every fetched seat exactly once, rows
  in strictly ascending numeric order, each row's seats sorted by column and all of
  that row.
\<close>

theorem seat_grid_sorted_permutation:
  "mset (concat (map (\<lambda>(r, ss). seats_of_cells (row_cells ss)) (seat_layout seats))) = mset seats \<and>
   sorted (map fst (seat_layout seats)) \<and> distinct (map fst (seat_layout seats)) \<and>
   list_all (\<lambda>(r, ss). sorted (map seat_column ss) \<and> list_all (\<lambda>s. seat_row s = r) ss)
     (seat_layout seats)"
proof -
  have eq: "map (\<lambda>(r, ss). seats_of_cells (row_cells ss)) (seat_layout seats) =
            map snd (seat_layout seats)"
    by (auto simp: seats_of_row_cells)
  show ?thesis
    unfolding eq using seat_layout_perm [of seats] seat_layout_sorted [of seats] by simp
qed

text \<open>
  A seat label \<open>`${row}${column}`\<close> determines the seat's row and
  column whenever the column does not start with a digit.
\<close>

theorem seat_label_roundtrip:
  assumes "seat_column s = [] \<or> \<not> is_digit (hd (seat_column s))"
  shows "parse_seat_label (seat_label s) = (seat_row s, seat_column s)"
  using assms by (rule parse_seat_label)

end
