(* ===== verification/Dates.thy ===== *)
theory Dates
  imports Prelude "HOL-Library.Product_Lexorder"
begin

text \<open>
  The dates the forms handle.  Three inputs of the front end have \<open>type="date"\<close>: the
  departure and return dates of \<^verbatim>\<open>SearchForm.tsx\<close> and the date of birth of
  \<^verbatim>\<open>PassengerForm.tsx\<close>.  The browser keeps the value of such an input either empty or
  a valid date string \<open>yyyy-mm-dd\<close> (four or more year digits, a real day of the
  month), and refuses to submit the form while a value lies before the input's \<open>min\<close>
  or after its \<open>max\<close>, comparing the parsed dates; a \<open>min\<close> or \<open>max\<close> that does not
  parse is ignored.  The sources compute those bounds as
  \<open>new Date().toISOString().split('T')[0]\<close>: the UTC calendar date of the clock, which
  \<open>iso_date\<close> computes from the milliseconds since the epoch by walking years and
  months from 1970.  \<open>local_date\<close> is the date the user's own calendar shows at a
  time-zone offset (\<open>getTimezoneOffset\<close>, minutes west of UTC).
\<close>

type_synonym ymd = "nat \<times> nat \<times> nat"

section \<open>The calendar\<close>

definition is_leap :: "nat \<Rightarrow> bool" where
  "is_leap y \<longleftrightarrow> (4 dvd y \<and> \<not> 100 dvd y) \<or> 400 dvd y"

definition days_in_month :: "nat \<Rightarrow> nat \<Rightarrow> nat" where
  "days_in_month y m =
     (if m = 2 then (if is_leap y then 29 else 28)
      else if m = 4 \<or> m = 6 \<or> m = 9 \<or> m = 11 then 30 else 31)"

definition year_days :: "nat \<Rightarrow> nat" where
  "year_days y = (if is_leap y then 366 else 365)"

definition valid_ymd :: "ymd \<Rightarrow> bool" where
  "valid_ymd d \<longleftrightarrow>
     (case d of (y, m, dd) \<Rightarrow> 0 < y \<and> 1 \<le> m \<and> m \<le> 12 \<and> 1 \<le> dd \<and> dd \<le> days_in_month y m)"

section \<open>Date strings\<close>

text \<open>Left padding with zeros, as the serialisations of dates do.\<close>

definition zero_pad :: "nat \<Rightarrow> string \<Rightarrow> string" where
  "zero_pad k s = replicate (k - length s) (CHR ''0'') @ s"

definition format_date :: "ymd \<Rightarrow> string" where
  "format_date d =
     (case d of (y, m, dd) \<Rightarrow>
        zero_pad 4 (string_of_nat y) @ ''-'' @ zero_pad 2 (string_of_nat m) @ ''-'' @
        zero_pad 2 (string_of_nat dd))"

text \<open>
  Parsing a date string: at least four year digits, a hyphen, two month digits, a
  hyphen, two day digits, and nothing else; the date must exist.
\<close>

definition parse_date :: "string \<Rightarrow> ymd option" where
  "parse_date s =
     (let ys = takeWhile is_digit s in
      case dropWhile is_digit s of
        [c1, m1, m2, c2, d1, d2] \<Rightarrow>
          (let d = (nat_of_digits ys, nat_of_digits [m1, m2], nat_of_digits [d1, d2])
           in if 4 \<le> length ys \<and> c1 = CHR ''-'' \<and> c2 = CHR ''-'' \<and> list_all is_digit [m1, m2, d1, d2] \<and>
                 valid_ymd d
              then Some d else None)
      | _ \<Rightarrow> None)"

text \<open>The values a \<open>type="date"\<close> input can hold after value sanitization.\<close>

definition date_value_ok :: "string \<Rightarrow> bool" where
  "date_value_ok v \<longleftrightarrow> v = [] \<or> parse_date v \<noteq> None"

text \<open>Range checks of constraint validation: an empty value or an unparsable bound never
  fails them.\<close>

definition below_min :: "string \<Rightarrow> string \<Rightarrow> bool" where
  "below_min v mn = (case (parse_date v, parse_date mn) of (Some a, Some b) \<Rightarrow> a < b | _ \<Rightarrow> False)"

definition above_max :: "string \<Rightarrow> string \<Rightarrow> bool" where
  "above_max v mx = (case (parse_date v, parse_date mx) of (Some a, Some b) \<Rightarrow> b < a | _ \<Rightarrow> False)"

section \<open>The clock\<close>

function year_walk :: "nat \<Rightarrow> nat \<Rightarrow> nat \<times> nat" where
  "year_walk y n = (if n < year_days y then (y, n) else year_walk (Suc y) (n - year_days y))"
  by pat_completeness auto

termination by (relation "measure snd") (auto simp: year_days_def)

function month_walk :: "nat \<Rightarrow> nat \<Rightarrow> nat \<Rightarrow> nat \<times> nat" where
  "month_walk y m n =
     (if 12 \<le> m \<or> n < days_in_month y m then (m, n)
      else month_walk y (Suc m) (n - days_in_month y m))"
  by pat_completeness auto

termination by (relation "measure (\<lambda>(y, m, n). 12 - m)") auto

declare year_walk.simps [simp del] month_walk.simps [simp del]

text \<open>The calendar date of day \<open>k\<close> after 1970-01-01.\<close>

definition civil_of_days :: "nat \<Rightarrow> ymd" where
  "civil_of_days k =
     (case year_walk 1970 k of (y, r) \<Rightarrow> (case month_walk y 1 r of (m, r') \<Rightarrow> (y, m, Suc r')))"

text \<open>
  \<open>new Date(ms).toISOString().split('T')[0]\<close>: years up to 9999 have four digits,
  later ones the expanded form \<open>+yyyyyy\<close>.
\<close>

definition iso_date :: "nat \<Rightarrow> string" where
  "iso_date ms =
     (case civil_of_days (ms div 86400000) of (y, m, d) \<Rightarrow>
        (if y \<le> 9999 then zero_pad 4 (string_of_nat y) else ''+'' @ zero_pad 6 (string_of_nat y)) @
        ''-'' @ zero_pad 2 (string_of_nat m) @ ''-'' @ zero_pad 2 (string_of_nat d))"

text \<open>The calendar date of the user's time zone, \<open>offset\<close> minutes west of UTC.\<close>

definition local_date :: "nat \<Rightarrow> int \<Rightarrow> string" where
  "local_date ms offset = format_date (civil_of_days (nat ((int ms - offset * 60000) div 86400000)))"

section \<open>Lemmas\<close>

lemma year_days_pos: "0 < year_days y"
  by (simp add: year_days_def)

lemma sum_days_in_month: "(\<Sum>i=1..12. days_in_month y i) = year_days y"
  by (simp add: days_in_month_def year_days_def numeral_eq_Suc sum.atLeast_Suc_atMost)

lemma year_walk_bound: "year_walk y n = (y', r) \<Longrightarrow> y \<le> y' \<and> r < year_days y'"
proof (induction y n rule: year_walk.induct)
  case (1 y n)
  show ?case
  proof (cases "n < year_days y")
    case True
    with "1.prems" show ?thesis by (simp add: year_walk.simps [of y n])
  next
    case False
    with "1.prems" have "year_walk (Suc y) (n - year_days y) = (y', r)"
      by (simp add: year_walk.simps [of y n])
    with "1.IH" [OF False] show ?thesis by simp
  qed
qed

lemma month_walk_bound:
  "1 \<le> m \<Longrightarrow> m \<le> 12 \<Longrightarrow> n < (\<Sum>i=m..12. days_in_month y i) \<Longrightarrow> month_walk y m n = (m', r) \<Longrightarrow>
   m \<le> m' \<and> m' \<le> 12 \<and> r < days_in_month y m'"
proof (induction y m n rule: month_walk.induct)
  case (1 y m n)
  show ?case
  proof (cases "12 \<le> m \<or> n < days_in_month y m")
    case True
    with "1.prems" show ?thesis by (auto simp: month_walk.simps [of y m n])
  next
    case False
    then have m: "m < 12" and n: "days_in_month y m \<le> n" by auto
    have "(\<Sum>i=m..12. days_in_month y i) = days_in_month y m + (\<Sum>i=Suc m..12. days_in_month y i)"
      using m by (simp add: sum.atLeast_Suc_atMost)
    with "1.prems"(3) n have "n - days_in_month y m < (\<Sum>i=Suc m..12. days_in_month y i)" by linarith
    moreover from "1.prems"(4) False have "month_walk y (Suc m) (n - days_in_month y m) = (m', r)"
      by (simp add: month_walk.simps [of y m n])
    ultimately show ?thesis using "1.IH" [OF False] m by fastforce
  qed
qed

lemma civil_of_days_valid: "valid_ymd (civil_of_days k)"
proof -
  obtain y r where yw: "year_walk 1970 k = (y, r)" by fastforce
  obtain m r' where mw: "month_walk y 1 r = (m, r')" by fastforce
  from year_walk_bound [OF yw] have y: "1970 \<le> y" by simp
  have r: "r < (\<Sum>i=1..12. days_in_month y i)"
    using year_walk_bound [OF yw] sum_days_in_month [of y] by linarith
  from month_walk_bound [OF _ _ r mw] have "1 \<le> m \<and> m \<le> 12 \<and> r' < days_in_month y m" by simp
  with y yw mw show ?thesis by (simp add: civil_of_days_def valid_ymd_def)
qed

lemma civil_of_days_year: "1970 \<le> fst (civil_of_days k)"
  using year_walk_bound [of 1970 k] by (simp add: civil_of_days_def split: prod.splits)

lemma zero_pad_digits: "c \<in> set (zero_pad k (string_of_nat n)) \<Longrightarrow> is_digit c"
  by (auto simp: zero_pad_def is_digit_def dest: string_of_nat_digits)

lemma nat_of_digits_zeros: "nat_of_digits (replicate k (CHR ''0'') @ s) = nat_of_digits s"
  by (induction k) (simp_all add: nat_of_digits_def)

lemma nat_of_digits_zero_pad [simp]: "nat_of_digits (zero_pad k (string_of_nat n)) = n"
  by (simp add: zero_pad_def nat_of_digits_zeros)

lemma length_zero_pad: "length (zero_pad k s) = max k (length s)"
  by (simp add: zero_pad_def)

lemma length_string_of_nat_100: "n < 100 \<Longrightarrow> length (string_of_nat n) \<le> 2"
proof -
  assume "n < 100"
  then have "n div 10 < 10" by simp
  then show ?thesis by (simp add: string_of_nat.simps [of n] string_of_nat.simps [of "n div 10"])
qed

lemma zero_pad_2:
  assumes "n < 100"
  obtains a b where "zero_pad 2 (string_of_nat n) = [a, b]" "is_digit a" "is_digit b"
proof -
  have "length (zero_pad 2 (string_of_nat n)) = 2"
    using length_string_of_nat_100 [OF assms] by (simp add: length_zero_pad)
  then obtain a b where ab: "zero_pad 2 (string_of_nat n) = [a, b]"
    by (auto simp: length_Suc_conv numeral_2_eq_2)
  moreover have "is_digit a" "is_digit b"
    using zero_pad_digits [of _ 2 n] ab by auto
  ultimately show ?thesis by (rule that)
qed

lemma split_digits:
  assumes "\<And>c. c \<in> set ds \<Longrightarrow> is_digit c"
  shows "takeWhile is_digit (ds @ CHR ''-'' # rest) = ds"
    and "dropWhile is_digit (ds @ CHR ''-'' # rest) = CHR ''-'' # rest"
  using assms by (simp_all add: takeWhile_append2 dropWhile_append2 is_digit_def)

lemma valid_ymd_small: "valid_ymd (y, m, d) \<Longrightarrow> m < 100 \<and> d < 100"
  by (auto simp: valid_ymd_def days_in_month_def split: if_splits)

lemma parse_format_date: "valid_ymd d \<Longrightarrow> parse_date (format_date d) = Some d"
proof (cases d)
  case (fields y m dd)
  assume v: "valid_ymd d"
  with fields have small: "m < 100" "dd < 100" by (simp_all add: valid_ymd_small)
  obtain m1 m2 where m: "zero_pad 2 (string_of_nat m) = [m1, m2]" "is_digit m1" "is_digit m2"
    using zero_pad_2 [OF small(1)] by blast
  obtain d1 d2 where dd: "zero_pad 2 (string_of_nat dd) = [d1, d2]" "is_digit d1" "is_digit d2"
    using zero_pad_2 [OF small(2)] by blast
  let ?ys = "zero_pad 4 (string_of_nat y)"
  have fd: "format_date d = ?ys @ CHR ''-'' # [m1, m2, CHR ''-'', d1, d2]"
    using fields m dd by (simp add: format_date_def)
  have "4 \<le> length ?ys" by (simp add: length_zero_pad)
  moreover have "nat_of_digits [m1, m2] = m" "nat_of_digits [d1, d2] = dd"
    using nat_of_digits_zero_pad [of 2 m] nat_of_digits_zero_pad [of 2 dd] m(1) dd(1) by simp_all
  ultimately show ?thesis
    using v fields m dd split_digits [of ?ys "[m1, m2, CHR ''-'', d1, d2]", OF zero_pad_digits] fd
    by (simp add: parse_date_def Let_def)
qed

lemma iso_date_format:
  "fst (civil_of_days (ms div 86400000)) \<le> 9999 \<Longrightarrow>
   iso_date ms = format_date (civil_of_days (ms div 86400000))"
  by (cases "civil_of_days (ms div 86400000)") (simp add: iso_date_def format_date_def)

lemma parse_iso_date:
  "fst (civil_of_days (ms div 86400000)) \<le> 9999 \<Longrightarrow>
   parse_date (iso_date ms) = Some (civil_of_days (ms div 86400000))"
  by (simp add: iso_date_format parse_format_date civil_of_days_valid)

lemma below_min_parsed:
  "parse_date v = Some a \<Longrightarrow> parse_date mn = Some b \<Longrightarrow> below_min v mn \<longleftrightarrow> a < b"
  by (simp add: below_min_def)

lemmas date_eval = iso_date_def local_date_def format_date_def civil_of_days_def year_walk.simps
  month_walk.simps year_days_def is_leap_def days_in_month_def zero_pad_def string_of_nat.simps

end
