(* ===== verification/Search_Form.thy ===== *)
theory Search_Form
  imports Domain Dates
begin

text \<open>
  The search view \<^verbatim>\<open>components/SearchForm.tsx\<close>.  Its local state is the draft
  \<open>formData\<close>; every input writes one field of it (\<open>handleChange\<close>), and submitting
  hands the draft to the page.  The browser only submits when the \<open>required\<close> inputs
  (origin, destination, departure date) are non-empty, and the passenger count comes
  from a \<open>select\<close> whose options are 1 to 8, read back with \<open>parseInt\<close>.  The two date
  inputs hold an empty or a valid date string (\<open>Dates\<close>); the departure date may not
  lie before \<open>today\<close>, the UTC date the last render computed, and the return date not
  before \<open>formData.departureDate || today\<close>.
\<close>

datatype search_field =
    Origin string
  | Destination string
  | DepartureDate string
  | ReturnDate string
  | Passengers nat
  | CabinClass cabin_class

definition search_form_init :: search_params where
  "search_form_init =
     \<lparr>sp_origin = [], sp_destination = [], departure_date = [], return_date = Some [],
      sp_passengers = 1, sp_class = Economy\<rparr>"

fun search_form_change :: "search_params \<Rightarrow> search_field \<Rightarrow> search_params" where
  "search_form_change d (Origin v) = d\<lparr>sp_origin := v\<rparr>"
| "search_form_change d (Destination v) = d\<lparr>sp_destination := v\<rparr>"
| "search_form_change d (DepartureDate v) = d\<lparr>departure_date := v\<rparr>"
| "search_form_change d (ReturnDate v) = d\<lparr>return_date := Some v\<rparr>"
| "search_form_change d (Passengers n) = d\<lparr>sp_passengers := n\<rparr>"
| "search_form_change d (CabinClass c) = d\<lparr>sp_class := c\<rparr>"

definition passenger_options :: "nat list" where
  "passenger_options = [1, 2, 3, 4, 5, 6, 7, 8]"

text \<open>The inputs the rendered form can produce: the passenger select offers 1 to 8 only,
  the date inputs hand over sanitized values.\<close>

fun search_field_allowed :: "search_field \<Rightarrow> bool" where
  "search_field_allowed (Passengers n) = (n \<in> set passenger_options)"
| "search_field_allowed (DepartureDate v) = date_value_ok v"
| "search_field_allowed (ReturnDate v) = date_value_ok v"
| "search_field_allowed _ = True"

text \<open>Constraint validation on submit: \<open>required\<close> on origin, destination and
  departure, and the \<open>min\<close> of both date inputs.\<close>

definition search_submittable :: "string \<Rightarrow> search_params \<Rightarrow> bool" where
  "search_submittable today d \<longleftrightarrow>
     sp_origin d \<noteq> [] \<and> sp_destination d \<noteq> [] \<and> departure_date d \<noteq> [] \<and>
     \<not> below_min (departure_date d) today \<and>
     \<not> below_min (case return_date d of None \<Rightarrow> [] | Some r \<Rightarrow> r) (str_or (departure_date d) today)"

definition search_draft_ok :: "search_params \<Rightarrow> bool" where
  "search_draft_ok d \<longleftrightarrow>
     1 \<le> sp_passengers d \<and> sp_passengers d \<le> 8 \<and> date_value_ok (departure_date d) \<and>
     (case return_date d of None \<Rightarrow> True | Some r \<Rightarrow> date_value_ok r)"

text \<open>The dates of a search that passed validation: a valid departure, and a return date
  that is empty or a valid date not before it.\<close>

definition search_dates_ok :: "search_params \<Rightarrow> bool" where
  "search_dates_ok d \<longleftrightarrow>
     (case parse_date (departure_date d) of None \<Rightarrow> False
      | Some dep \<Rightarrow>
          (case return_date d of None \<Rightarrow> True
           | Some r \<Rightarrow> r = [] \<or> (case parse_date r of None \<Rightarrow> False | Some ret \<Rightarrow> dep \<le> ret)))"

definition search_form_run :: "search_field list \<Rightarrow> search_params" where
  "search_form_run fs = fold (\<lambda>f d. search_form_change d f) fs search_form_init"

subsection \<open>Lemmas\<close>

lemma search_draft_ok_init [simp]: "search_draft_ok search_form_init"
  by (simp add: search_draft_ok_def search_form_init_def date_value_ok_def)

lemma search_draft_ok_change:
  "search_draft_ok d \<Longrightarrow> search_field_allowed f \<Longrightarrow> search_draft_ok (search_form_change d f)"
  by (cases f) (auto simp: search_draft_ok_def passenger_options_def)

lemma search_draft_ok_fold:
  "search_draft_ok d \<Longrightarrow> list_all search_field_allowed fs \<Longrightarrow>
   search_draft_ok (fold (\<lambda>f d. search_form_change d f) fs d)"
  by (induction fs arbitrary: d) (simp_all add: search_draft_ok_change)

text \<open>What constraint validation guarantees of a sanitized draft it lets through.\<close>

lemma search_submit_ok:
  assumes "search_draft_ok d" "search_submittable today d"
  shows "sp_origin d \<noteq> [] \<and> sp_destination d \<noteq> [] \<and> search_dates_ok d"
proof -
  from assms obtain dep where dep: "parse_date (departure_date d) = Some dep"
    by (auto simp: search_draft_ok_def search_submittable_def date_value_ok_def)
  have "r = [] \<or> (case parse_date r of None \<Rightarrow> False | Some ret \<Rightarrow> dep \<le> ret)"
    if r: "return_date d = Some r" for r
  proof (cases "r = []")
    case False
    with assms(1) r obtain ret where ret: "parse_date r = Some ret"
      by (auto simp: search_draft_ok_def date_value_ok_def)
    from assms(2) r have "\<not> below_min r (departure_date d)"
      by (auto simp: search_submittable_def)
    with ret dep show ?thesis by (simp add: below_min_parsed not_less)
  qed simp
  with assms(2) dep show ?thesis
    by (auto simp: search_submittable_def search_dates_ok_def split: option.splits)
qed

lemma search_submit_dates:
  assumes "search_draft_ok d" "search_submittable today d" "parse_date today = Some t"
  shows "\<exists>dep. parse_date (departure_date d) = Some dep \<and> t \<le> dep \<and>
           (\<forall>r. return_date d = Some r \<longrightarrow> r = [] \<or> (\<exists>ret. parse_date r = Some ret \<and> dep \<le> ret))"
proof -
  from search_submit_ok [OF assms(1,2)] obtain dep where dep: "parse_date (departure_date d) = Some dep"
    and ret: "\<forall>r. return_date d = Some r \<longrightarrow> r = [] \<or> (\<exists>ret. parse_date r = Some ret \<and> dep \<le> ret)"
    by (auto simp: search_dates_ok_def split: option.splits)
  from assms(2,3) dep have "t \<le> dep"
    by (auto simp: search_submittable_def below_min_parsed)
  with dep ret show ?thesis by blast
qed

subsection \<open>Properties\<close>

text \<open>
  Every draft the rendered search form can hold asks for between 1 and 8
  passengers, so every submitted \<open>SearchParams\<close> has \<open>passengers \<ge> 1\<close>.
\<close>

theorem search_form_passengers_bounded:
  assumes "list_all search_field_allowed fs"
  shows "1 \<le> sp_passengers (search_form_run fs) \<and> sp_passengers (search_form_run fs) \<le> 8"
  using search_draft_ok_fold [OF search_draft_ok_init assms]
  by (simp add: search_form_run_def search_draft_ok_def)

end
