(* ===== verification/Passenger_Form.thy ===== *)
theory Passenger_Form
  imports Domain Dates
begin

text \<open>
  The passenger view \<^verbatim>\<open>components/PassengerForm.tsx\<close>.  On mount it creates one blank
  passenger per seat (\<open>Array.from({length: passengerCount}, ...)\<close>); only the first
  carries the contact fields \<open>email\<close> and \<open>phone\<close> (the others have them
  \<open>undefined\<close>), and only the first sub-form renders inputs for them.  \<open>handleChange\<close>
  overwrites one field of one passenger; the UI calls it with the index of a rendered
  sub-form only, so an index beyond the list is never passed (the model leaves the list
  unchanged there).  \<open>isFormValid\<close> gates the submit button.

  \<open>isFormValid\<close> reads \<open>passengers[0].email\<close> after the \<open>every\<close> test: on an empty
  list that is a \<open>TypeError\<close>, modelled as an error value.
\<close>

datatype passenger_field =
    PTitle title
  | PFirstName string
  | PLastName string
  | PDateOfBirth string
  | PPassportNumber string
  | PNationality string
  | PEmail string
  | PPhone string

datatype js_error = TypeError string

definition blank_passenger :: "nat \<Rightarrow> passenger" where
  "blank_passenger i =
     \<lparr>passenger_id = ''passenger-'' @ string_of_nat (i + 1), title = Mr,
      first_name = [], last_name = [], date_of_birth = [],
      email = (if i = 0 then Some [] else None), phone = (if i = 0 then Some [] else None),
      passport_number = Some [], nationality = Some []\<rparr>"

definition passenger_form_init :: "nat \<Rightarrow> passenger list" where
  "passenger_form_init n = map blank_passenger [0..<n]"

fun set_passenger_field :: "passenger \<Rightarrow> passenger_field \<Rightarrow> passenger" where
  "set_passenger_field p (PTitle t) = p\<lparr>title := t\<rparr>"
| "set_passenger_field p (PFirstName v) = p\<lparr>first_name := v\<rparr>"
| "set_passenger_field p (PLastName v) = p\<lparr>last_name := v\<rparr>"
| "set_passenger_field p (PDateOfBirth v) = p\<lparr>date_of_birth := v\<rparr>"
| "set_passenger_field p (PPassportNumber v) = p\<lparr>passport_number := Some v\<rparr>"
| "set_passenger_field p (PNationality v) = p\<lparr>nationality := Some v\<rparr>"
| "set_passenger_field p (PEmail v) = p\<lparr>email := Some v\<rparr>"
| "set_passenger_field p (PPhone v) = p\<lparr>phone := Some v\<rparr>"

definition passenger_change :: "passenger list \<Rightarrow> nat \<Rightarrow> passenger_field \<Rightarrow> passenger list" where
  "passenger_change ps i f = (if i < length ps then ps[i := set_passenger_field (ps ! i) f] else ps)"

text \<open>
  The edits the rendered form of \<open>n\<close> passengers can make: an index of a rendered
  sub-form, and contact inputs for passenger 1 only.
\<close>

fun is_contact_field :: "passenger_field \<Rightarrow> bool" where
  "is_contact_field (PEmail v) = True"
| "is_contact_field (PPhone v) = True"
| "is_contact_field f = False"

text \<open>
  The value an \<open>input type="email"\<close> hands to \<open>onChange\<close> is sanitized by the browser:
  it holds no line break and no leading or trailing ASCII white space.
\<close>

definition is_ascii_ws :: "char \<Rightarrow> bool" where
  "is_ascii_ws c \<longleftrightarrow> (of_char c :: nat) \<in> {9, 10, 12, 13, 32}"

definition sanitized_email :: "string \<Rightarrow> bool" where
  "sanitized_email v \<longleftrightarrow>
     list_all (\<lambda>c. (of_char c :: nat) \<notin> {10, 13}) v \<and>
     (v = [] \<or> (\<not> is_ascii_ws (hd v) \<and> \<not> is_ascii_ws (last v)))"

fun input_value_ok :: "passenger_field \<Rightarrow> bool" where
  "input_value_ok (PEmail v) = sanitized_email v"
| "input_value_ok (PDateOfBirth v) = date_value_ok v"
| "input_value_ok f = True"

definition edit_allowed :: "nat \<Rightarrow> nat \<times> passenger_field \<Rightarrow> bool" where
  "edit_allowed n e \<longleftrightarrow>
     fst e < n \<and> (is_contact_field (snd e) \<longrightarrow> fst e = 0) \<and> input_value_ok (snd e)"

definition passenger_complete :: "passenger \<Rightarrow> bool" where
  "passenger_complete p \<longleftrightarrow>
     truthy_str (first_name p) \<and> truthy_str (last_name p) \<and> truthy_str (date_of_birth p) \<and>
     truthy_opt (passport_number p)"

definition is_form_valid :: "passenger list \<Rightarrow> js_error + bool" where
  "is_form_valid ps =
     (if \<not> list_all passenger_complete ps then Inr False
      else case ps of
        [] \<Rightarrow> Inl (TypeError ''Cannot read properties of undefined (reading 'email')'')
      | p # _ \<Rightarrow> Inr (truthy_opt (email p) \<and> truthy_opt (phone p)))"

text \<open>
  The browser's constraint validation of the form: a non-empty value of the email
  input must be a valid e-mail address in the sense of HTML (one or more characters of
  \<open>atext\<close> or dots, \<open>@\<close>, then dot-separated labels of at most 63 letters, digits and
  hyphens that start and end with a letter or digit).  A date of birth may not lie
  after \<open>today\<close>, the input's \<open>max\<close>: the UTC date the last render computed.  The other
  inputs carry no constraint beyond \<open>required\<close>, which \<open>isFormValid\<close> already implies.
\<close>

definition is_alnum :: "char \<Rightarrow> bool" where
  "is_alnum c \<longleftrightarrow>
     (let k = (of_char c :: nat) in (48 \<le> k \<and> k \<le> 57) \<or> (65 \<le> k \<and> k \<le> 90) \<or> (97 \<le> k \<and> k \<le> 122))"

definition is_email_atext :: "char \<Rightarrow> bool" where
  "is_email_atext c \<longleftrightarrow>
     is_alnum c \<or>
     (of_char c :: nat) \<in> {33, 35, 36, 37, 38, 39, 42, 43, 45, 46, 47, 61, 63, 94, 95, 96, 123, 124, 125, 126}"

definition valid_email_label :: "string \<Rightarrow> bool" where
  "valid_email_label l \<longleftrightarrow>
     l \<noteq> [] \<and> length l \<le> 63 \<and> list_all (\<lambda>c. is_alnum c \<or> c = CHR ''-'') l \<and>
     is_alnum (hd l) \<and> is_alnum (last l)"

fun split_on :: "char \<Rightarrow> string \<Rightarrow> string list" where
  "split_on d [] = [[]]"
| "split_on d (c # cs) =
     (let ws = split_on d cs in if c = d then [] # ws else (c # hd ws) # tl ws)"

definition valid_email :: "string \<Rightarrow> bool" where
  "valid_email e \<longleftrightarrow>
     (let l = takeWhile (\<lambda>c. c \<noteq> CHR ''@'') e; r = dropWhile (\<lambda>c. c \<noteq> CHR ''@'') e
      in l \<noteq> [] \<and> list_all is_email_atext l \<and> r \<noteq> [] \<and>
         list_all valid_email_label (split_on (CHR ''.'') (tl r)))"

definition email_constraint_ok :: "passenger list \<Rightarrow> bool" where
  "email_constraint_ok ps =
     (case ps of [] \<Rightarrow> True
      | p # _ \<Rightarrow> (case email p of None \<Rightarrow> True | Some e \<Rightarrow> e = [] \<or> valid_email e))"

definition form_constraints_ok :: "string \<Rightarrow> passenger list \<Rightarrow> bool" where
  "form_constraints_ok today ps \<longleftrightarrow>
     email_constraint_ok ps \<and> list_all (\<lambda>p. \<not> above_max (date_of_birth p) today) ps"

text \<open>
  The guard of the spec (section 4.1, passenger submit): every passenger has a non-empty
  first name, last name, date of birth and passport number, and passenger 1 a non-empty
  email and phone.
\<close>

definition passenger_guard :: "passenger list \<Rightarrow> bool" where
  "passenger_guard ps \<longleftrightarrow>
     (\<forall>p \<in> set ps. first_name p \<noteq> [] \<and> last_name p \<noteq> [] \<and> date_of_birth p \<noteq> [] \<and>
        passport_number p \<noteq> None \<and> passport_number p \<noteq> Some []) \<and>
     (case ps of [] \<Rightarrow> False
      | p # _ \<Rightarrow> email p \<noteq> None \<and> email p \<noteq> Some [] \<and> phone p \<noteq> None \<and> phone p \<noteq> Some [])"

definition contact_on_first_only :: "passenger list \<Rightarrow> bool" where
  "contact_on_first_only ps \<longleftrightarrow>
     (case ps of [] \<Rightarrow> True
      | p # rest \<Rightarrow> email p \<noteq> None \<and> phone p \<noteq> None \<and>
                    (\<forall>q \<in> set rest. email q = None \<and> phone q = None))"

definition passenger_form_run :: "nat \<Rightarrow> (nat \<times> passenger_field) list \<Rightarrow> passenger list" where
  "passenger_form_run n edits = fold (\<lambda>(i, f) ps. passenger_change ps i f) edits (passenger_form_init n)"


subsection \<open>Lemmas\<close>

lemma length_passenger_form_init [simp]: "length (passenger_form_init n) = n"
  by (simp add: passenger_form_init_def)

lemma length_passenger_change [simp]: "length (passenger_change ps i f) = length ps"
  by (simp add: passenger_change_def)

lemma contact_on_first_only_init: "contact_on_first_only (passenger_form_init n)"
proof (cases n)
  case (Suc m)
  have "[0..<Suc m] = 0 # map Suc [0..<m]" by (simp add: map_Suc_upt upt_conv_Cons)
  then show ?thesis
    using Suc by (auto simp: contact_on_first_only_def passenger_form_init_def blank_passenger_def)
qed (simp add: contact_on_first_only_def passenger_form_init_def)

lemma email_set_passenger_field:
  "email (set_passenger_field p f) = (case f of PEmail v \<Rightarrow> Some v | _ \<Rightarrow> email p)"
  by (cases f) simp_all

lemma phone_set_passenger_field:
  "phone (set_passenger_field p f) = (case f of PPhone v \<Rightarrow> Some v | _ \<Rightarrow> phone p)"
  by (cases f) simp_all

lemma contact_set_passenger_field:
  "\<not> is_contact_field f \<Longrightarrow>
   email (set_passenger_field p f) = email p \<and> phone (set_passenger_field p f) = phone p"
  by (cases f) simp_all

lemma contact_on_first_only_change:
  assumes "contact_on_first_only ps" "edit_allowed (length ps) (i, f)"
  shows "contact_on_first_only (passenger_change ps i f)"
proof (cases ps)
  case (Cons p rest)
  show ?thesis
  proof (cases i)
    case 0
    with assms Cons show ?thesis
      by (auto simp: contact_on_first_only_def passenger_change_def email_set_passenger_field
            phone_set_passenger_field split: passenger_field.splits)
  next
    case (Suc j)
    with assms(2) Cons have nc: "\<not> is_contact_field f" and j: "j < length rest"
      by (auto simp: edit_allowed_def)
    have "passenger_change ps i f = p # rest[j := set_passenger_field (rest ! j) f]"
      using Cons Suc j by (simp add: passenger_change_def)
    moreover have "\<forall>q \<in> set (rest[j := set_passenger_field (rest ! j) f]). email q = None \<and> phone q = None"
      using assms(1) Cons j contact_set_passenger_field [OF nc, of "rest ! j"]
      by (auto simp: contact_on_first_only_def dest!: set_update_subset_insert [THEN subsetD])
    ultimately show ?thesis
      using assms(1) Cons by (simp add: contact_on_first_only_def)
  qed
qed (simp add: passenger_change_def contact_on_first_only_def)

lemma contact_on_first_only_fold:
  "contact_on_first_only ps \<Longrightarrow> list_all (edit_allowed (length ps)) edits \<Longrightarrow>
   contact_on_first_only (fold (\<lambda>(i, f) ps. passenger_change ps i f) edits ps) \<and>
   length (fold (\<lambda>(i, f) ps. passenger_change ps i f) edits ps) = length ps"
proof (induction edits arbitrary: ps)
  case Nil
  then show ?case by simp
next
  case (Cons e edits)
  obtain i f where e: "e = (i, f)" by (cases e)
  with Cons.prems have "contact_on_first_only (passenger_change ps i f)"
    by (simp add: contact_on_first_only_change)
  with Cons.prems Cons.IH [of "passenger_change ps i f"] e show ?case by simp
qed

lemma passenger_complete_iff:
  "passenger_complete p \<longleftrightarrow>
     first_name p \<noteq> [] \<and> last_name p \<noteq> [] \<and> date_of_birth p \<noteq> [] \<and>
     passport_number p \<noteq> None \<and> passport_number p \<noteq> Some []"
  by (cases "passport_number p") (auto simp: passenger_complete_def truthy_str_def)

lemma truthy_opt_iff: "truthy_opt v \<longleftrightarrow> v \<noteq> None \<and> v \<noteq> Some []"
  by (cases v) simp_all

lemma is_form_valid_guard:
  "ps \<noteq> [] \<Longrightarrow> is_form_valid ps = Inr (passenger_guard ps)"
  by (cases ps)
     (auto simp: is_form_valid_def passenger_guard_def list_all_iff passenger_complete_iff
        truthy_opt_iff)

lemma is_form_valid_True: "is_form_valid ps = Inr True \<Longrightarrow> ps \<noteq> [] \<and> passenger_guard ps"
proof -
  assume v: "is_form_valid ps = Inr True"
  then have "ps \<noteq> []" by (auto simp: is_form_valid_def)
  with v is_form_valid_guard [of ps] show ?thesis by simp
qed

lemma passenger_id_set_field [simp]: "passenger_id (set_passenger_field p f) = passenger_id p"
  by (cases f) simp_all

lemma map_passenger_id_change [simp]:
  "map passenger_id (passenger_change ps i f) = map passenger_id ps"
  by (simp add: passenger_change_def map_update) (metis list_update_id nth_map)

lemma map_passenger_id_fold:
  "map passenger_id (fold (\<lambda>(i, f) ps. passenger_change ps i f) edits ps) = map passenger_id ps"
  by (induction edits arbitrary: ps) auto

lemma distinct_passenger_ids_init: "distinct (map passenger_id (passenger_form_init n))"
proof -
  have "inj_on (\<lambda>i. ''passenger-'' @ string_of_nat (i + 1)) {0..<n}"
    by (auto intro!: inj_onI dest: string_of_nat_inj)
  then show ?thesis
    by (simp add: passenger_form_init_def blank_passenger_def distinct_map comp_def)
qed

subsection \<open>Properties\<close>

text \<open>
  C16 (invariant): whatever the user types into the form of \<open>n\<close> passengers, it keeps
  exactly \<open>n\<close> passengers, passenger 1 always carries the contact fields, and no other
  passenger ever does.
\<close>

theorem passenger_form_contact_on_first_only:
  assumes "list_all (edit_allowed n) edits"
  shows "length (passenger_form_run n edits) = n \<and> contact_on_first_only (passenger_form_run n edits)"
  using contact_on_first_only_fold [OF contact_on_first_only_init, of n edits] assms
  by (simp add: passenger_form_run_def)

text \<open>
  C31 (type): the React keys of the passenger sub-forms, the passenger ids
  \<open>passenger-1\<close>, ..., are pairwise distinct, and no edit changes them.
\<close>

theorem passenger_keys_distinct:
  "distinct (map passenger_id (passenger_form_run n edits)) \<and>
   map passenger_id (passenger_form_run n edits) = map passenger_id (passenger_form_init n)"
  using distinct_passenger_ids_init [of n] map_passenger_id_fold [of edits "passenger_form_init n"]
  by (simp add: passenger_form_run_def)

end
