(* ===== verification/Payment_Form.thy ===== *)
theory Payment_Form
  imports Domain
begin

text \<open>
  The payment view \<^verbatim>\<open>components/PaymentForm.tsx\<close>.  Its local state is the
  \<open>PaymentInfo\<close> draft; text inputs write one field (\<open>handleChange\<close>) or one field of
  the billing address (\<open>handleAddressChange\<close>); the card number input goes through
  \<open>formatCardNumber\<close>, which deletes white space (\<open>/\s/g\<close>), cuts the rest into groups
  of at most four characters (\<open>/.{1,4}/g\<close>, \<open>|| []\<close> when nothing matches), joins them
  with single spaces and keeps the first 19 characters.

  Characters are Isabelle \<open>char\<close>s, the code units 0--255; the white-space class of the
  regular expression is modelled on that range (tab, line feed, vertical tab, form feed,
  carriage return, space, no-break space).  The \<open>maxLength\<close> attributes bound what the
  browser lets the user type into the card number (19), expiry (5) and CVV (4) inputs.
\<close>

datatype payment_field =
    CardNumber string
  | CardHolder string
  | ExpiryDate string
  | Cvv string
  | Street string
  | City string
  | State string
  | ZipCode string
  | Country string

definition payment_init :: payment_info where
  "payment_init =
     \<lparr>card_number = [], card_holder = [], expiry_date = [], cvv = [],
      billing_address = \<lparr>street = [], addr_city = [], addr_state = [], zip_code = [], addr_country = []\<rparr>\<rparr>"

definition is_js_space :: "char \<Rightarrow> bool" where
  "is_js_space c \<longleftrightarrow> (of_char c :: nat) \<in> {9, 10, 11, 12, 13, 32, 160}"

fun card_chunks :: "string \<Rightarrow> string list" where
  "card_chunks [] = []"
| "card_chunks (c # cs) = take 4 (c # cs) # card_chunks (drop 4 (c # cs))"

definition strip_spaces :: "string \<Rightarrow> string" where
  "strip_spaces v = filter (\<lambda>c. \<not> is_js_space c) v"

definition format_card_number :: "string \<Rightarrow> string" where
  "format_card_number v = take 19 (join_with '' '' (card_chunks (strip_spaces v)))"

fun payment_change :: "payment_info \<Rightarrow> payment_field \<Rightarrow> payment_info" where
  "payment_change p (CardNumber v) = p\<lparr>card_number := format_card_number v\<rparr>"
| "payment_change p (CardHolder v) = p\<lparr>card_holder := v\<rparr>"
| "payment_change p (ExpiryDate v) = p\<lparr>expiry_date := v\<rparr>"
| "payment_change p (Cvv v) = p\<lparr>cvv := v\<rparr>"
| "payment_change p (Street v) = p\<lparr>billing_address := (billing_address p)\<lparr>street := v\<rparr>\<rparr>"
| "payment_change p (City v) = p\<lparr>billing_address := (billing_address p)\<lparr>addr_city := v\<rparr>\<rparr>"
| "payment_change p (State v) = p\<lparr>billing_address := (billing_address p)\<lparr>addr_state := v\<rparr>\<rparr>"
| "payment_change p (ZipCode v) = p\<lparr>billing_address := (billing_address p)\<lparr>zip_code := v\<rparr>\<rparr>"
| "payment_change p (Country v) = p\<lparr>billing_address := (billing_address p)\<lparr>addr_country := v\<rparr>\<rparr>"

text \<open>What the inputs let the user type: the \<open>maxLength\<close> attributes.\<close>

fun payment_input_ok :: "payment_field \<Rightarrow> bool" where
  "payment_input_ok (CardNumber v) = (length v \<le> 19)"
| "payment_input_ok (ExpiryDate v) = (length v \<le> 5)"
| "payment_input_ok (Cvv v) = (length v \<le> 4)"
| "payment_input_ok _ = True"

text \<open>The browser submits the form only when every \<open>required\<close> input is non-empty.\<close>

definition payment_submittable :: "payment_info \<Rightarrow> bool" where
  "payment_submittable p \<longleftrightarrow>
     card_number p \<noteq> [] \<and> card_holder p \<noteq> [] \<and> expiry_date p \<noteq> [] \<and> cvv p \<noteq> [] \<and>
     street (billing_address p) \<noteq> [] \<and> addr_city (billing_address p) \<noteq> [] \<and>
     addr_state (billing_address p) \<noteq> [] \<and> zip_code (billing_address p) \<noteq> [] \<and>
     addr_country (billing_address p) \<noteq> []"

text \<open>
  A reference for what the card-number input displays, written without regular
  expressions: the first 16 characters typed that are not white space, with a space
  before the 5th, the 9th and the 13th.
\<close>

fun spaced :: "nat \<Rightarrow> string \<Rightarrow> string" where
  "spaced k [] = []"
| "spaced k (c # cs) = (if k \<noteq> 0 \<and> k mod 4 = 0 then [CHR '' ''] else []) @ c # spaced (Suc k) cs"

definition card_display_reference :: "string \<Rightarrow> string" where
  "card_display_reference v = spaced 0 (take 16 (strip_spaces v))"

subsection \<open>Lemmas\<close>


lemma concat_card_chunks [simp]: "concat (card_chunks s) = s"
  by (induction s rule: card_chunks.induct) simp_all

lemma card_chunks_Nil_iff [simp]: "card_chunks s = [] \<longleftrightarrow> s = []"
  by (cases s) simp_all

lemma length_card_chunks: "length (card_chunks s) = (length s + 3) div 4"
  by (induction s rule: card_chunks.induct) simp_all

lemma card_chunks_append:
  "length a = 4 * k \<Longrightarrow> card_chunks (a @ b) = card_chunks a @ card_chunks b"
proof (induction k arbitrary: a)
  case 0
  then show ?case by simp
next
  case (Suc k)
  then obtain c cs where a: "a = c # cs" by (cases a) auto
  have "length (drop 4 a) = 4 * k" using Suc.prems by simp
  then have "card_chunks (drop 4 a @ b) = card_chunks (drop 4 a) @ card_chunks b"
    by (rule Suc.IH)
  moreover have "take 4 (a @ b) = take 4 a" "drop 4 (a @ b) = drop 4 a @ b"
    using Suc.prems by simp_all
  ultimately show ?case using a by (metis card_chunks.simps(2) append_Cons)
qed

lemma join_with_append:
  "xs \<noteq> [] \<Longrightarrow> ys \<noteq> [] \<Longrightarrow> join_with sep (xs @ ys) = join_with sep xs @ sep @ join_with sep ys"
proof (induction xs)
  case (Cons a xs)
  then show ?case by (cases xs) auto
qed simp

lemma is_js_space_space [simp]: "is_js_space (CHR '' '')"
  by (simp add: is_js_space_def)

lemma strip_spaces_join_with:
  "strip_spaces (join_with '' '' xs) = concat (map strip_spaces xs)"
proof (induction xs)
  case (Cons a xs)
  then show ?case by (cases xs) (auto simp: strip_spaces_def)
qed (simp add: strip_spaces_def)

lemma concat_map_strip_spaces: "concat (map strip_spaces xs) = strip_spaces (concat xs)"
  unfolding strip_spaces_def by (simp add: filter_concat comp_def)

lemma strip_spaces_id: "\<forall>c \<in> set s. \<not> is_js_space c \<Longrightarrow> strip_spaces s = s"
  by (simp add: strip_spaces_def)

lemma strip_spaces_idem [simp]: "strip_spaces (strip_spaces s) = strip_spaces s"
  by (simp add: strip_spaces_def)

lemma strip_spaces_take: "strip_spaces (take n (strip_spaces s)) = take n (strip_spaces s)"
  by (rule strip_spaces_id) (auto simp: strip_spaces_def dest: in_set_takeD)

lemma card_chunks_lengths: "x \<in> set (card_chunks s) \<Longrightarrow> length x \<le> 4"
  by (induction s rule: card_chunks.induct) auto

lemma length_join_card_chunks:
  "length (join_with '' '' (card_chunks s)) = length s + (length s + 3) div 4 - 1"
proof (cases "s = []")
  case False
  then have "length (join_with '' '' (card_chunks s)) =
             sum_list (map length (card_chunks s)) + (length (card_chunks s) - 1)"
    by (simp add: length_join_with)
  also have "sum_list (map length (card_chunks s)) = length s"
    by (metis concat_card_chunks length_concat)
  finally show ?thesis using False by (simp add: length_card_chunks)
qed simp

lemma format_card_number_groups:
  "format_card_number v = join_with '' '' (card_chunks (take 16 (strip_spaces v)))"
proof (cases "length (strip_spaces v) \<le> 16")
  case True
  then have "length (join_with '' '' (card_chunks (strip_spaces v))) \<le> 19"
    by (simp add: length_join_card_chunks)
  with True show ?thesis by (simp add: format_card_number_def)
next
  case False
  let ?a = "take 16 (strip_spaces v)" and ?b = "drop 16 (strip_spaces v)"
  have la: "length ?a = 4 * 4" using False by simp
  have "card_chunks (strip_spaces v) = card_chunks ?a @ card_chunks ?b"
    using card_chunks_append [OF la, of ?b] by simp
  moreover have "card_chunks ?a \<noteq> []" "card_chunks ?b \<noteq> []" using False by auto
  moreover have "length (join_with '' '' (card_chunks ?a)) = 19"
    using la by (simp add: length_join_card_chunks)
  ultimately show ?thesis by (simp add: format_card_number_def join_with_append)
qed

lemma strip_spaces_format: "strip_spaces (format_card_number v) = take 16 (strip_spaces v)"
  by (simp add: format_card_number_groups strip_spaces_join_with strip_spaces_take
        concat_map_strip_spaces)

lemma spaced_append: "spaced k (xs @ ys) = spaced k xs @ spaced (k + length xs) ys"
  by (induction xs arbitrary: k) simp_all

lemma spaced_plain: "(\<forall>i<length xs. (k + i) mod 4 \<noteq> 0) \<Longrightarrow> spaced k xs = xs"
proof (induction xs arbitrary: k)
  case (Cons c cs)
  from Cons.prems have "k mod 4 \<noteq> 0" by (metis add_0_right length_Cons zero_less_Suc)
  moreover from Cons.prems have "\<forall>i<length cs. (Suc k + i) mod 4 \<noteq> 0"
    by (metis Suc_less_eq add_Suc add_Suc_right length_Cons)
  ultimately show ?case using Cons.IH by simp
qed simp

lemma spaced_block:
  assumes "4 dvd k" "xs \<noteq> []" "length xs \<le> 4"
  shows "spaced k xs = (if k \<noteq> 0 then CHR '' '' # xs else xs)"
proof -
  obtain c cs where xs: "xs = c # cs" using assms(2) by (cases xs) auto
  have "\<forall>i<length cs. (Suc k + i) mod 4 \<noteq> 0"
    using assms(1,3) xs by (auto simp: dvd_def)
  with assms(1) xs show ?thesis by (auto simp: spaced_plain dvd_eq_mod_eq_0)
qed

lemma spaced_chunks:
  "4 dvd k \<Longrightarrow>
   spaced k xs = (if k \<noteq> 0 \<and> xs \<noteq> [] then CHR '' '' # join_with '' '' (card_chunks xs)
                  else join_with '' '' (card_chunks xs))"
proof (induction xs arbitrary: k rule: card_chunks.induct)
  case (2 c cs)
  let ?a = "take 4 (c # cs)" and ?b = "drop 4 (c # cs)"
  have split: "spaced k (c # cs) = spaced k ?a @ spaced (k + length ?a) ?b"
    using spaced_append [of k ?a ?b] by simp
  have a: "spaced k ?a = (if k \<noteq> 0 then CHR '' '' # ?a else ?a)"
    using "2.prems" by (intro spaced_block) auto
  show ?case
  proof (cases "?b = []")
    case True
    with split a have "spaced k (c # cs) = (if k \<noteq> 0 then CHR '' '' # ?a else ?a)" by simp
    with True show ?thesis by (simp del: spaced.simps)
  next
    case False
    then have "length ?a = 4" by simp
    with "2.prems" "2.IH" [of "k + 4"] False
    have "spaced (k + length ?a) ?b = CHR '' '' # join_with '' '' (card_chunks ?b)"
      by simp
    with split a have "spaced k (c # cs) =
        (if k \<noteq> 0 then CHR '' '' # ?a else ?a) @ CHR '' '' # join_with '' '' (card_chunks ?b)"
      by (simp only:)
    with False show ?thesis by (simp del: spaced.simps)
  qed
qed simp

subsection \<open>Properties\<close>

text \<open>
  C18 (idempotence, bounds, roundtrip): the formatted card number has at most 19
  characters, formatting it again changes nothing, and deleting its white space gives
  back the first 16 non-white-space characters of what was typed.
\<close>

theorem format_card_number_stable:
  "length (format_card_number v) \<le> 19 \<and>
   format_card_number (format_card_number v) = format_card_number v \<and>
   strip_spaces (format_card_number v) = take 16 (strip_spaces v)"
proof (intro conjI)
  show "length (format_card_number v) \<le> 19"
    by (simp add: format_card_number_def)
  show "strip_spaces (format_card_number v) = take 16 (strip_spaces v)"
    by (rule strip_spaces_format)
  have "format_card_number (format_card_number v) =
        join_with '' '' (card_chunks (take 16 (take 16 (strip_spaces v))))"
    by (simp only: format_card_number_groups [of "format_card_number v"] strip_spaces_format)
  then show "format_card_number (format_card_number v) = format_card_number v"
    by (simp add: format_card_number_groups [of v])
qed

text \<open>
  C19 (equivalence): \<open>formatCardNumber\<close>, which strips white space with a regular
  expression, cuts the rest into groups of four with another, joins them with spaces and
  cuts the result at 19 characters, displays exactly the reference: the first 16
  non-white-space characters with a space before the 5th, 9th and 13th.
\<close>

theorem format_card_number_reference:
  "format_card_number v = card_display_reference v"
  using spaced_chunks [of 0 "take 16 (strip_spaces v)"]
  by (simp add: format_card_number_groups card_display_reference_def)

end
