(* ===== verification/Gateway.thy ===== *)
theory Gateway
  imports Domain
begin

text \<open>
  The Remote Gateway \<^verbatim>\<open>services/api.ts\<close>: each call builds one HTTP request under the
  base path \<open>/api\<close>, awaits the response, throws \<open>Error('Failed to ...')\<close> when
  \<open>response.ok\<close> is false (a status outside 200--299), and otherwise parses the JSON
  body.  The transport is outside the program: a call's outcome is either a network
  failure (\<open>fetch\<close> rejects) or a response with a status and a body that did or did not
  parse as the expected JSON.  Errors are values of \<open>api_error\<close>, one constructor per
  thrown message, the result of a call a sum \<open>api_error + 'a\<close>.

  \<^verbatim>\<open>App.tsx\<close> configures the query client: queries (the seat fetch) are retried once
  (\<open>retry: 1\<close>) and not refetched on window focus.
\<close>

datatype http_method = GET | POST | DELETE

datatype request_body =
    SearchBody search_params
  | BookingBody ident "passenger list" "seat list" payment_info

record http_request =
  req_method :: http_method
  req_url :: string
  req_body :: "request_body option"

datatype 'a http_outcome = NetworkFailure | Response nat "'a option"

datatype api_error =
    FailedToSearchFlights
  | FailedToFetchFlight
  | FailedToCreateBooking
  | FailedToFetchBooking
  | FailedToCancelBooking
  | FailedToFetchSeats
  | NetworkError
  | InvalidJson

definition api_error_message :: "api_error \<Rightarrow> string" where
  "api_error_message e =
     (case e of
        FailedToSearchFlights \<Rightarrow> ''Failed to search flights''
      | FailedToFetchFlight \<Rightarrow> ''Failed to fetch flight''
      | FailedToCreateBooking \<Rightarrow> ''Failed to create booking''
      | FailedToFetchBooking \<Rightarrow> ''Failed to fetch booking''
      | FailedToCancelBooking \<Rightarrow> ''Failed to cancel booking''
      | FailedToFetchSeats \<Rightarrow> ''Failed to fetch seats''
      | NetworkError \<Rightarrow> ''Failed to fetch''
      | InvalidJson \<Rightarrow> ''Unexpected token in JSON'')"

definition api_base_url :: string where
  "api_base_url = ''/api''"

definition response_ok :: "nat \<Rightarrow> bool" where
  "response_ok st \<longleftrightarrow> 200 \<le> st \<and> st \<le> 299"

text \<open>\<open>if (!response.ok) throw ...; return response.json();\<close>\<close>

definition checked_json :: "api_error \<Rightarrow> 'a http_outcome \<Rightarrow> api_error + 'a" where
  "checked_json err r =
     (case r of
        NetworkFailure \<Rightarrow> Inl NetworkError
      | Response st body \<Rightarrow>
          if \<not> response_ok st then Inl err
          else (case body of None \<Rightarrow> Inl InvalidJson | Some b \<Rightarrow> Inr b))"

subsection \<open>flightAPI\<close>

definition search_flights_request :: "search_params \<Rightarrow> http_request" where
  "search_flights_request params =
     \<lparr>req_method = POST, req_url = api_base_url @ ''/flights/search'', req_body = Some (SearchBody params)\<rparr>"

definition search_flights :: "flight list http_outcome \<Rightarrow> api_error + flight list" where
  "search_flights r = checked_json FailedToSearchFlights r"

definition get_flight_by_id_request :: "ident \<Rightarrow> http_request" where
  "get_flight_by_id_request i = \<lparr>req_method = GET, req_url = api_base_url @ ''/flights/'' @ i, req_body = None\<rparr>"

definition get_flight_by_id :: "flight http_outcome \<Rightarrow> api_error + flight" where
  "get_flight_by_id r = checked_json FailedToFetchFlight r"

subsection \<open>bookingAPI\<close>

definition create_booking_request ::
  "ident \<Rightarrow> passenger list \<Rightarrow> seat list \<Rightarrow> payment_info \<Rightarrow> http_request" where
  "create_booking_request fid ps ss pay =
     \<lparr>req_method = POST, req_url = api_base_url @ ''/bookings'',
      req_body = Some (BookingBody fid ps ss pay)\<rparr>"

definition create_booking :: "booking http_outcome \<Rightarrow> api_error + booking" where
  "create_booking r = checked_json FailedToCreateBooking r"

definition get_booking_request :: "ident \<Rightarrow> http_request" where
  "get_booking_request i = \<lparr>req_method = GET, req_url = api_base_url @ ''/bookings/'' @ i, req_body = None\<rparr>"

definition get_booking :: "booking http_outcome \<Rightarrow> api_error + booking" where
  "get_booking r = checked_json FailedToFetchBooking r"

definition cancel_booking_request :: "ident \<Rightarrow> http_request" where
  "cancel_booking_request i =
     \<lparr>req_method = DELETE, req_url = api_base_url @ ''/bookings/'' @ i, req_body = None\<rparr>"

text \<open>\<open>cancelBooking\<close> never reads the body.\<close>

definition cancel_booking :: "unit http_outcome \<Rightarrow> api_error + unit" where
  "cancel_booking r =
     (case r of
        NetworkFailure \<Rightarrow> Inl NetworkError
      | Response st _ \<Rightarrow> if response_ok st then Inr () else Inl FailedToCancelBooking)"

subsection \<open>seatAPI\<close>

definition get_available_seats_request :: "ident \<Rightarrow> http_request" where
  "get_available_seats_request fid =
     \<lparr>req_method = GET, req_url = api_base_url @ ''/flights/'' @ fid @ ''/seats'', req_body = None\<rparr>"

definition get_available_seats :: "seat list http_outcome \<Rightarrow> api_error + seat list" where
  "get_available_seats r = checked_json FailedToFetchSeats r"

subsection \<open>Query client\<close>

definition query_retry :: nat where
  "query_retry = 1"

text \<open>
  A query with \<open>retry = n\<close> runs its function until it succeeds or \<open>n\<close> retries are
  spent; given the results the successive attempts would have, \<open>run_query\<close> is the
  result the query settles on (\<open>None\<close> when the attempts given run out first).
\<close>

fun run_query :: "nat \<Rightarrow> ('e + 'a) list \<Rightarrow> ('e + 'a) option" where
  "run_query n [] = None"
| "run_query n (Inr a # rs) = Some (Inr a)"
| "run_query 0 (Inl e # rs) = Some (Inl e)"
| "run_query (Suc n) (Inl e # rs) = run_query n rs"

subsection \<open>Lemmas\<close>

lemma checked_json_Inr:
  "checked_json err r = Inr b \<longleftrightarrow> (\<exists>st. r = Response st (Some b) \<and> response_ok st)"
  by (auto simp: checked_json_def split: http_outcome.splits option.splits)

lemma checked_json_Inl:
  "checked_json err r = Inl e \<longleftrightarrow>
     (r = NetworkFailure \<and> e = NetworkError) \<or>
     (\<exists>st body. r = Response st body \<and> \<not> response_ok st \<and> e = err) \<or>
     (\<exists>st. r = Response st None \<and> response_ok st \<and> e = InvalidJson)"
  by (auto simp: checked_json_def split: http_outcome.splits option.splits)

lemma run_query_take: "run_query n rs = run_query n (take (Suc n) rs)"
  by (induction n rs rule: run_query.induct) simp_all

lemma run_query_Inr:
  "length rs > n \<Longrightarrow> (\<exists>a. run_query n rs = Some (Inr a)) \<longleftrightarrow> (\<exists>a. Inr a \<in> set (take (Suc n) rs))"
  by (induction n rs rule: run_query.induct) auto

subsection \<open>Properties\<close>

text \<open>
  C20 (error results): a flight search or a booking creation succeeds exactly when the
  server answers with a 2xx status and a well-formed body, and then yields that body;
  a network failure, a non-2xx status or a malformed body is an error value, the
  non-2xx case carrying the call's own message.
\<close>

theorem gateway_calls_error_results:
  "(search_flights r = Inr fs \<longleftrightarrow> (\<exists>st. r = Response st (Some fs) \<and> 200 \<le> st \<and> st \<le> 299)) \<and>
   (create_booking r' = Inr b \<longleftrightarrow> (\<exists>st. r' = Response st (Some b) \<and> 200 \<le> st \<and> st \<le> 299)) \<and>
   (\<forall>st body. \<not> response_ok st \<longrightarrow>
      search_flights (Response st body) = Inl FailedToSearchFlights \<and>
      create_booking (Response st body') = Inl FailedToCreateBooking) \<and>
   search_flights NetworkFailure = Inl NetworkError \<and> create_booking NetworkFailure = Inl NetworkError"
  by (auto simp: search_flights_def create_booking_def checked_json_Inr response_ok_def)
     (simp_all add: checked_json_def response_ok_def)

text \<open>
  C21 (bounds): with the configured \<open>retry: 1\<close> the seat query makes at most two
  attempts, and it settles on success exactly when one of its first two attempts
  succeeds.
\<close>

theorem seat_query_two_attempts:
  assumes "2 \<le> length rs"
  shows "run_query query_retry rs = run_query query_retry (take 2 rs) \<and>
         ((\<exists>a. run_query query_retry rs = Some (Inr a)) \<longleftrightarrow> (\<exists>a. Inr a \<in> set (take 2 rs)))"
  using assms run_query_take [of query_retry rs] run_query_Inr [of query_retry rs]
  by (simp add: query_retry_def numeral_2_eq_2)

end
