(* ===== verification/Flight_Card.thy ===== *)
theory Flight_Card
  imports Domain
begin

text \<open>
  The flight card \<^verbatim>\<open>components/FlightCard.tsx\<close>: the pure formatting it does itself
  (\<open>formatDuration\<close>, the stops badge) and the dispatch of a click.  The card's
  \<open>div\<close> calls \<open>onSelect(flight)\<close> on click; the "Select Flight" button inside it calls
  \<open>e.stopPropagation()\<close> and then \<open>onSelect(flight)\<close>.  A click on the button is
  dispatched to the button's handler first and then bubbles to the card's unless
  propagation was stopped.  \<open>formatTime\<close> and \<open>formatPrice\<close> go through \<open>Date\<close> and
  \<open>Intl\<close>, and the logo placeholder through \<open>toUpperCase\<close>: the rendered card
  \<open>flight_card_view\<close> takes them as parameters, so its lemmas hold for any formatter.
\<close>

text \<open>\<open>`${Math.floor(minutes / 60)}h ${minutes % 60}m`\<close>\<close>

definition format_duration :: "nat \<Rightarrow> string" where
  "format_duration minutes =
     string_of_nat (minutes div 60) @ ''h '' @ string_of_nat (minutes mod 60) @ ''m''"

text \<open>The stops badge: its class and its text.\<close>

definition stops_badge :: "nat \<Rightarrow> string \<times> string" where
  "stops_badge n =
     (if n = 0 then (''badge badge-success'', ''Non-stop'')
      else (''badge badge-warning'', string_of_nat n @ '' '' @ (if n = 1 then ''stop'' else ''stops'')))"

text \<open>Where a click lands, and what a handler does: the \<open>onSelect\<close> calls it makes and
  whether it stops propagation.\<close>

datatype card_target = CardBody | SelectButton

definition card_on_click :: "flight \<Rightarrow> flight list \<times> bool" where
  "card_on_click f = ([f], False)"

definition select_button_on_click :: "flight \<Rightarrow> flight list \<times> bool" where
  "select_button_on_click f = ([f], True)"

text \<open>Bubbling: the target's handler runs, then the card's unless propagation stopped.\<close>

definition card_dispatch :: "flight \<Rightarrow> card_target \<Rightarrow> flight list" where
  "card_dispatch f t =
     (case t of
        CardBody \<Rightarrow> fst (card_on_click f)
      | SelectButton \<Rightarrow>
          (let (calls, stopped) = select_button_on_click f
           in calls @ (if stopped then [] else fst (card_on_click f))))"

text \<open>Reading a rendered duration back: hours up to \<open>h\<close>, minutes up to \<open>m\<close>.\<close>

definition parse_duration :: "string \<Rightarrow> nat" where
  "parse_duration s =
     (let hs = takeWhile is_digit s; rest = drop 2 (dropWhile is_digit s)
      in 60 * nat_of_digits hs + nat_of_digits (takeWhile is_digit rest))"

text \<open>The literal \<open>flight.class\<close> holds.\<close>

fun cabin_class_name :: "cabin_class \<Rightarrow> string" where
  "cabin_class_name Economy = ''economy''"
| "cabin_class_name Business = ''business''"
| "cabin_class_name First = ''first''"

text \<open>The logo: the image when \<open>airlineLogo\<close> is truthy, else the upper-cased first two
  characters of the airline's name.\<close>

datatype logo_view = LogoImage string string | LogoPlaceholder string

text \<open>What one card renders, field by field in the order of the JSX.\<close>

record card_view =
  cv_logo :: logo_view
  cv_airline :: string
  cv_flight_number :: string
  cv_price_class :: string
  cv_price :: string
  cv_departure :: "string \<times> string \<times> string"
  cv_duration :: string
  cv_stops :: "string \<times> string"
  cv_arrival :: "string \<times> string \<times> string"
  cv_class :: string
  cv_available :: string

definition flight_card_view ::
  "(string \<Rightarrow> string) \<Rightarrow> (money \<Rightarrow> string \<Rightarrow> string) \<Rightarrow> (string \<Rightarrow> string) \<Rightarrow>
   flight \<Rightarrow> bool option \<Rightarrow> card_view" where
  "flight_card_view format_time format_price to_upper f updating =
     \<lparr>cv_logo =
        (if truthy_str (airline_logo f) then LogoImage (airline_logo f) (airline f)
         else LogoPlaceholder (to_upper (take 2 (airline f)))),
      cv_airline = airline f, cv_flight_number = flight_number f,
      cv_price_class = ''price '' @ (if updating = Some True then ''price-updating'' else []),
      cv_price = format_price (price f) (currency f),
      cv_departure =
        (format_time (departure_time f), airport_code (flight_origin f), airport_city (flight_origin f)),
      cv_duration = format_duration (duration f),
      cv_stops = stops_badge (stops f),
      cv_arrival =
        (format_time (arrival_time f), airport_code (flight_destination f),
         airport_city (flight_destination f)),
      cv_class = cabin_class_name (flight_class f),
      cv_available = string_of_nat (available_seats f) @ '' seats''\<rparr>"

subsection \<open>Lemmas\<close>

lemma takeWhile_digits_append:
  "(\<And>c. c \<in> set (string_of_nat n) \<Longrightarrow> is_digit c) \<Longrightarrow> \<not> is_digit c \<Longrightarrow>
   takeWhile is_digit (string_of_nat n @ c # rest) = string_of_nat n \<and>
   dropWhile is_digit (string_of_nat n @ c # rest) = c # rest"
  by (simp add: takeWhile_append2 dropWhile_append2)

lemma not_digit_h: "\<not> is_digit (CHR ''h'')" and not_digit_m: "\<not> is_digit (CHR ''m'')"
  by (simp_all add: is_digit_def)

subsection \<open>Properties\<close>

text \<open>
  C29 (roundtrip): the rendered duration determines the duration: reading back the
  hours and the minutes gives \<open>60 * hours + minutes\<close>, the flight's duration.
\<close>

theorem format_duration_roundtrip:
  "parse_duration (format_duration m) = m"
proof -
  have d: "\<And>n c. c \<in> set (string_of_nat n) \<Longrightarrow> is_digit c" by (rule string_of_nat_digits)
  have "takeWhile is_digit (format_duration m) = string_of_nat (m div 60)"
    "dropWhile is_digit (format_duration m) = ''h '' @ string_of_nat (m mod 60) @ ''m''"
    using takeWhile_digits_append [where n = "m div 60", OF d not_digit_h]
    by (simp_all add: format_duration_def)
  moreover have "takeWhile is_digit (string_of_nat (m mod 60) @ ''m'') = string_of_nat (m mod 60)"
    using takeWhile_digits_append [where n = "m mod 60" and rest = "[]", OF d not_digit_m] by simp
  ultimately show ?thesis by (simp add: parse_duration_def Let_def)
qed

text \<open>
  A click anywhere on a flight card selects its flight exactly once:
  the button stops propagation, so its click does not also reach the card's handler.
\<close>

theorem card_click_selects_once:
  "card_dispatch f t = [f]"
  by (cases t) (simp_all add: card_dispatch_def card_on_click_def select_button_on_click_def)

text \<open>
  The stops badge says "Non-stop" exactly for direct flights, and
  otherwise the number of stops with the singular for one stop.
\<close>

theorem stops_badge_text:
  "snd (stops_badge 0) = ''Non-stop'' \<and> snd (stops_badge 1) = ''1 stop'' \<and>
   (1 < n \<longrightarrow> snd (stops_badge n) = string_of_nat n @ '' stops'') \<and>
   (0 < n \<longrightarrow> fst (stops_badge n) = ''badge badge-warning'')"
  by (simp add: stops_badge_def string_of_nat.simps)

subsection \<open>Witnesses\<close>

theorem stops_badge_text_witness:
  "1 < (2::nat) \<and> snd (stops_badge 2) = ''2 stops'' \<and> fst (stops_badge 2) = ''badge badge-warning''"
  using stops_badge_text [of 2] by (simp add: string_of_nat.simps)

end
