(* ===== verification/Booking_Flow.thy ===== *)
theory Booking_Flow
  imports Reconciler Seat_Map Search_Form Passenger_Form Payment_Form Gateway Flight_Card
begin

text \<open>
  The Step State Machine of \<^verbatim>\<open>pages/SearchPage.tsx\<close>.  The page keeps the current
  step and the booking draft in \<open>useState\<close> hooks, the status of its two mutations
  (search, booking) and the react-query cache of seat lists.  The child views it
  renders conditionally keep their own local state while they stay mounted and lose it
  when they are unmounted; that local state is part of the page state here
  (\<open>search_form\<close>, \<open>seat_map\<close>, \<open>passenger_form\<close>, \<open>payment_form\<close>, \<open>None\<close> when the view
  is not rendered), and \<open>sync_views\<close> mounts and unmounts them after each event the
  way the JSX conditions do.

  An event is a user action on a rendered, enabled element, a settled request, or a
  price update from the feed.  \<open>page_handle\<close> is the handler the source runs for it,
  \<open>page_step\<close> the handler followed by the re-render, and \<open>page_enabled\<close> says which
  events the rendered page can produce: the element is rendered and not \<open>disabled\<close>,
  the browser's \<open>required\<close> validation passes, and a request settles only while it is
  pending.  A seat request may settle at any time, for any flight: this
  over-approximates the fetches react-query issues.  The two submits that the browser
  checks against a date bound carry the clock \<open>now\<close> (milliseconds since the epoch)
  of the render the user submits from, which computed the bound as \<open>iso_date now\<close>.
\<close>

datatype booking_step = Search | SelectFlight | SelectSeats | PassengerDetails | Payment | Confirmation

record page_state =
  current_step :: booking_step
  search_params :: "search_params option"
  selected_flight :: "flight option"
  selected_seats :: "seat list"
  passengers :: "passenger list"
  booking_id :: ident
  flights :: "flight list"
  search_pending :: bool
  booking_pending :: bool
  booking_request :: "http_request option"
  seat_cache :: "ident \<rightharpoonup> seat list"
  search_form :: "search_params option"
  seat_map :: "seat list option"
  passenger_form :: "passenger list option"
  payment_form :: "payment_info option"

datatype page_event =
    EditSearch search_field
  | SubmitSearch nat
  | SearchSettled "flight list http_outcome"
  | ClickFlight flight
  | SeatsSettled ident "seat list http_outcome list"
  | ClickSeat seat
  | BackToFlights
  | ConfirmSeats
  | EditPassenger nat passenger_field
  | BackToSeats
  | SubmitPassengers nat
  | EditPayment payment_field
  | BackToPassengers
  | SubmitPayment
  | BookingSettled "booking http_outcome"
  | BookAnother
  | PriceUpdate price_update

definition page_init :: page_state where
  "page_init =
     \<lparr>current_step = Search, search_params = None, selected_flight = None, selected_seats = [],
      passengers = [], booking_id = [], flights = [], search_pending = False,
      booking_pending = False, booking_request = None, seat_cache = Map.empty,
      search_form = Some search_form_init, seat_map = None, passenger_form = None,
      payment_form = None\<rparr>"

subsection \<open>Derived values\<close>

text \<open>\<open>searchParams?.passengers || 1\<close>: the seat bound and the number of passenger forms.\<close>

definition passenger_count :: "page_state \<Rightarrow> nat" where
  "passenger_count s = or_default (map_option sp_passengers (search_params s)) 1"

text \<open>\<open>const { data: availableSeats = [] } = useQuery({queryKey: ['seats', selectedFlight?.id], ...})\<close>\<close>

definition available_seats :: "page_state \<Rightarrow> seat list" where
  "available_seats s =
     (case selected_flight s of None \<Rightarrow> []
      | Some f \<Rightarrow> (case seat_cache s (flight_id f) of None \<Rightarrow> [] | Some ss \<Rightarrow> ss))"

text \<open>\<open>selectedSeats.length === searchParams?.passengers\<close>\<close>

definition seats_guard :: "page_state \<Rightarrow> bool" where
  "seats_guard s =
     (case search_params s of None \<Rightarrow> False | Some p \<Rightarrow> length (selected_seats s) = sp_passengers p)"

definition calculate_total :: "page_state \<Rightarrow> money" where
  "calculate_total s =
     (case selected_flight s of None \<Rightarrow> 0
      | Some f \<Rightarrow> price f * of_nat (passenger_count s) +
          sum_list (map (\<lambda>seat. case seat_price seat of None \<Rightarrow> 0 | Some p \<Rightarrow> p) (selected_seats s)))"

text \<open>What the confirmation card shows: reference, passenger count and seat labels.\<close>

definition confirmation_view :: "page_state \<Rightarrow> ident \<times> nat \<times> string" where
  "confirmation_view s =
     (booking_id s, length (passengers s), join_with '', '' (map seat_label (selected_seats s)))"

text \<open>The flight-list step: the count line and one \<open>FlightCard\<close> per held flight, rendered
  without the \<open>isPriceUpdating\<close> prop.\<close>

definition flight_list_view ::
  "(string \<Rightarrow> string) \<Rightarrow> (money \<Rightarrow> string \<Rightarrow> string) \<Rightarrow> (string \<Rightarrow> string) \<Rightarrow>
   page_state \<Rightarrow> (string \<times> card_view list) option" where
  "flight_list_view format_time format_price to_upper s =
     (if current_step s = SelectFlight
      then Some (string_of_nat (length (flights s)) @ '' flights found'',
                 map (\<lambda>f. flight_card_view format_time format_price to_upper f None) (flights s))
      else None)"

subsection \<open>Handlers\<close>

definition handle_search :: "page_state \<Rightarrow> search_params \<Rightarrow> page_state" where
  "handle_search s params = s\<lparr>search_params := Some params, search_pending := True\<rparr>"

definition search_settled :: "page_state \<Rightarrow> flight list http_outcome \<Rightarrow> page_state" where
  "search_settled s r =
     (case search_flights r of
        Inr fs \<Rightarrow> s\<lparr>search_pending := False, flights := fs, current_step := SelectFlight\<rparr>
      | Inl _ \<Rightarrow> s\<lparr>search_pending := False\<rparr>)"

definition handle_flight_select :: "page_state \<Rightarrow> flight \<Rightarrow> page_state" where
  "handle_flight_select s f = s\<lparr>selected_flight := Some f, current_step := SelectSeats\<rparr>"

definition seats_settled :: "page_state \<Rightarrow> ident \<Rightarrow> seat list http_outcome list \<Rightarrow> page_state" where
  "seats_settled s fid rs =
     (case run_query query_retry (map get_available_seats rs) of
        Some (Inr ss) \<Rightarrow> s\<lparr>seat_cache := (seat_cache s)(fid \<mapsto> ss)\<rparr>
      | _ \<Rightarrow> s)"

text \<open>\<open>SeatMap.handleSeatClick\<close>, whose \<open>onSelectionChange\<close> is the page's \<open>setSelectedSeats\<close>.\<close>

definition seat_click :: "page_state \<Rightarrow> seat \<Rightarrow> page_state" where
  "seat_click s seat =
     (case seat_map s of None \<Rightarrow> s
      | Some sel \<Rightarrow>
          (case handle_seat_click (passenger_count s) sel seat of
             Changed sel' \<Rightarrow> s\<lparr>seat_map := Some sel', selected_seats := sel'\<rparr>
           | _ \<Rightarrow> s))"

definition handle_seats_confirm :: "page_state \<Rightarrow> page_state" where
  "handle_seats_confirm s = (if seats_guard s then s\<lparr>current_step := PassengerDetails\<rparr> else s)"

definition handle_passengers_submit :: "page_state \<Rightarrow> passenger list \<Rightarrow> page_state" where
  "handle_passengers_submit s ps = s\<lparr>passengers := ps, current_step := Payment\<rparr>"

definition handle_payment_submit :: "page_state \<Rightarrow> payment_info \<Rightarrow> page_state" where
  "handle_payment_submit s pay =
     (case selected_flight s of None \<Rightarrow> s
      | Some f \<Rightarrow>
          if passengers s \<noteq> [] \<and> selected_seats s \<noteq> []
          then s\<lparr>booking_pending := True,
                 booking_request :=
                   Some (create_booking_request (flight_id f) (passengers s) (selected_seats s) pay)\<rparr>
          else s)"

definition booking_settled :: "page_state \<Rightarrow> booking http_outcome \<Rightarrow> page_state" where
  "booking_settled s r =
     (case create_booking r of
        Inr b \<Rightarrow> s\<lparr>booking_pending := False, booking_id := bk_id b, current_step := Confirmation\<rparr>
      | Inl _ \<Rightarrow> s\<lparr>booking_pending := False\<rparr>)"

definition book_another :: "page_state \<Rightarrow> page_state" where
  "book_another s =
     s\<lparr>current_step := Search, selected_flight := None, selected_seats := [], passengers := [],
       flights := []\<rparr>"

definition price_update_handler :: "page_state \<Rightarrow> price_update \<Rightarrow> page_state" where
  "price_update_handler s u = s\<lparr>flights := apply_price_update u (flights s)\<rparr>"

fun page_handle :: "page_state \<Rightarrow> page_event \<Rightarrow> page_state" where
  "page_handle s (EditSearch f) = s\<lparr>search_form := map_option (\<lambda>d. search_form_change d f) (search_form s)\<rparr>"
| "page_handle s (SubmitSearch now) = (case search_form s of None \<Rightarrow> s | Some d \<Rightarrow> handle_search s d)"
| "page_handle s (SearchSettled r) = search_settled s r"
| "page_handle s (ClickFlight f) = handle_flight_select s f"
| "page_handle s (SeatsSettled fid rs) = seats_settled s fid rs"
| "page_handle s (ClickSeat seat) = seat_click s seat"
| "page_handle s BackToFlights = s\<lparr>current_step := SelectFlight\<rparr>"
| "page_handle s ConfirmSeats = handle_seats_confirm s"
| "page_handle s (EditPassenger i f) =
     s\<lparr>passenger_form := map_option (\<lambda>ps. passenger_change ps i f) (passenger_form s)\<rparr>"
| "page_handle s BackToSeats = s\<lparr>current_step := SelectSeats\<rparr>"
| "page_handle s (SubmitPassengers now) =
     (case passenger_form s of None \<Rightarrow> s | Some ps \<Rightarrow> handle_passengers_submit s ps)"
| "page_handle s (EditPayment f) = s\<lparr>payment_form := map_option (\<lambda>p. payment_change p f) (payment_form s)\<rparr>"
| "page_handle s BackToPassengers = s\<lparr>current_step := PassengerDetails\<rparr>"
| "page_handle s SubmitPayment = (case payment_form s of None \<Rightarrow> s | Some p \<Rightarrow> handle_payment_submit s p)"
| "page_handle s (BookingSettled r) = booking_settled s r"
| "page_handle s BookAnother = book_another s"
| "page_handle s (PriceUpdate u) = price_update_handler s u"

subsection \<open>Rendering: which views are mounted\<close>

definition sync_views :: "page_state \<Rightarrow> page_state" where
  "sync_views s =
     s\<lparr>search_form :=
         (if current_step s = Search then Some (case search_form s of None \<Rightarrow> search_form_init | Some d \<Rightarrow> d)
          else None),
       seat_map :=
         (if current_step s = SelectSeats \<and> selected_flight s \<noteq> None
          then Some (case seat_map s of None \<Rightarrow> [] | Some sel \<Rightarrow> sel) else None),
       passenger_form :=
         (if current_step s = PassengerDetails
          then Some (case passenger_form s of None \<Rightarrow> passenger_form_init (passenger_count s) | Some ps \<Rightarrow> ps)
          else None),
       payment_form :=
         (if current_step s = Payment \<and> selected_flight s \<noteq> None
          then Some (case payment_form s of None \<Rightarrow> payment_init | Some p \<Rightarrow> p) else None)\<rparr>"

definition page_step :: "page_state \<Rightarrow> page_event \<Rightarrow> page_state" where
  "page_step s e = sync_views (page_handle s e)"

fun page_enabled :: "page_state \<Rightarrow> page_event \<Rightarrow> bool" where
  "page_enabled s (EditSearch f) = (search_form s \<noteq> None \<and> search_field_allowed f)"
| "page_enabled s (SubmitSearch now) =
     (case search_form s of None \<Rightarrow> False
      | Some d \<Rightarrow> \<not> search_pending s \<and> search_submittable (iso_date now) d)"
| "page_enabled s (SearchSettled r) = search_pending s"
| "page_enabled s (ClickFlight f) = (current_step s = SelectFlight \<and> f \<in> set (flights s))"
| "page_enabled s (SeatsSettled fid rs) = True"
| "page_enabled s (ClickSeat seat) =
     (seat_map s \<noteq> None \<and> seat \<in> set (available_seats s) \<and> seat_status seat \<noteq> Occupied)"
| "page_enabled s BackToFlights = (current_step s = SelectSeats \<and> selected_flight s \<noteq> None)"
| "page_enabled s ConfirmSeats = (current_step s = SelectSeats \<and> selected_flight s \<noteq> None \<and> seats_guard s)"
| "page_enabled s (EditPassenger i f) =
     (case passenger_form s of None \<Rightarrow> False | Some ps \<Rightarrow> edit_allowed (length ps) (i, f))"
| "page_enabled s BackToSeats = (current_step s = PassengerDetails)"
| "page_enabled s (SubmitPassengers now) =
     (case passenger_form s of None \<Rightarrow> False
      | Some ps \<Rightarrow> is_form_valid ps = Inr True \<and> form_constraints_ok (iso_date now) ps)"
| "page_enabled s (EditPayment f) = (payment_form s \<noteq> None \<and> payment_input_ok f)"
| "page_enabled s BackToPassengers = (payment_form s \<noteq> None \<and> \<not> booking_pending s)"
| "page_enabled s SubmitPayment =
     (case payment_form s of None \<Rightarrow> False | Some p \<Rightarrow> \<not> booking_pending s \<and> payment_submittable p)"
| "page_enabled s (BookingSettled r) = booking_pending s"
| "page_enabled s BookAnother = (current_step s = Confirmation \<and> selected_flight s \<noteq> None)"
| "page_enabled s (PriceUpdate u) = True"

subsection \<open>Invariants\<close>

text \<open>Each view is mounted exactly when its JSX condition holds.\<close>

definition views_inv :: "page_state \<Rightarrow> bool" where
  "views_inv s \<longleftrightarrow>
     (search_form s \<noteq> None \<longleftrightarrow> current_step s = Search) \<and>
     (seat_map s \<noteq> None \<longleftrightarrow> current_step s = SelectSeats \<and> selected_flight s \<noteq> None) \<and>
     (passenger_form s \<noteq> None \<longleftrightarrow> current_step s = PassengerDetails) \<and>
     (payment_form s \<noteq> None \<longleftrightarrow> current_step s = Payment \<and> selected_flight s \<noteq> None)"

text \<open>
  A request is pending only on the step that issued it; every step past the search has
  search parameters, every step past the flight list a selected flight; every passenger
  count asked for lies in 1..8.
\<close>

definition flow_inv :: "page_state \<Rightarrow> bool" where
  "flow_inv s \<longleftrightarrow>
     (search_pending s \<longrightarrow> current_step s = Search \<and> search_params s \<noteq> None) \<and>
     (booking_pending s \<longrightarrow> current_step s = Payment) \<and>
     (current_step s \<noteq> Search \<longrightarrow> search_params s \<noteq> None) \<and>
     (current_step s \<notin> {Search, SelectFlight} \<longrightarrow> selected_flight s \<noteq> None) \<and>
     (\<forall>p. search_params s = Some p \<longrightarrow> search_draft_ok p) \<and>
     (\<forall>d. search_form s = Some d \<longrightarrow> search_draft_ok d)"

text \<open>
  The page's selection is a valid seat-map selection for the searched passenger count;
  the mounted seat map shows either that selection or, freshly remounted, none; from
  passenger details on, there are exactly as many seats, and from payment on exactly as
  many passengers, as the search asked for.
\<close>

definition seats_inv :: "page_state \<Rightarrow> bool" where
  "seats_inv s \<longleftrightarrow>
     selection_ok (passenger_count s) (selected_seats s) \<and>
     (current_step s = Search \<longrightarrow> selected_seats s = []) \<and>
     (\<forall>sel. seat_map s = Some sel \<longrightarrow>
        selection_ok (passenger_count s) sel \<and> (sel = selected_seats s \<or> sel = [])) \<and>
     (current_step s \<in> {PassengerDetails, Payment, Confirmation} \<longrightarrow>
        length (selected_seats s) = passenger_count s) \<and>
     (current_step s \<in> {Payment, Confirmation} \<longrightarrow> length (passengers s) = passenger_count s) \<and>
     (\<forall>ps. passenger_form s = Some ps \<longrightarrow> length ps = passenger_count s)"

text \<open>While a booking is pending and once it is confirmed, the request sent is the one
  built from the page's current flight, passengers and seats.\<close>

definition request_inv :: "page_state \<Rightarrow> bool" where
  "request_inv s \<longleftrightarrow>
     (booking_pending s \<or> current_step s = Confirmation \<longrightarrow>
        (\<exists>f pay. selected_flight s = Some f \<and>
           booking_request s =
             Some (create_booking_request (flight_id f) (passengers s) (selected_seats s) pay)))"

text \<open>
  The boundary between drafts and the committed booking: the page holds search
  parameters, passengers and a payment only as they were when the view's submit passed
  its checks (\<open>required\<close>, the date bounds, \<open>isFormValid\<close>, the email check).
\<close>

definition commit_inv :: "page_state \<Rightarrow> bool" where
  "commit_inv s \<longleftrightarrow>
     (\<forall>p. search_params s = Some p \<longrightarrow> sp_origin p \<noteq> [] \<and> sp_destination p \<noteq> [] \<and> search_dates_ok p) \<and>
     (passengers s \<noteq> [] \<longrightarrow> passenger_guard (passengers s) \<and> email_constraint_ok (passengers s)) \<and>
     (booking_request s \<noteq> None \<longrightarrow>
        (\<exists>f ps ss pay. booking_request s = Some (create_booking_request f ps ss pay) \<and> payment_submittable pay))"

text \<open>
  The flight-list step with an empty list: no request pending, no view with inputs
  mounted, no card to click.
\<close>

definition flight_list_trap :: "page_state \<Rightarrow> bool" where
  "flight_list_trap s \<longleftrightarrow>
     current_step s = SelectFlight \<and> flights s = [] \<and> \<not> search_pending s \<and> \<not> booking_pending s \<and>
     search_form s = None \<and> seat_map s = None \<and> passenger_form s = None \<and> payment_form s = None"

definition page_inv :: "page_state \<Rightarrow> bool" where
  "page_inv s \<longleftrightarrow> views_inv s \<and> flow_inv s \<and> seats_inv s \<and> request_inv s"

subsection \<open>Runs and reachable states\<close>

inductive page_reachable :: "page_state \<Rightarrow> bool" where
  init: "page_reachable page_init"
| step: "page_reachable s \<Longrightarrow> page_enabled s e \<Longrightarrow> page_reachable (page_step s e)"

fun page_exec :: "page_state \<Rightarrow> page_event list \<Rightarrow> page_state option" where
  "page_exec s [] = Some s"
| "page_exec s (e # es) = (if page_enabled s e then page_exec (page_step s e) es else None)"

subsection \<open>Lemmas\<close>

lemma sync_views_simps [simp]:
  "current_step (sync_views s) = current_step s"
  "search_params (sync_views s) = search_params s"
  "selected_flight (sync_views s) = selected_flight s"
  "selected_seats (sync_views s) = selected_seats s"
  "passengers (sync_views s) = passengers s"
  "booking_id (sync_views s) = booking_id s"
  "flights (sync_views s) = flights s"
  "search_pending (sync_views s) = search_pending s"
  "booking_pending (sync_views s) = booking_pending s"
  "booking_request (sync_views s) = booking_request s"
  "seat_cache (sync_views s) = seat_cache s"
  by (simp_all add: sync_views_def)

lemma sync_views_forms [simp]:
  "search_form (sync_views s) =
     (if current_step s = Search then Some (case search_form s of None \<Rightarrow> search_form_init | Some d \<Rightarrow> d)
      else None)"
  "seat_map (sync_views s) =
     (if current_step s = SelectSeats \<and> selected_flight s \<noteq> None
      then Some (case seat_map s of None \<Rightarrow> [] | Some sel \<Rightarrow> sel) else None)"
  "passenger_form (sync_views s) =
     (if current_step s = PassengerDetails
      then Some (case passenger_form s of None \<Rightarrow> passenger_form_init (passenger_count s) | Some ps \<Rightarrow> ps)
      else None)"
  "payment_form (sync_views s) =
     (if current_step s = Payment \<and> selected_flight s \<noteq> None
      then Some (case payment_form s of None \<Rightarrow> payment_init | Some p \<Rightarrow> p) else None)"
  by (simp_all add: sync_views_def)

lemma passenger_count_sync_views [simp]: "passenger_count (sync_views s) = passenger_count s"
  by (simp add: passenger_count_def)

lemma passenger_count_upd [simp]:
  "passenger_count (s\<lparr>current_step := a\<rparr>) = passenger_count s"
  "passenger_count (s\<lparr>selected_flight := b\<rparr>) = passenger_count s"
  "passenger_count (s\<lparr>selected_seats := c\<rparr>) = passenger_count s"
  "passenger_count (s\<lparr>passengers := d\<rparr>) = passenger_count s"
  "passenger_count (s\<lparr>booking_id := e\<rparr>) = passenger_count s"
  "passenger_count (s\<lparr>flights := f\<rparr>) = passenger_count s"
  "passenger_count (s\<lparr>search_pending := g\<rparr>) = passenger_count s"
  "passenger_count (s\<lparr>booking_pending := h\<rparr>) = passenger_count s"
  "passenger_count (s\<lparr>booking_request := i\<rparr>) = passenger_count s"
  "passenger_count (s\<lparr>seat_cache := j\<rparr>) = passenger_count s"
  "passenger_count (s\<lparr>search_form := k\<rparr>) = passenger_count s"
  "passenger_count (s\<lparr>seat_map := l\<rparr>) = passenger_count s"
  "passenger_count (s\<lparr>passenger_form := m\<rparr>) = passenger_count s"
  "passenger_count (s\<lparr>payment_form := n\<rparr>) = passenger_count s"
  by (simp_all add: passenger_count_def)

lemma passenger_count_Some:
  "search_params s = Some p \<Longrightarrow> search_draft_ok p \<Longrightarrow> passenger_count s = sp_passengers p"
  by (simp add: passenger_count_def search_draft_ok_def)

lemma passenger_count_pos: "0 < passenger_count s"
  by (simp add: passenger_count_def)

lemmas handler_defs = handle_search_def search_settled_def handle_flight_select_def seats_settled_def
  seat_click_def handle_seats_confirm_def handle_passengers_submit_def handle_payment_submit_def
  booking_settled_def book_another_def price_update_handler_def

subsection \<open>Mounted views\<close>

lemma views_inv_sync: "views_inv (sync_views s)"
  by (simp add: views_inv_def)

lemma views_inv_D:
  assumes "views_inv s"
  shows "search_form s = Some d \<Longrightarrow> current_step s = Search"
    and "seat_map s = Some sel \<Longrightarrow> current_step s = SelectSeats \<and> selected_flight s \<noteq> None"
    and "passenger_form s = Some ps \<Longrightarrow> current_step s = PassengerDetails"
    and "payment_form s = Some p \<Longrightarrow> current_step s = Payment \<and> selected_flight s \<noteq> None"
  using assms by (auto simp: views_inv_def)

lemma views_inv_Search:
  "views_inv s \<Longrightarrow> current_step s = Search \<Longrightarrow> seat_map s = None \<and> passenger_form s = None"
  by (auto simp: views_inv_def)

subsection \<open>Control flow\<close>

lemma flow_inv_sync: "flow_inv s \<Longrightarrow> flow_inv (sync_views s)"
  by (auto simp: flow_inv_def split: option.splits)

lemma flow_inv_handle:
  assumes "views_inv s" "flow_inv s" "page_enabled s e"
  shows "flow_inv (page_handle s e)"
  using assms
  by (cases e) (auto simp: flow_inv_def handler_defs search_draft_ok_change dest: views_inv_D
                  split: option.splits sum.splits click_outcome.splits)

subsection \<open>Seats and passengers\<close>

lemma selection_ok_Changed:
  "handle_seat_click m sel seat = Changed sel' \<Longrightarrow> selection_ok m sel \<Longrightarrow> selection_ok m sel'"
  using selection_ok_click [of m sel seat] by (simp add: seat_map_click_def)

lemma selection_ok_Nil [simp]: "selection_ok m []"
  by (simp add: selection_ok_def)

lemma seats_inv_sync: "seats_inv s \<Longrightarrow> seats_inv (sync_views s)"
  by (auto simp: seats_inv_def split: option.splits)

lemma seats_inv_submit_search:
  assumes "views_inv s" "seats_inv s" "page_enabled s (SubmitSearch now)"
  shows "seats_inv (page_handle s (SubmitSearch now))"
proof -
  from assms(3) obtain d where d: "search_form s = Some d"
    by (auto split: option.splits)
  with assms(1) have "current_step s = Search" by (rule views_inv_D)
  with assms(1,2) have "selected_seats s = []" "seat_map s = None" "passenger_form s = None"
    by (auto simp: seats_inv_def dest: views_inv_Search)
  with \<open>current_step s = Search\<close> d show ?thesis
    by (simp add: seats_inv_def handle_search_def)
qed

lemma seats_inv_click_seat:
  assumes "views_inv s" "seats_inv s" "page_enabled s (ClickSeat seat)"
  shows "seats_inv (page_handle s (ClickSeat seat))"
proof -
  from assms(3) obtain sel where sel: "seat_map s = Some sel" by auto
  with assms(1) have step: "current_step s = SelectSeats" by (auto dest: views_inv_D)
  from assms(2) sel have ok: "selection_ok (passenger_count s) sel"
    by (simp add: seats_inv_def)
  show ?thesis
  proof (cases "handle_seat_click (passenger_count s) sel seat")
    case (Changed sel')
    from Changed ok have "selection_ok (passenger_count s) sel'" by (rule selection_ok_Changed)
    with assms(2) Changed sel step show ?thesis
      by (simp add: seats_inv_def seat_click_def)
  qed (use assms(2) sel in \<open>simp_all add: seat_click_def\<close>)
qed

lemma seats_inv_handle:
  assumes "views_inv s" "flow_inv s" "seats_inv s" "page_enabled s e"
  shows "seats_inv (page_handle s e)"
proof -
  consider now where "e = SubmitSearch now" | seat where "e = ClickSeat seat"
    | "\<forall>now. e \<noteq> SubmitSearch now" "\<forall>seat. e \<noteq> ClickSeat seat"
    by blast
  then show ?thesis
  proof cases
    case 1
    show ?thesis
      unfolding 1 using assms(1,3) assms(4) [unfolded 1] by (rule seats_inv_submit_search)
  next
    case 2
    show ?thesis
      unfolding 2 using assms(1,3) assms(4) [unfolded 2] by (rule seats_inv_click_seat)
  next
    case 3
    with assms show ?thesis
      by (cases e) (auto simp: seats_inv_def flow_inv_def handler_defs seats_guard_def
                       passenger_count_Some dest: views_inv_D split: option.splits sum.splits)
  qed
qed

subsection \<open>The booking request\<close>

lemma request_inv_sync: "request_inv (sync_views s) = request_inv s"
  by (simp add: request_inv_def)

lemma request_inv_handle:
  assumes "views_inv s" "flow_inv s" "request_inv s" "page_enabled s e"
  shows "request_inv (page_handle s e)"
  using assms
  by (cases e) (auto simp: request_inv_def flow_inv_def handler_defs dest: views_inv_D
                  split: option.splits sum.splits click_outcome.splits)

subsection \<open>Reachable states\<close>

lemma page_inv_init: "page_inv page_init"
  by (simp add: page_inv_def views_inv_def flow_inv_def seats_inv_def request_inv_def page_init_def
        passenger_count_def)

lemma page_inv_step: "page_inv s \<Longrightarrow> page_enabled s e \<Longrightarrow> page_inv (page_step s e)"
  unfolding page_inv_def page_step_def
  by (simp add: views_inv_sync flow_inv_sync flow_inv_handle seats_inv_sync seats_inv_handle
        request_inv_sync request_inv_handle)

lemma page_reachable_inv: "page_reachable s \<Longrightarrow> page_inv s"
  by (induction rule: page_reachable.induct) (simp_all add: page_inv_init page_inv_step)

lemma page_exec_reachable: "page_reachable s \<Longrightarrow> page_exec s es = Some t \<Longrightarrow> page_reachable t"
  by (induction s es rule: page_exec.induct) (auto intro: page_reachable.step split: if_splits)


text \<open>Price updates are always enabled and only patch the flight list.\<close>

lemma page_exec_price_updates:
  "\<exists>t. page_exec s (map PriceUpdate us) = Some t \<and> flights t = apply_updates us (flights s) \<and>
     current_step t = current_step s"
proof (induction us arbitrary: s)
  case Nil
  then show ?case by (simp add: apply_updates_def)
next
  case (Cons u us)
  from Cons.IH [of "page_step s (PriceUpdate u)"] show ?case
    by (simp add: page_step_def price_update_handler_def apply_updates_def)
qed

lemma sync_views_id: "views_inv s \<Longrightarrow> sync_views s = s"
  by (cases s) (auto simp: views_inv_def sync_views_def split: option.splits)

lemma page_invD:
  assumes "page_reachable s"
  shows "views_inv s" "flow_inv s" "seats_inv s" "request_inv s"
  using page_reachable_inv [OF assms] by (simp_all add: page_inv_def)

subsection \<open>Committed drafts\<close>

lemma commit_inv_handle:
  assumes "flow_inv s" "commit_inv s" "page_enabled s e"
  shows "commit_inv (page_handle s e)"
proof (cases e)
  case (SubmitSearch now)
  with assms(3) obtain d where d: "search_form s = Some d" "search_submittable (iso_date now) d"
    by (auto split: option.splits)
  with assms(1) have "search_draft_ok d" by (simp add: flow_inv_def)
  from search_submit_ok [OF this d(2)] assms(2) d SubmitSearch show ?thesis
    by (simp add: commit_inv_def handle_search_def)
next
  case (SubmitPassengers now)
  with assms(3) obtain ps where ps: "passenger_form s = Some ps" "is_form_valid ps = Inr True"
    "form_constraints_ok (iso_date now) ps"
    by (auto split: option.splits)
  from is_form_valid_True [OF ps(2)] assms(2) ps SubmitPassengers show ?thesis
    by (simp add: commit_inv_def handle_passengers_submit_def form_constraints_ok_def)
next
  case SubmitPayment
  with assms(3) obtain pay where "payment_form s = Some pay" "payment_submittable pay"
    by (auto split: option.splits)
  with assms(2) SubmitPayment show ?thesis
    by (auto simp: commit_inv_def handle_payment_submit_def split: option.splits)
qed (use assms(2) in \<open>auto simp: commit_inv_def handler_defs
                         split: option.splits sum.splits click_outcome.splits\<close>)

lemma page_reachable_commit: "page_reachable s \<Longrightarrow> commit_inv s"
proof (induction rule: page_reachable.induct)
  case init
  show ?case by (simp add: commit_inv_def page_init_def)
next
  case (step s e)
  from commit_inv_handle [OF page_invD(2) [OF step.hyps(1)] step.IH step.hyps(2)] show ?case
    by (simp add: page_step_def commit_inv_def)
qed

subsection \<open>The empty flight list\<close>

lemma flight_list_trap_enabled:
  "flight_list_trap s \<Longrightarrow> page_enabled s e \<Longrightarrow> (\<exists>u. e = PriceUpdate u) \<or> (\<exists>fid rs. e = SeatsSettled fid rs)"
  by (cases e) (simp_all add: flight_list_trap_def)

lemma flight_list_trap_step:
  "flight_list_trap s \<Longrightarrow> page_enabled s e \<Longrightarrow> flight_list_trap (page_step s e)"
  using flight_list_trap_enabled [of s e]
  by (auto simp: flight_list_trap_def page_step_def seats_settled_def price_update_handler_def
        apply_price_update_def split: option.splits sum.splits)

lemma flight_list_trap_exec: "flight_list_trap s \<Longrightarrow> page_exec s es = Some t \<Longrightarrow> flight_list_trap t"
  by (induction s es rule: page_exec.induct) (auto split: if_splits intro: flight_list_trap_step)

lemma reachable_flight_list_trap:
  assumes "page_reachable s" "current_step s = SelectFlight" "flights s = []"
  shows "flight_list_trap s"
  using page_invD(1,2) [OF assms(1)] assms(2,3)
  by (auto simp: flight_list_trap_def views_inv_def flow_inv_def)

subsection \<open>Properties\<close>

text \<open>
  C1 (safety): whenever the page can submit the payment form, submitting it sends a
  booking request -- the guard that silently drops the submission never fires -- and
  the request names the selected flight and carries exactly as many seats and as many
  passengers as the search asked for.
\<close>

theorem booking_request_matches_search:
  assumes "page_reachable s" "page_enabled s SubmitPayment"
  shows "\<exists>f p pay. selected_flight s = Some f \<and> search_params s = Some p \<and>
           booking_pending (page_step s SubmitPayment) \<and>
           booking_request (page_step s SubmitPayment) =
             Some (create_booking_request (flight_id f) (passengers s) (selected_seats s) pay) \<and>
           length (selected_seats s) = sp_passengers p \<and> length (passengers s) = sp_passengers p"
proof -
  note inv = page_invD [OF assms(1)]
  from assms(2) obtain pay where pay: "payment_form s = Some pay"
    by (auto split: option.splits)
  with inv(1) obtain f where step: "current_step s = Payment" and f: "selected_flight s = Some f"
    by (auto dest: views_inv_D)
  from inv(2) step obtain p where p: "search_params s = Some p" and ok: "search_draft_ok p"
    by (auto simp: flow_inv_def)
  from inv(3) step have len: "length (selected_seats s) = passenger_count s"
    "length (passengers s) = passenger_count s"
    by (simp_all add: seats_inv_def)
  with passenger_count_pos [of s] have "selected_seats s \<noteq> []" "passengers s \<noteq> []"
    by auto
  with pay f have "page_handle s SubmitPayment =
      s\<lparr>booking_pending := True,
        booking_request := Some (create_booking_request (flight_id f) (passengers s) (selected_seats s) pay)\<rparr>"
    by (simp add: handle_payment_submit_def)
  with f p len passenger_count_Some [OF p ok] show ?thesis
    by (auto simp: page_step_def)
qed

text \<open>
  C2 (functional): on the seat step, continuing to passenger details is possible, and
  happens, exactly when the number of selected seats equals the searched passenger
  count; otherwise the page state is unchanged.
\<close>

theorem confirm_seats_gate:
  assumes "page_reachable s" "current_step s = SelectSeats"
  shows "\<exists>p. search_params s = Some p \<and>
    (page_enabled s ConfirmSeats \<longleftrightarrow> length (selected_seats s) = sp_passengers p) \<and>
    (current_step (page_step s ConfirmSeats) = PassengerDetails \<longleftrightarrow>
       length (selected_seats s) = sp_passengers p) \<and>
    (length (selected_seats s) \<noteq> sp_passengers p \<longrightarrow> page_step s ConfirmSeats = s)"
proof -
  note inv = page_invD [OF assms(1)]
  from inv(2) assms(2) obtain p where p: "search_params s = Some p" and f: "selected_flight s \<noteq> None"
    by (auto simp: flow_inv_def)
  then show ?thesis
    using assms(2) sync_views_id [OF inv(1)]
    by (auto simp: page_step_def handle_seats_confirm_def seats_guard_def)
qed

text \<open>
  C3 (functional): on the passenger step, the form can be submitted exactly when every
  passenger has a non-empty first name, last name, date of birth and passport number,
  passenger 1 a non-empty email and phone, the email is a valid address for the
  browser's \<open>type="email"\<close> check, and no date of birth lies after the \<open>max\<close> date the
  render computed from its clock; submitting stores the passengers and moves to
  payment.
\<close>

theorem submit_passengers_gate:
  assumes "page_reachable s" "passenger_form s = Some ps"
  shows "(page_enabled s (SubmitPassengers now) \<longleftrightarrow>
            passenger_guard ps \<and> form_constraints_ok (iso_date now) ps) \<and>
         (passenger_guard ps \<longrightarrow>
            current_step (page_step s (SubmitPassengers now)) = Payment \<and>
            passengers (page_step s (SubmitPassengers now)) = ps)"
proof -
  note inv = page_invD [OF assms(1)]
  from inv(3) assms(2) have "length ps = passenger_count s" by (simp add: seats_inv_def)
  with passenger_count_pos [of s] have "ps \<noteq> []" by auto
  then have "is_form_valid ps = Inr (passenger_guard ps)" by (rule is_form_valid_guard)
  with assms(2) show ?thesis
    by (simp add: page_step_def handle_passengers_submit_def)
qed

text \<open>
  C4 (error results): when a search settles successfully the page is on the flight list
  holding exactly the response; when it fails the page stays on the search step, keeps
  its flight list and is no longer busy.  When a booking settles successfully the page
  shows the confirmation of the returned booking; when it fails the page stays on the
  payment step, is no longer busy, and the user can submit again exactly when the
  payment form is still filled in.
\<close>

theorem search_settled_outcome:
  assumes "page_reachable s"
  shows "(page_enabled s (SearchSettled r) \<longrightarrow>
            (search_flights r = Inr fs \<longrightarrow>
               current_step (page_step s (SearchSettled r)) = SelectFlight \<and>
               flights (page_step s (SearchSettled r)) = fs) \<and>
            (search_flights r = Inl e \<longrightarrow>
               current_step (page_step s (SearchSettled r)) = Search \<and>
               flights (page_step s (SearchSettled r)) = flights s \<and>
               \<not> search_pending (page_step s (SearchSettled r)))) \<and>
         (page_enabled s (BookingSettled b) \<longrightarrow>
            (create_booking b = Inr bk \<longrightarrow>
               current_step (page_step s (BookingSettled b)) = Confirmation \<and>
               booking_id (page_step s (BookingSettled b)) = bk_id bk) \<and>
            (create_booking b = Inl e' \<longrightarrow>
               current_step (page_step s (BookingSettled b)) = Payment \<and>
               \<not> booking_pending (page_step s (BookingSettled b)) \<and>
               (page_enabled (page_step s (BookingSettled b)) SubmitPayment \<longleftrightarrow>
                  (\<exists>p. payment_form s = Some p \<and> payment_submittable p))))"
proof -
  note inv = page_invD [OF assms]
  have search: "current_step s = Search" if "page_enabled s (SearchSettled r)"
    using inv(2) that by (simp add: flow_inv_def)
  have booking: "current_step s = Payment \<and> selected_flight s \<noteq> None \<and> (\<exists>p. payment_form s = Some p)"
    if "page_enabled s (BookingSettled b)"
    using inv(1,2) that by (auto simp: flow_inv_def views_inv_def)
  show ?thesis
    using search booking by (auto simp: page_step_def search_settled_def booking_settled_def)
qed

text \<open>
  C5 (invariant): a search is pending only on the search step and a booking only on the
  payment step, so the unconditional success handlers of both mutations can never
  move the wizard from a step the user has since left.
\<close>

theorem pending_requests_on_own_step:
  assumes "page_reachable s"
  shows "(search_pending s \<longrightarrow> current_step s = Search) \<and> (booking_pending s \<longrightarrow> current_step s = Payment)"
  using page_invD(2) [OF assms] by (simp add: flow_inv_def)

text \<open>
  C17 (safety): whenever the page can submit the search form at clock \<open>now\<close>, submitting
  it commits search parameters that ask for between 1 and 8 passengers, whose departure
  is a valid date not before the UTC date of \<open>now\<close>, and whose return date is empty or
  a valid date not before the departure; the search request is then pending.
\<close>

theorem search_submission_constraints:
  assumes "page_reachable s" "page_enabled s (SubmitSearch now)"
    and "fst (civil_of_days (now div 86400000)) \<le> 9999"
  shows "\<exists>p dep. search_params (page_step s (SubmitSearch now)) = Some p \<and>
           search_pending (page_step s (SubmitSearch now)) \<and>
           1 \<le> sp_passengers p \<and> sp_passengers p \<le> 8 \<and>
           parse_date (departure_date p) = Some dep \<and> civil_of_days (now div 86400000) \<le> dep \<and>
           (\<forall>r. return_date p = Some r \<longrightarrow> r = [] \<or> (\<exists>ret. parse_date r = Some ret \<and> dep \<le> ret))"
proof -
  from assms(2) obtain d where d: "search_form s = Some d"
    and sub: "search_submittable (iso_date now) d"
    by (auto split: option.splits)
  from page_invD(2) [OF assms(1)] d have ok: "search_draft_ok d"
    by (simp add: flow_inv_def)
  have "search_params (page_step s (SubmitSearch now)) = Some d"
    "search_pending (page_step s (SubmitSearch now))"
    using d by (simp_all add: page_step_def handle_search_def)
  with ok search_submit_dates [OF ok sub parse_iso_date [OF assms(3)]] show ?thesis
    by (auto simp: search_draft_ok_def)
qed

text \<open>
  C30 (invariant): drafts reach the committed booking only through a passing submit.
  In every reachable state the committed search has an origin, a destination, a valid
  departure date and a return date that is empty or not before it; committed
  passengers satisfy the passenger guard of the specification and the email check;
  a booking request carries a payment whose required fields are all filled in.
\<close>

theorem committed_drafts_validated:
  assumes "page_reachable s"
  shows "(\<forall>p. search_params s = Some p \<longrightarrow>
            sp_origin p \<noteq> [] \<and> sp_destination p \<noteq> [] \<and> search_dates_ok p) \<and>
         (passengers s \<noteq> [] \<longrightarrow> passenger_guard (passengers s) \<and> email_constraint_ok (passengers s)) \<and>
         (booking_request s \<noteq> None \<longrightarrow>
            (\<exists>f ps ss pay. booking_request s = Some (create_booking_request f ps ss pay) \<and>
               payment_submittable pay))"
  using page_reachable_commit [OF assms] by (simp add: commit_inv_def)

text \<open>
  C8 (roundtrip): on the confirmation step the card shows as many passengers as the
  booking request carried and the labels \<open>{row}{column}\<close> of exactly the seats of the
  request, in the order they were selected.
\<close>

theorem confirmation_shows_booking_request:
  assumes "page_reachable s" "current_step s = Confirmation"
  shows "\<exists>f ps ss pay. selected_flight s = Some f \<and>
           booking_request s = Some (create_booking_request (flight_id f) ps ss pay) \<and>
           confirmation_view s = (booking_id s, length ps, join_with '', '' (map seat_label ss))"
  using page_invD(4) [OF assms(1)] assms(2)
  by (auto simp: request_inv_def confirmation_view_def)

text \<open>
  C10 (liveness, violated): a search that returns no flights strands the user.  From a
  reachable flight-list step with an empty list, every run stays on that step with an
  empty list, and the only events still possible are price updates and seat
  responses: no control of the page can be used any more.
\<close>

theorem empty_results_dead_end:
  assumes "page_reachable s" "current_step s = SelectFlight" "flights s = []"
  shows "\<forall>es t. page_exec s es = Some t \<longrightarrow>
           current_step t = SelectFlight \<and> flights t = [] \<and>
           (\<forall>e. page_enabled t e \<longrightarrow> (\<exists>u. e = PriceUpdate u) \<or> (\<exists>fid rs. e = SeatsSettled fid rs))"
proof (intro allI impI)
  fix es t
  assume "page_exec s es = Some t"
  with reachable_flight_list_trap [OF assms] have "flight_list_trap t"
    by (rule flight_list_trap_exec)
  then show "current_step t = SelectFlight \<and> flights t = [] \<and>
      (\<forall>e. page_enabled t e \<longrightarrow> (\<exists>u. e = PriceUpdate u) \<or> (\<exists>fid rs. e = SeatsSettled fid rs))"
    using flight_list_trap_enabled [of t] by (simp add: flight_list_trap_def)
qed

text \<open>
  A price update patches the held flight list but neither the selected
  flight nor the payment total computed from it.
\<close>

theorem price_update_keeps_total:
  "flights (page_step s (PriceUpdate u)) = apply_price_update u (flights s) \<and>
   selected_flight (page_step s (PriceUpdate u)) = selected_flight s \<and>
   calculate_total (page_step s (PriceUpdate u)) = calculate_total s"
  by (simp add: page_step_def price_update_handler_def calculate_total_def split: option.splits)

text \<open>
  C9 (safety): the page-level seat selection survives a change of flight.  From the
  seat step of any reachable state, "Back to Flights" and a click on another flight of
  the list are both possible; afterwards the page is on the seat step of the new
  flight, its freshly mounted seat map shows no selection, yet the page still holds the
  seats chosen on the old flight, and "Continue to Passenger Details" is enabled
  exactly when it was before, so those seats can be booked on the new flight.
\<close>

theorem stale_seat_selection_kept:
  assumes "page_reachable s" "current_step s = SelectSeats" "f \<in> set (flights s)"
  shows "page_enabled s BackToFlights \<and> page_enabled (page_step s BackToFlights) (ClickFlight f) \<and>
         current_step (page_step (page_step s BackToFlights) (ClickFlight f)) = SelectSeats \<and>
         selected_flight (page_step (page_step s BackToFlights) (ClickFlight f)) = Some f \<and>
         seat_map (page_step (page_step s BackToFlights) (ClickFlight f)) = Some [] \<and>
         selected_seats (page_step (page_step s BackToFlights) (ClickFlight f)) = selected_seats s \<and>
         (page_enabled (page_step (page_step s BackToFlights) (ClickFlight f)) ConfirmSeats \<longleftrightarrow>
            page_enabled s ConfirmSeats)"
proof -
  from page_invD(2) [OF assms(1)] assms(2) have "selected_flight s \<noteq> None"
    by (simp add: flow_inv_def)
  with assms show ?thesis
    by (simp add: page_step_def sync_views_def handle_flight_select_def seats_guard_def
        split: option.splits)
qed

text \<open>
  C11 (functional): a live price update for the selected flight reaches the flight list
  but not the booking: afterwards every listed flight with the updated identifier
  shows the new price, while the selected flight and the total of the payment step are
  still computed from the price the flight had when it was clicked.
\<close>

theorem price_update_leaves_total_stale:
  assumes "selected_flight s = Some f" "update_flight_id u = flight_id f"
  shows "(\<forall>g\<in>set (flights (page_step s (PriceUpdate u))). flight_id g = flight_id f \<longrightarrow>
            price g = new_price u) \<and>
         selected_flight (page_step s (PriceUpdate u)) = Some f \<and>
         calculate_total (page_step s (PriceUpdate u)) =
           price f * of_nat (passenger_count s) +
           sum_list (map (\<lambda>seat. case seat_price seat of None \<Rightarrow> 0 | Some p \<Rightarrow> p) (selected_seats s))"
  using assms price_update_keeps_total [of s u]
  by (auto simp: apply_price_update_def calculate_total_def)

text \<open>
  C32 (functional): while the booking request is in flight, both buttons of the payment
  form are disabled, so the booking can neither be sent twice nor the step left, but
  every input of the form stays editable with exactly the checks it has when idle,
  where the specification says the inputs are disabled too.
\<close>

theorem payment_busy_inputs_editable:
  assumes "page_reachable s" "booking_pending s"
  shows "\<not> page_enabled s SubmitPayment \<and> \<not> page_enabled s BackToPassengers \<and>
         (\<forall>fld. page_enabled s (EditPayment fld) \<longleftrightarrow> payment_input_ok fld)"
proof -
  note inv = page_invD [OF assms(1)]
  from inv(2) assms(2) have "current_step s = Payment" "selected_flight s \<noteq> None"
    by (simp_all add: flow_inv_def)
  with inv(1) have "payment_form s \<noteq> None" by (simp add: views_inv_def)
  with assms(2) show ?thesis by (auto split: option.splits)
qed

text \<open>
  C22 (functional): "Book Another Flight" returns to a fresh search form with no flight,
  seats, passengers or flight list; the last search parameters and booking id are
  kept.
\<close>

theorem book_another_resets:
  assumes "page_reachable s" "page_enabled s BookAnother"
  shows "current_step (page_step s BookAnother) = Search \<and>
         selected_flight (page_step s BookAnother) = None \<and>
         selected_seats (page_step s BookAnother) = [] \<and> passengers (page_step s BookAnother) = [] \<and>
         flights (page_step s BookAnother) = [] \<and>
         search_form (page_step s BookAnother) = Some search_form_init \<and>
         search_params (page_step s BookAnother) = search_params s \<and>
         booking_id (page_step s BookAnother) = booking_id s"
proof -
  from page_invD(1) [OF assms(1)] assms(2) have "search_form s = None"
    by (auto simp: views_inv_def)
  then show ?thesis by (simp add: page_step_def book_another_def)
qed

end
