(* ===== verification/Page_View.thy ===== *)
theory Page_View
  imports Booking_Flow
begin

text \<open>
  The controls the page and its views render, with their labels and \<open>disabled\<close>
  attributes, read off the JSX: the search form's submit button and select options
  (\<^verbatim>\<open>SearchForm.tsx\<close>), the seat buttons (\<^verbatim>\<open>SeatMap.tsx\<close>), the step actions of the
  seat step (\<^verbatim>\<open>SearchPage.tsx\<close>), the passenger form's headings and buttons
  (\<^verbatim>\<open>PassengerForm.tsx\<close>) and the payment form's total and buttons
  (\<^verbatim>\<open>PaymentForm.tsx\<close>, with the props \<^verbatim>\<open>SearchPage.tsx\<close> passes).  \<open>formatPrice\<close> goes
  through \<open>Intl\<close> and is a parameter.  The lemmas relate these controls to the events
  \<open>page_enabled\<close> admits.
\<close>

record button_view =
  btn_label :: string
  btn_disabled :: bool

subsection \<open>Search form\<close>

text \<open>\<open>{num} {num === 1 ? 'Passenger' : 'Passengers'}\<close> for each option of the select.\<close>

definition passenger_option_label :: "nat \<Rightarrow> string" where
  "passenger_option_label n = string_of_nat n @ '' '' @ (if n = 1 then ''Passenger'' else ''Passengers'')"

definition class_options :: "(cabin_class \<times> string) list" where
  "class_options = [(Economy, ''Economy''), (Business, ''Business''), (First, ''First Class'')]"

text \<open>The submit button, \<open>disabled={isLoading}\<close>, with \<open>isLoading = searchMutation.isPending\<close>.\<close>

definition search_button :: "bool \<Rightarrow> button_view" where
  "search_button loading =
     \<lparr>btn_label = (if loading then ''Searching...'' else ''Search Flights''), btn_disabled = loading\<rparr>"

subsection \<open>Seat map\<close>

text \<open>A seat button: its text, class, \<open>disabled={seat.status === 'occupied'}\<close> and title
  \<open>`Seat ${rowNum}${seat.column} - ${seat.type}`\<close>.\<close>

record seat_button_view =
  sb_text :: string
  sb_class :: string
  sb_disabled :: bool
  sb_title :: string

definition seat_button :: "seat list \<Rightarrow> seat \<Rightarrow> seat_button_view" where
  "seat_button sel seat =
     \<lparr>sb_text = seat_column seat, sb_class = get_seat_class sel seat,
      sb_disabled = (seat_status seat = Occupied),
      sb_title = ''Seat '' @ seat_label seat @ '' - '' @ seat_type_name (seat_type seat)\<rparr>"

text \<open>The legend above the grid: a sample seat class and its caption per state.\<close>

definition seat_legend :: "(string \<times> string) list" where
  "seat_legend =
     [(''seat seat-available'', ''Available''), (''seat seat-selected'', ''Selected''),
      (''seat seat-occupied'', ''Occupied'')]"

text \<open>The seat step's subtitle and the confirmation's flight lines.  JSX drops the line
  break and the indentation after \<open>-\<close>, so no space separates it from the origin code.
  The arrow U+2192 lies outside the model's characters and is the parameter \<open>arrow\<close>.\<close>

definition seat_step_subtitle :: "string \<Rightarrow> flight \<Rightarrow> string" where
  "seat_step_subtitle arrow f =
     airline f @ '' '' @ flight_number f @ '' -'' @ airport_code (flight_origin f) @ '' '' @ arrow @ '' '' @
     airport_code (flight_destination f)"

definition confirmation_flight_lines :: "string \<Rightarrow> flight \<Rightarrow> string \<times> string" where
  "confirmation_flight_lines arrow f =
     (airline f @ '' '' @ flight_number f,
      airport_city (flight_origin f) @ '' '' @ arrow @ '' '' @ airport_city (flight_destination f))"

text \<open>The seat step's actions: back to the flights, and continue, disabled while
  \<open>selectedSeats.length !== searchParams?.passengers\<close> (always, without parameters).\<close>

definition seat_step_buttons :: "page_state \<Rightarrow> button_view \<times> button_view" where
  "seat_step_buttons s =
     (\<lparr>btn_label = ''Back to Flights'', btn_disabled = False\<rparr>,
      \<lparr>btn_label = ''Continue to Passenger Details'',
       btn_disabled =
         (case search_params s of None \<Rightarrow> True | Some p \<Rightarrow> length (selected_seats s) \<noteq> sp_passengers p)\<rparr>)"

subsection \<open>Passenger form\<close>

definition passenger_headings :: "passenger list \<Rightarrow> string list" where
  "passenger_headings ps = map (\<lambda>i. ''Passenger '' @ string_of_nat (Suc i)) [0..<length ps]"

text \<open>The buttons; rendering evaluates \<open>disabled={!isFormValid()}\<close>, so a \<open>TypeError\<close> of
  \<open>isFormValid\<close> is thrown by the render.\<close>

definition passenger_buttons :: "passenger list \<Rightarrow> js_error + button_view \<times> button_view" where
  "passenger_buttons ps =
     (case is_form_valid ps of
        Inl e \<Rightarrow> Inl e
      | Inr ok \<Rightarrow> Inr (\<lparr>btn_label = ''Back to Seats'', btn_disabled = False\<rparr>,
                      \<lparr>btn_label = ''Continue to Payment'', btn_disabled = \<not> ok\<rparr>))"

subsection \<open>Payment form\<close>

text \<open>The header's total and the two buttons, \<open>disabled={isProcessing}\<close>.\<close>

record payment_view =
  pv_total :: string
  pv_back :: button_view
  pv_submit :: button_view

definition payment_form_view :: "(money \<Rightarrow> string \<Rightarrow> string) \<Rightarrow> money \<Rightarrow> string \<Rightarrow> bool \<Rightarrow> payment_view" where
  "payment_form_view format_price amount cur processing =
     \<lparr>pv_total = format_price amount cur,
      pv_back = \<lparr>btn_label = ''Back to Passengers'', btn_disabled = processing\<rparr>,
      pv_submit = \<lparr>btn_label = (if processing then ''Processing...'' else ''Complete Booking''),
                   btn_disabled = processing\<rparr>\<rparr>"

text \<open>\<open><PaymentForm totalAmount={calculateTotal()} currency={selectedFlight.currency}
  isProcessing={bookingMutation.isPending} .../>\<close>\<close>

definition page_payment_view :: "(money \<Rightarrow> string \<Rightarrow> string) \<Rightarrow> page_state \<Rightarrow> payment_view option" where
  "page_payment_view format_price s =
     (case (payment_form s, selected_flight s) of
        (Some _, Some f) \<Rightarrow>
          Some (payment_form_view format_price (calculate_total s) (currency f) (booking_pending s))
      | _ \<Rightarrow> None)"

subsection \<open>Lemmas\<close>

lemma passenger_buttons_guard:
  "ps \<noteq> [] \<Longrightarrow>
   passenger_buttons ps = Inr (\<lparr>btn_label = ''Back to Seats'', btn_disabled = False\<rparr>,
                               \<lparr>btn_label = ''Continue to Payment'', btn_disabled = \<not> passenger_guard ps\<rparr>)"
  by (simp add: passenger_buttons_def is_form_valid_guard)

text \<open>Every seat button carries the state class of one legend entry, the "Selected" one
  exactly when the seat is in the selection or the server reports it selected.\<close>

lemma seat_class_in_legend:
  "\<exists>c l. (c, l) \<in> set seat_legend \<and>
     get_seat_class sel seat = ''seat seat-'' @ seat_type_name (seat_type seat) @ '' '' @ drop 5 c \<and>
     (l = ''Selected'' \<longleftrightarrow> is_selected sel seat \<or> seat_status seat = Selected)"
proof (cases "is_selected sel seat")
  case True
  then show ?thesis
    by (intro exI [of _ "''seat seat-selected''"] exI [of _ "''Selected''"])
       (simp add: seat_legend_def get_seat_class_def)
next
  case False
  then show ?thesis
  proof (cases "seat_status seat")
    case Available
    with False show ?thesis
      by (intro exI [of _ "''seat seat-available''"] exI [of _ "''Available''"])
         (simp add: seat_legend_def get_seat_class_def seat_status_name_def)
  next
    case Occupied
    with False show ?thesis
      by (intro exI [of _ "''seat seat-occupied''"] exI [of _ "''Occupied''"])
         (simp add: seat_legend_def get_seat_class_def seat_status_name_def)
  next
    case Selected
    with False show ?thesis
      by (intro exI [of _ "''seat seat-selected''"] exI [of _ "''Selected''"])
         (simp add: seat_legend_def get_seat_class_def seat_status_name_def)
  qed
qed

lemma reachable_passenger_form_nonempty:
  "page_reachable s \<Longrightarrow> passenger_form s = Some ps \<Longrightarrow> ps \<noteq> []"
  using page_invD(3) [of s] passenger_count_pos [of s] by (auto simp: seats_inv_def)

subsection \<open>Properties\<close>

text \<open>
  The events the page model admits are exactly what the rendered
  controls allow.  In every reachable state: the search can be submitted exactly when
  its button is enabled and the browser's checks pass; on the seat step, a seat can be
  clicked exactly when its button is enabled, and continuing and going back exactly when
  their buttons are; the passenger form renders without throwing, and its buttons agree
  with the submit and back events; the payment form shows the page's total and its
  buttons agree with the submit and back events.
\<close>

theorem rendered_controls_match_events:
  assumes "page_reachable s"
  shows "(\<forall>d. search_form s = Some d \<longrightarrow>
            (page_enabled s (SubmitSearch now) \<longleftrightarrow>
               \<not> btn_disabled (search_button (search_pending s)) \<and> search_submittable (iso_date now) d)) \<and>
         (\<forall>sel. seat_map s = Some sel \<longrightarrow> (\<forall>seat \<in> set (available_seats s).
            page_enabled s (ClickSeat seat) \<longleftrightarrow> \<not> sb_disabled (seat_button sel seat))) \<and>
         (current_step s = SelectSeats \<longrightarrow>
            (page_enabled s ConfirmSeats \<longleftrightarrow> \<not> btn_disabled (snd (seat_step_buttons s))) \<and>
            (page_enabled s BackToFlights \<longleftrightarrow> \<not> btn_disabled (fst (seat_step_buttons s)))) \<and>
         (\<forall>ps. passenger_form s = Some ps \<longrightarrow>
            (\<exists>back submit. passenger_buttons ps = Inr (back, submit) \<and>
               (page_enabled s (SubmitPassengers now) \<longleftrightarrow>
                  \<not> btn_disabled submit \<and> form_constraints_ok (iso_date now) ps) \<and>
               (page_enabled s BackToSeats \<longleftrightarrow> \<not> btn_disabled back))) \<and>
         (\<forall>p. payment_form s = Some p \<longrightarrow>
            (\<exists>v f. page_payment_view format_price s = Some v \<and> selected_flight s = Some f \<and>
               pv_total v = format_price (calculate_total s) (currency f) \<and>
               (page_enabled s SubmitPayment \<longleftrightarrow> \<not> btn_disabled (pv_submit v) \<and> payment_submittable p) \<and>
               (page_enabled s BackToPassengers \<longleftrightarrow> \<not> btn_disabled (pv_back v))))"
proof -
  note inv = page_invD [OF assms]
  have search: "page_enabled s (SubmitSearch now) \<longleftrightarrow>
      \<not> btn_disabled (search_button (search_pending s)) \<and> search_submittable (iso_date now) d"
    if "search_form s = Some d" for d
    using that by (simp add: search_button_def)
  have seat: "page_enabled s (ClickSeat seat) \<longleftrightarrow> \<not> sb_disabled (seat_button sel seat)"
    if "seat_map s = Some sel" "seat \<in> set (available_seats s)" for sel seat
    using that by (simp add: seat_button_def)
  have seats: "(page_enabled s ConfirmSeats \<longleftrightarrow> \<not> btn_disabled (snd (seat_step_buttons s))) \<and>
      (page_enabled s BackToFlights \<longleftrightarrow> \<not> btn_disabled (fst (seat_step_buttons s)))"
    if st: "current_step s = SelectSeats"
  proof -
    from inv(2) st obtain p where "search_params s = Some p" "selected_flight s \<noteq> None"
      by (auto simp: flow_inv_def)
    with st show ?thesis by (simp add: seat_step_buttons_def seats_guard_def)
  qed
  have passengers: "\<exists>back submit. passenger_buttons ps = Inr (back, submit) \<and>
      (page_enabled s (SubmitPassengers now) \<longleftrightarrow>
         \<not> btn_disabled submit \<and> form_constraints_ok (iso_date now) ps) \<and>
      (page_enabled s BackToSeats \<longleftrightarrow> \<not> btn_disabled back)"
    if ps: "passenger_form s = Some ps" for ps
  proof -
    from reachable_passenger_form_nonempty [OF assms ps] have "ps \<noteq> []" .
    moreover from inv(1) ps have "current_step s = PassengerDetails" by (rule views_inv_D)
    ultimately show ?thesis using ps by (simp add: passenger_buttons_guard is_form_valid_guard)
  qed
  have payment: "\<exists>v f. page_payment_view format_price s = Some v \<and> selected_flight s = Some f \<and>
      pv_total v = format_price (calculate_total s) (currency f) \<and>
      (page_enabled s SubmitPayment \<longleftrightarrow> \<not> btn_disabled (pv_submit v) \<and> payment_submittable p) \<and>
      (page_enabled s BackToPassengers \<longleftrightarrow> \<not> btn_disabled (pv_back v))"
    if p: "payment_form s = Some p" for p
  proof -
    from inv(1) p obtain f where "selected_flight s = Some f" by (auto dest: views_inv_D)
    with p show ?thesis by (simp add: page_payment_view_def payment_form_view_def)
  qed
  show ?thesis using search seat seats passengers payment by blast
qed

end
