(* ===== verification/Scenarios.thy ===== *)
theory Scenarios
  imports Page_View
begin

text \<open>
  Concrete runs of the booking page, executed by \<open>page_exec\<close> from \<open>page_init\<close>: a search
  JFK to LAX answered with two flights F1 (299) and F2 (349), the seat fetch for each,
  seat clicks, the passenger and payment forms filled in, and the booking response.
  Every run is a sequence of enabled events, so its final state is reachable; the
  theorems read the final state by evaluation.  They show the end-to-end scenarios of
  the specification and the three behaviours of the code the specification does not
  describe: a seat selection that survives a change of flight, a payment total that
  ignores live prices, and confirmation labels in click order.
\<close>

definition jfk :: airport where
  "jfk = \<lparr>airport_code = ''JFK'', airport_name = ''John F. Kennedy International'',
          airport_city = ''New York'', airport_country = ''USA''\<rparr>"

definition lax :: airport where
  "lax = \<lparr>airport_code = ''LAX'', airport_name = ''Los Angeles International'',
          airport_city = ''Los Angeles'', airport_country = ''USA''\<rparr>"

definition demo_flight :: "ident \<Rightarrow> money \<Rightarrow> flight" where
  "demo_flight i p =
     \<lparr>flight_id = i, flight_number = ''SK'' @ i, airline = ''SkyBook Air'', airline_logo = [],
      flight_origin = jfk, flight_destination = lax, departure_time = ''2026-12-01T08:00:00Z'',
      arrival_time = ''2026-12-01T14:00:00Z'', duration = 360, price = p, currency = ''USD'',
      stops = 0, layovers = None, available_seats = 120, flight_class = Economy\<rparr>"

definition demo_flights :: "flight list" where
  "demo_flights = [demo_flight ''F1'' 299, demo_flight ''F2'' 349]"

definition demo_seat :: "nat \<Rightarrow> string \<Rightarrow> seat_status \<Rightarrow> seat" where
  "demo_seat r c st =
     \<lparr>seat_id = string_of_nat r @ c, seat_row = r, seat_column = c, seat_type = Window,
      seat_status = st, seat_price = None\<rparr>"

text \<open>The clock of the renders: 2026-11-09, 12:00 UTC.\<close>

definition demo_now :: nat where
  "demo_now = 1794225600000"

text \<open>20:00 on 2026-11-09 in New York (UTC-5, \<open>getTimezoneOffset() = 300\<close>), which is
  01:00 on 2026-11-10 UTC, and two hours earlier.\<close>

definition ny_evening :: nat where
  "ny_evening = 1794272400000"

definition same_day_edits :: "page_event list" where
  "same_day_edits =
     [EditSearch (Origin ''JFK''), EditSearch (Destination ''LAX''), EditSearch (DepartureDate ''2026-11-09'')]"

definition search_edits :: "nat \<Rightarrow> page_event list" where
  "search_edits n =
     [EditSearch (Origin ''JFK''), EditSearch (Destination ''LAX''),
      EditSearch (DepartureDate ''2026-12-01''), EditSearch (Passengers n)]"

definition search_trace :: "nat \<Rightarrow> page_event list" where
  "search_trace n = search_edits n @ [SubmitSearch demo_now, SearchSettled (Response 200 (Some demo_flights))]"

definition f1_seats :: "seat list" where
  "f1_seats = [demo_seat 1 ''A'' Available, demo_seat 1 ''B'' Available,
               demo_seat 2 ''A'' Available, demo_seat 2 ''B'' Occupied]"

definition f2_seats :: "seat list" where
  "f2_seats = [demo_seat 1 ''A'' Occupied, demo_seat 1 ''B'' Available]"

definition passenger_edits :: "nat \<Rightarrow> page_event list" where
  "passenger_edits i =
     [EditPassenger i (PFirstName ''Ada''), EditPassenger i (PLastName ''Lovelace''),
      EditPassenger i (PDateOfBirth ''1990-12-10''), EditPassenger i (PPassportNumber ''X1234567'')] @
     (if i = 0 then [EditPassenger 0 (PEmail ''ada@example.com''), EditPassenger 0 (PPhone ''+1 234'')]
      else [])"

definition payment_edits :: "page_event list" where
  "payment_edits =
     [EditPayment (CardNumber ''4111111111111111''), EditPayment (CardHolder ''ADA LOVELACE''),
      EditPayment (ExpiryDate ''12/28''), EditPayment (Cvv ''123''), EditPayment (Street ''1 Main St''),
      EditPayment (City ''New York''), EditPayment (State ''NY''), EditPayment (ZipCode ''10001''),
      EditPayment (Country ''USA'')]"

text \<open>One passenger: seat 1A of F1 is selected, then the user goes back and books F2.\<close>

definition stale_seat_trace :: "page_event list" where
  "stale_seat_trace =
     search_trace 1 @
     [ClickFlight (demo_flight ''F1'' 299), SeatsSettled ''F1'' [Response 200 (Some f1_seats)],
      ClickSeat (demo_seat 1 ''A'' Available), ConfirmSeats, BackToSeats, BackToFlights,
      ClickFlight (demo_flight ''F2'' 349), SeatsSettled ''F2'' [Response 200 (Some f2_seats)],
      ConfirmSeats] @
     passenger_edits 0 @ [SubmitPassengers demo_now] @ payment_edits"

definition seats_trace :: "nat \<Rightarrow> page_event list" where
  "seats_trace n =
     search_trace n @
     [ClickFlight (demo_flight ''F1'' 299), SeatsSettled ''F1'' [Response 200 (Some f1_seats)]]"

text \<open>Two passengers pick seat 2A, then 1A, fill in both sub-forms and the payment form.\<close>

definition passenger_trace :: "page_event list" where
  "passenger_trace =
     seats_trace 2 @
     [ClickSeat (demo_seat 2 ''A'' Available), ClickSeat (demo_seat 1 ''A'' Available), ConfirmSeats] @
     passenger_edits 0 @ passenger_edits 1"

definition payment_trace :: "page_event list" where
  "payment_trace = passenger_trace @ [SubmitPassengers demo_now] @ payment_edits"

definition demo_booking :: booking where
  "demo_booking =
     \<lparr>bk_id = ''BK1'', bk_flight_id = ''F1'', bk_passengers = [], bk_seats = [], total_price = 598,
      bk_currency = ''USD'', bk_status = Confirmed, booking_reference = ''SKY123'',
      created_at = ''2026-11-09T10:00:00Z''\<rparr>"

definition confirm_trace :: "page_event list" where
  "confirm_trace = payment_trace @ [SubmitPayment, BookingSettled (Response 200 (Some demo_booking))]"

definition price_update_f1 :: price_update where
  "price_update_f1 = \<lparr>update_flight_id = ''F1'', new_price = 199, update_timestamp = ''2026-11-09T10:00:00Z''\<rparr>"

text \<open>One passenger books F1; its price drops while the passenger details are entered.\<close>

definition price_trace :: "page_event list" where
  "price_trace =
     seats_trace 1 @ [ClickSeat (demo_seat 1 ''A'' Available), ConfirmSeats] @
     passenger_edits 0 @ [PriceUpdate price_update_f1, SubmitPassengers demo_now]"

definition mk_price_update :: "ident \<Rightarrow> money \<Rightarrow> price_update" where
  "mk_price_update i p = \<lparr>update_flight_id = i, new_price = p, update_timestamp = ''2026-11-09T10:00:00Z''\<rparr>"

subsection \<open>Evaluation\<close>

lemmas scenario_defs = search_edits_def search_trace_def seats_trace_def passenger_trace_def
  payment_trace_def confirm_trace_def price_trace_def stale_seat_trace_def passenger_edits_def
  payment_edits_def demo_flights_def price_update_f1_def mk_price_update_def demo_booking_def f1_seats_def f2_seats_def
  demo_seat_def demo_flight_def jfk_def lax_def

lemmas page_eval_defs = page_init_def page_step_def sync_views_def search_form_init_def
  handle_search_def search_submittable_def passenger_options_def search_settled_def
  search_flights_def checked_json_def response_ok_def handle_flight_select_def seats_settled_def
  get_available_seats_def query_retry_def available_seats_def seat_click_def handle_seat_click_def
  is_selected_def passenger_count_def handle_seats_confirm_def seats_guard_def
  passenger_form_init_def blank_passenger_def passenger_change_def edit_allowed_def
  is_form_valid_def passenger_complete_def truthy_str_def handle_passengers_submit_def
  payment_init_def format_card_number_def strip_spaces_def is_js_space_def payment_submittable_def
  handle_payment_submit_def create_booking_request_def api_base_url_def create_booking_def
  booking_settled_def price_update_handler_def apply_price_update_def calculate_total_def
  confirmation_view_def seat_label_def string_of_nat.simps upt_conv_Cons
  sanitized_email_def is_ascii_ws_def form_constraints_ok_def email_constraint_ok_def valid_email_def
  is_email_atext_def is_alnum_def valid_email_label_def search_draft_ok_def date_value_ok_def below_min_def above_max_def
  parse_date_def valid_ymd_def days_in_month_def is_leap_def nat_of_digits_def is_digit_def Let_def

lemma iso_date_demo_now [simp]: "iso_date demo_now = ''2026-11-09''"
  by (simp add: demo_now_def date_eval)

lemma page_exec_init_reachable: "page_exec page_init es = Some s \<Longrightarrow> page_reachable s"
  by (rule page_exec_reachable [OF page_reachable.init])

lemma seat_step_subtitle_demo:
  "seat_step_subtitle arrow (demo_flight ''F1'' 299) = ''SkyBook Air SKF1 -JFK '' @ arrow @ '' LAX''"
  by (simp add: seat_step_subtitle_def demo_flight_def jfk_def lax_def)

subsection \<open>Scenarios\<close>

text \<open>
  The search JFK to LAX for two passengers lands on the flight list with
  the two flights of the response, and the page keeps the submitted parameters.
\<close>

theorem scenario_search_jfk_lax:
  "\<exists>s. page_exec page_init (search_trace 2) = Some s \<and> current_step s = SelectFlight \<and>
       flights s = demo_flights \<and> map_option sp_passengers (search_params s) = Some 2 \<and>
       map_option sp_origin (search_params s) = Some ''JFK'' \<and>
       map_option sp_destination (search_params s) = Some ''LAX''"
  by (simp add: scenario_defs page_eval_defs)

text \<open>
  The scenario of the specification: with two passengers and one seat selected, the continue button is
  disabled and the seat step cannot be left forward.
\<close>

theorem scenario_confirm_blocked:
  "\<exists>s. page_exec page_init (seats_trace 2 @ [ClickSeat (demo_seat 1 ''A'' Available)]) = Some s \<and>
       current_step s = SelectSeats \<and> length (selected_seats s) = 1 \<and> passenger_count s = 2 \<and>
       \<not> page_enabled s ConfirmSeats \<and> page_step s ConfirmSeats = s"
  by (simp add: scenario_defs page_eval_defs)

text \<open>
  The page-level seat selection is not cleared when the user
  goes back to the flight list and picks another flight.  Seat 1A, selected on F1,
  is sent in the booking request for F2, where seat 1A is occupied; the fresh seat map
  of F2 shows no selection at all.
\<close>

theorem stale_seat_selection_booked:
  "\<exists>s pay. page_exec page_init (stale_seat_trace @ [SubmitPayment]) = Some s \<and>
       booking_pending s \<and> map_option flight_id (selected_flight s) = Some ''F2'' \<and>
       booking_request s =
         Some (create_booking_request ''F2'' (passengers s) [demo_seat 1 ''A'' Available] pay) \<and>
       demo_seat 1 ''A'' Occupied \<in> set (available_seats s)"
  by (simp add: scenario_defs page_eval_defs)

text \<open>
  After a live update lowers the price of the selected flight F1 from
  299 to 199, the flight list shows 199 but the payment total is still 299.
\<close>

theorem stale_price_in_payment_total:
  "\<exists>s. page_exec page_init price_trace = Some s \<and> current_step s = Payment \<and>
       map price (flights s) = [199, 349] \<and> calculate_total s = 299"
  by (simp add: scenario_defs page_eval_defs)

text \<open>
  Two passengers who click seat 2A and then 1A complete the booking;
  the confirmation shows the booking id, two passengers and the labels in click order,
  \<open>2A, 1A\<close>.
\<close>

theorem confirmation_labels_in_click_order:
  "\<exists>s. page_exec page_init confirm_trace = Some s \<and> current_step s = Confirmation \<and>
       confirmation_view s = (''BK1'', 2, ''2A, 1A'')"
  by (simp add: scenario_defs page_eval_defs)

text \<open>
  The browser's e-mail check is stricter than the
  guard of the specification.  Passenger 1 with every field filled in and the email
  \<open>ada\<close> satisfies the guard, the submit button is enabled, and still the form cannot
  be submitted.
\<close>

theorem email_check_blocks_guard:
  "\<exists>s ps. page_exec page_init (seats_trace 1 @ [ClickSeat (demo_seat 1 ''A'' Available), ConfirmSeats] @
       passenger_edits 0 @ [EditPassenger 0 (PEmail ''ada'')]) = Some s \<and>
     passenger_form s = Some ps \<and> passenger_guard ps \<and> is_form_valid ps = Inr True \<and>
     \<not> page_enabled s (SubmitPassengers demo_now)"
  by (simp add: scenario_defs page_eval_defs passenger_guard_def)

text \<open>
  While the booking request is in flight, both buttons of the payment
  form are disabled, so the booking cannot be sent twice nor the step left, but the
  inputs of the form stay editable, where the specification says they are disabled.
\<close>

theorem payment_busy_buttons_only:
  "\<exists>s. page_exec page_init (payment_trace @ [SubmitPayment]) = Some s \<and> booking_pending s \<and>
     \<not> page_enabled s SubmitPayment \<and> \<not> page_enabled s BackToPassengers \<and>
     page_enabled s (EditPayment (CardHolder ''GRACE HOPPER''))"
  by (simp add: scenario_defs page_eval_defs)

text \<open>
  The search form's \<open>min\<close> is the UTC date, not the
  user's.  At 20:00 on 9 November in New York the user's calendar shows 2026-11-09
  while the render computes 2026-11-10, so a search departing on the user's own today
  cannot be submitted; two hours earlier the same search can.
\<close>

theorem departure_min_is_utc_date:
  "local_date ny_evening 300 = ''2026-11-09'' \<and> iso_date ny_evening = ''2026-11-10'' \<and>
   (\<exists>s. page_exec page_init same_day_edits = Some s \<and>
      \<not> page_enabled s (SubmitSearch ny_evening) \<and> page_enabled s (SubmitSearch (ny_evening - 7200000)))"
proof -
  have l: "local_date ny_evening 300 = ''2026-11-09''"
    and i: "iso_date ny_evening = ''2026-11-10''"
    and e: "iso_date (ny_evening - 7200000) = ''2026-11-09''"
    by (simp_all add: ny_evening_def date_eval)
  have "\<exists>s. page_exec page_init same_day_edits = Some s \<and>
      \<not> page_enabled s (SubmitSearch ny_evening) \<and> page_enabled s (SubmitSearch (ny_evening - 7200000))"
    using i e by (simp add: same_day_edits_def page_eval_defs)
  with l i show ?thesis by blast
qed

subsection \<open>Witnesses\<close>

theorem rendered_controls_match_events_witness:
  "\<exists>s. page_exec page_init payment_trace = Some s \<and>
     (\<forall>d. search_form s = Some d \<longrightarrow>
        (page_enabled s (SubmitSearch demo_now) \<longleftrightarrow>
           \<not> btn_disabled (search_button (search_pending s)) \<and> search_submittable (iso_date demo_now) d)) \<and>
     (\<forall>sel. seat_map s = Some sel \<longrightarrow> (\<forall>seat \<in> set (available_seats s).
        page_enabled s (ClickSeat seat) \<longleftrightarrow> \<not> sb_disabled (seat_button sel seat))) \<and>
     (current_step s = SelectSeats \<longrightarrow>
        (page_enabled s ConfirmSeats \<longleftrightarrow> \<not> btn_disabled (snd (seat_step_buttons s))) \<and>
        (page_enabled s BackToFlights \<longleftrightarrow> \<not> btn_disabled (fst (seat_step_buttons s)))) \<and>
     (\<forall>ps. passenger_form s = Some ps \<longrightarrow>
        (\<exists>back submit. passenger_buttons ps = Inr (back, submit) \<and>
           (page_enabled s (SubmitPassengers demo_now) \<longleftrightarrow>
              \<not> btn_disabled submit \<and> form_constraints_ok (iso_date demo_now) ps) \<and>
           (page_enabled s BackToSeats \<longleftrightarrow> \<not> btn_disabled back))) \<and>
     (\<forall>p. payment_form s = Some p \<longrightarrow>
        (\<exists>v f. page_payment_view (\<lambda>a c. c) s = Some v \<and> selected_flight s = Some f \<and>
           pv_total v = (\<lambda>a c. c) (calculate_total s) (currency f) \<and>
           (page_enabled s SubmitPayment \<longleftrightarrow> \<not> btn_disabled (pv_submit v) \<and> payment_submittable p) \<and>
           (page_enabled s BackToPassengers \<longleftrightarrow> \<not> btn_disabled (pv_back v))))"
proof -
  have "\<exists>s. page_exec page_init payment_trace = Some s"
    by (simp add: scenario_defs page_eval_defs)
  then obtain s where s: "page_exec page_init payment_trace = Some s" by blast
  show ?thesis
    using s rendered_controls_match_events [OF page_exec_init_reachable [OF s], of demo_now "\<lambda>a c. c"]
    by blast
qed

theorem empty_results_dead_end_witness:
  "\<exists>s. page_exec page_init (search_edits 1 @ [SubmitSearch demo_now, SearchSettled (Response 200 (Some []))]) =
       Some s \<and> current_step s = SelectFlight \<and> flights s = [] \<and>
     (\<forall>es t. page_exec s es = Some t \<longrightarrow>
        current_step t = SelectFlight \<and> flights t = [] \<and>
        (\<forall>e. page_enabled t e \<longrightarrow> (\<exists>u. e = PriceUpdate u) \<or> (\<exists>fid rs. e = SeatsSettled fid rs)))"
proof -
  have "\<exists>s. page_exec page_init (search_edits 1 @ [SubmitSearch demo_now, SearchSettled (Response 200 (Some []))]) =
      Some s \<and> current_step s = SelectFlight \<and> flights s = []"
    by (simp add: scenario_defs page_eval_defs)
  then obtain s where
    s: "page_exec page_init (search_edits 1 @ [SubmitSearch demo_now, SearchSettled (Response 200 (Some []))]) = Some s"
    and st: "current_step s = SelectFlight" and fl: "flights s = []"
    by blast
  show ?thesis using s st fl empty_results_dead_end [OF page_exec_init_reachable [OF s] st fl] by blast
qed

theorem stale_seat_selection_kept_witness:
  "\<exists>s. page_exec page_init (seats_trace 1 @ [ClickSeat (demo_seat 1 ''A'' Available)]) = Some s \<and>
     current_step s = SelectSeats \<and> demo_flight ''F2'' 349 \<in> set (flights s) \<and>
     selected_flight (page_step (page_step s BackToFlights) (ClickFlight (demo_flight ''F2'' 349))) =
       Some (demo_flight ''F2'' 349) \<and>
     selected_seats (page_step (page_step s BackToFlights) (ClickFlight (demo_flight ''F2'' 349))) =
       [demo_seat 1 ''A'' Available] \<and>
     page_enabled (page_step (page_step s BackToFlights) (ClickFlight (demo_flight ''F2'' 349))) ConfirmSeats"
proof -
  have "\<exists>s. page_exec page_init (seats_trace 1 @ [ClickSeat (demo_seat 1 ''A'' Available)]) = Some s \<and>
      current_step s = SelectSeats \<and> demo_flight ''F2'' 349 \<in> set (flights s) \<and>
      selected_seats s = [demo_seat 1 ''A'' Available] \<and> page_enabled s ConfirmSeats"
    by (simp add: scenario_defs page_eval_defs)
  then obtain s where s: "page_exec page_init (seats_trace 1 @ [ClickSeat (demo_seat 1 ''A'' Available)]) = Some s"
    and h: "current_step s = SelectSeats" "demo_flight ''F2'' 349 \<in> set (flights s)"
    and r: "selected_seats s = [demo_seat 1 ''A'' Available]" "page_enabled s ConfirmSeats"
    by blast
  show ?thesis using s h r stale_seat_selection_kept [OF page_exec_init_reachable [OF s] h] by simp
qed

theorem price_update_leaves_total_stale_witness:
  "\<exists>s. page_exec page_init (seats_trace 1 @ [ClickSeat (demo_seat 1 ''A'' Available), ConfirmSeats]) = Some s \<and>
     selected_flight s = Some (demo_flight ''F1'' 299) \<and>
     update_flight_id price_update_f1 = flight_id (demo_flight ''F1'' 299) \<and>
     map price (flights (page_step s (PriceUpdate price_update_f1))) = [199, 349] \<and>
     calculate_total (page_step s (PriceUpdate price_update_f1)) = 299"
proof -
  have "\<exists>s. page_exec page_init (seats_trace 1 @ [ClickSeat (demo_seat 1 ''A'' Available), ConfirmSeats]) = Some s \<and>
      selected_flight s = Some (demo_flight ''F1'' 299) \<and> passenger_count s = 1 \<and>
      selected_seats s = [demo_seat 1 ''A'' Available] \<and> flights s = demo_flights"
    by (simp add: scenario_defs page_eval_defs)
  then obtain s where s: "page_exec page_init (seats_trace 1 @ [ClickSeat (demo_seat 1 ''A'' Available), ConfirmSeats]) = Some s"
    and f: "selected_flight s = Some (demo_flight ''F1'' 299)"
    and c: "passenger_count s = 1" "selected_seats s = [demo_seat 1 ''A'' Available]" "flights s = demo_flights"
    by blast
  have u: "update_flight_id price_update_f1 = flight_id (demo_flight ''F1'' 299)"
    by (simp add: price_update_f1_def demo_flight_def)
  show ?thesis
    using s f c u price_update_leaves_total_stale [OF f u]
    by (simp add: price_update_f1_def demo_flight_def demo_seat_def demo_flights_def
        page_step_def price_update_handler_def apply_price_update_def)
qed

theorem payment_busy_inputs_editable_witness:
  "\<exists>s. page_exec page_init (payment_trace @ [SubmitPayment]) = Some s \<and> booking_pending s \<and>
     \<not> page_enabled s SubmitPayment \<and> \<not> page_enabled s BackToPassengers \<and>
     page_enabled s (EditPayment (CardHolder ''GRACE HOPPER''))"
proof -
  have "\<exists>s. page_exec page_init (payment_trace @ [SubmitPayment]) = Some s \<and> booking_pending s"
    by (simp add: scenario_defs page_eval_defs)
  then obtain s where s: "page_exec page_init (payment_trace @ [SubmitPayment]) = Some s"
    and b: "booking_pending s" by blast
  have ok: "payment_input_ok (CardHolder ''GRACE HOPPER'')" by simp
  show ?thesis using s b ok payment_busy_inputs_editable [OF page_exec_init_reachable [OF s] b] by blast
qed

theorem committed_drafts_validated_witness:
  "\<exists>s. page_exec page_init confirm_trace = Some s \<and>
     (\<forall>p. search_params s = Some p \<longrightarrow>
        sp_origin p \<noteq> [] \<and> sp_destination p \<noteq> [] \<and> search_dates_ok p) \<and>
     (passengers s \<noteq> [] \<longrightarrow> passenger_guard (passengers s) \<and> email_constraint_ok (passengers s)) \<and>
     (booking_request s \<noteq> None \<longrightarrow>
        (\<exists>f ps ss pay. booking_request s = Some (create_booking_request f ps ss pay) \<and>
           payment_submittable pay))"
proof -
  have "\<exists>s. page_exec page_init confirm_trace = Some s"
    by (simp add: scenario_defs page_eval_defs)
  then obtain s where s: "page_exec page_init confirm_trace = Some s" by blast
  show ?thesis using s committed_drafts_validated [OF page_exec_init_reachable [OF s]] by blast
qed

theorem search_submission_constraints_witness:
  "\<exists>s. page_exec page_init (search_edits 2) = Some s \<and> page_enabled s (SubmitSearch demo_now) \<and>
     fst (civil_of_days (demo_now div 86400000)) \<le> 9999 \<and>
     (\<exists>p dep. search_params (page_step s (SubmitSearch demo_now)) = Some p \<and>
        search_pending (page_step s (SubmitSearch demo_now)) \<and>
        1 \<le> sp_passengers p \<and> sp_passengers p \<le> 8 \<and>
        parse_date (departure_date p) = Some dep \<and> civil_of_days (demo_now div 86400000) \<le> dep \<and>
        (\<forall>r. return_date p = Some r \<longrightarrow> r = [] \<or> (\<exists>ret. parse_date r = Some ret \<and> dep \<le> ret)))"
proof -
  have "\<exists>s. page_exec page_init (search_edits 2) = Some s \<and> page_enabled s (SubmitSearch demo_now)"
    by (simp add: scenario_defs page_eval_defs)
  then obtain s where s: "page_exec page_init (search_edits 2) = Some s"
    and en: "page_enabled s (SubmitSearch demo_now)"
    by blast
  have y: "fst (civil_of_days (demo_now div 86400000)) \<le> 9999"
    by (simp add: demo_now_def date_eval)
  show ?thesis
    using s en y search_submission_constraints [OF page_exec_init_reachable [OF s] en y] by blast
qed

text \<open>Each property with a hypothesis, applied to a concrete input that satisfies it.\<close>

theorem booking_request_matches_search_witness:
  "\<exists>s. page_exec page_init payment_trace = Some s \<and> page_enabled s SubmitPayment \<and>
     (\<exists>f p pay. selected_flight s = Some f \<and> search_params s = Some p \<and>
        booking_pending (page_step s SubmitPayment) \<and>
        booking_request (page_step s SubmitPayment) =
          Some (create_booking_request (flight_id f) (passengers s) (selected_seats s) pay) \<and>
        length (selected_seats s) = sp_passengers p \<and> length (passengers s) = sp_passengers p)"
proof -
  have "\<exists>s. page_exec page_init payment_trace = Some s \<and> page_enabled s SubmitPayment"
    by (simp add: scenario_defs page_eval_defs)
  then obtain s where s: "page_exec page_init payment_trace = Some s" and en: "page_enabled s SubmitPayment"
    by blast
  show ?thesis
    using s en booking_request_matches_search [OF page_exec_init_reachable [OF s] en] by blast
qed

theorem confirm_seats_gate_witness:
  "\<exists>s. page_exec page_init (seats_trace 2 @ [ClickSeat (demo_seat 1 ''A'' Available)]) = Some s \<and>
     current_step s = SelectSeats \<and>
     (\<exists>p. search_params s = Some p \<and>
        (page_enabled s ConfirmSeats \<longleftrightarrow> length (selected_seats s) = sp_passengers p) \<and>
        (current_step (page_step s ConfirmSeats) = PassengerDetails \<longleftrightarrow>
           length (selected_seats s) = sp_passengers p) \<and>
        (length (selected_seats s) \<noteq> sp_passengers p \<longrightarrow> page_step s ConfirmSeats = s))"
proof -
  have "\<exists>s. page_exec page_init (seats_trace 2 @ [ClickSeat (demo_seat 1 ''A'' Available)]) = Some s \<and>
      current_step s = SelectSeats"
    by (simp add: scenario_defs page_eval_defs)
  then obtain s where
    s: "page_exec page_init (seats_trace 2 @ [ClickSeat (demo_seat 1 ''A'' Available)]) = Some s"
    and st: "current_step s = SelectSeats"
    by blast
  show ?thesis
    using s st confirm_seats_gate [OF page_exec_init_reachable [OF s] st] by blast
qed

theorem submit_passengers_gate_witness:
  "\<exists>s ps. page_exec page_init passenger_trace = Some s \<and> passenger_form s = Some ps \<and>
     (page_enabled s (SubmitPassengers demo_now) \<longleftrightarrow>
        passenger_guard ps \<and> form_constraints_ok (iso_date demo_now) ps) \<and>
     (passenger_guard ps \<longrightarrow>
        current_step (page_step s (SubmitPassengers demo_now)) = Payment \<and>
        passengers (page_step s (SubmitPassengers demo_now)) = ps)"
proof -
  have "\<exists>s ps. page_exec page_init passenger_trace = Some s \<and> passenger_form s = Some ps"
    by (simp add: scenario_defs page_eval_defs)
  then obtain s ps where s: "page_exec page_init passenger_trace = Some s"
    and ps: "passenger_form s = Some ps"
    by blast
  show ?thesis
    using s ps submit_passengers_gate [OF page_exec_init_reachable [OF s] ps] by blast
qed

theorem search_settled_outcome_witness:
  "\<exists>s1 s2. page_exec page_init (search_edits 2 @ [SubmitSearch demo_now]) = Some s1 \<and>
     page_enabled s1 (SearchSettled (Response 200 (Some demo_flights))) \<and>
     (page_enabled s1 (SearchSettled (Response 200 (Some demo_flights))) \<longrightarrow>
        (search_flights (Response 200 (Some demo_flights)) = Inr demo_flights \<longrightarrow>
           current_step (page_step s1 (SearchSettled (Response 200 (Some demo_flights)))) = SelectFlight \<and>
           flights (page_step s1 (SearchSettled (Response 200 (Some demo_flights)))) = demo_flights) \<and>
        (search_flights (Response 200 (Some demo_flights)) = Inl NetworkError \<longrightarrow>
           current_step (page_step s1 (SearchSettled (Response 200 (Some demo_flights)))) = Search \<and>
           flights (page_step s1 (SearchSettled (Response 200 (Some demo_flights)))) = flights s1 \<and>
           \<not> search_pending (page_step s1 (SearchSettled (Response 200 (Some demo_flights)))))) \<and>
     (page_enabled s1 (BookingSettled (Response 500 None)) \<longrightarrow>
        (create_booking (Response 500 None) = Inr demo_booking \<longrightarrow>
           current_step (page_step s1 (BookingSettled (Response 500 None))) = Confirmation \<and>
           booking_id (page_step s1 (BookingSettled (Response 500 None))) = bk_id demo_booking) \<and>
        (create_booking (Response 500 None) = Inl FailedToCreateBooking \<longrightarrow>
           current_step (page_step s1 (BookingSettled (Response 500 None))) = Payment \<and>
           \<not> booking_pending (page_step s1 (BookingSettled (Response 500 None))) \<and>
           (page_enabled (page_step s1 (BookingSettled (Response 500 None))) SubmitPayment \<longleftrightarrow>
              (\<exists>p. payment_form s1 = Some p \<and> payment_submittable p)))) \<and>
     page_exec page_init (payment_trace @ [SubmitPayment]) = Some s2 \<and>
     page_enabled s2 (BookingSettled (Response 500 None)) \<and>
     (page_enabled s2 (SearchSettled (Response 200 (Some demo_flights))) \<longrightarrow>
        (search_flights (Response 200 (Some demo_flights)) = Inr demo_flights \<longrightarrow>
           current_step (page_step s2 (SearchSettled (Response 200 (Some demo_flights)))) = SelectFlight \<and>
           flights (page_step s2 (SearchSettled (Response 200 (Some demo_flights)))) = demo_flights) \<and>
        (search_flights (Response 200 (Some demo_flights)) = Inl NetworkError \<longrightarrow>
           current_step (page_step s2 (SearchSettled (Response 200 (Some demo_flights)))) = Search \<and>
           flights (page_step s2 (SearchSettled (Response 200 (Some demo_flights)))) = flights s2 \<and>
           \<not> search_pending (page_step s2 (SearchSettled (Response 200 (Some demo_flights)))))) \<and>
     (page_enabled s2 (BookingSettled (Response 500 None)) \<longrightarrow>
        (create_booking (Response 500 None) = Inr demo_booking \<longrightarrow>
           current_step (page_step s2 (BookingSettled (Response 500 None))) = Confirmation \<and>
           booking_id (page_step s2 (BookingSettled (Response 500 None))) = bk_id demo_booking) \<and>
        (create_booking (Response 500 None) = Inl FailedToCreateBooking \<longrightarrow>
           current_step (page_step s2 (BookingSettled (Response 500 None))) = Payment \<and>
           \<not> booking_pending (page_step s2 (BookingSettled (Response 500 None))) \<and>
           (page_enabled (page_step s2 (BookingSettled (Response 500 None))) SubmitPayment \<longleftrightarrow>
              (\<exists>p. payment_form s2 = Some p \<and> payment_submittable p))))"
proof -
  have "\<exists>s1. page_exec page_init (search_edits 2 @ [SubmitSearch demo_now]) = Some s1 \<and>
      page_enabled s1 (SearchSettled (Response 200 (Some demo_flights)))"
    by (simp add: scenario_defs page_eval_defs)
  then obtain s1 where s1: "page_exec page_init (search_edits 2 @ [SubmitSearch demo_now]) = Some s1"
    and en1: "page_enabled s1 (SearchSettled (Response 200 (Some demo_flights)))"
    by blast
  have "\<exists>s2. page_exec page_init (payment_trace @ [SubmitPayment]) = Some s2 \<and>
      page_enabled s2 (BookingSettled (Response 500 None))"
    by (simp add: scenario_defs page_eval_defs)
  then obtain s2 where s2: "page_exec page_init (payment_trace @ [SubmitPayment]) = Some s2"
    and en2: "page_enabled s2 (BookingSettled (Response 500 None))"
    by blast
  note w1 = search_settled_outcome [OF page_exec_init_reachable [OF s1], where r = "Response 200 (Some demo_flights)" and fs = demo_flights
      and e = NetworkError and b = "Response 500 None" and bk = demo_booking and e' = FailedToCreateBooking]
  note w2 = search_settled_outcome [OF page_exec_init_reachable [OF s2], where r = "Response 200 (Some demo_flights)" and fs = demo_flights
      and e = NetworkError and b = "Response 500 None" and bk = demo_booking and e' = FailedToCreateBooking]
  show ?thesis using s1 en1 s2 en2 w1 w2 by blast
qed

theorem pending_requests_on_own_step_witness:
  "\<exists>s. page_exec page_init (search_edits 2 @ [SubmitSearch demo_now]) = Some s \<and> search_pending s \<and>
     (search_pending s \<longrightarrow> current_step s = Search) \<and> (booking_pending s \<longrightarrow> current_step s = Payment)"
proof -
  have "\<exists>s. page_exec page_init (search_edits 2 @ [SubmitSearch demo_now]) = Some s \<and> search_pending s"
    by (simp add: scenario_defs page_eval_defs)
  then obtain s where s: "page_exec page_init (search_edits 2 @ [SubmitSearch demo_now]) = Some s"
    and p: "search_pending s"
    by blast
  show ?thesis using s p pending_requests_on_own_step [OF page_exec_init_reachable [OF s]] by blast
qed

theorem confirmation_shows_booking_request_witness:
  "\<exists>s. page_exec page_init confirm_trace = Some s \<and> current_step s = Confirmation \<and>
     (\<exists>f ps ss pay. selected_flight s = Some f \<and>
        booking_request s = Some (create_booking_request (flight_id f) ps ss pay) \<and>
        confirmation_view s = (booking_id s, length ps, join_with '', '' (map seat_label ss)))"
proof -
  have "\<exists>s. page_exec page_init confirm_trace = Some s \<and> current_step s = Confirmation"
    by (simp add: scenario_defs page_eval_defs)
  then obtain s where s: "page_exec page_init confirm_trace = Some s"
    and st: "current_step s = Confirmation"
    by blast
  show ?thesis
    using s st confirmation_shows_booking_request [OF page_exec_init_reachable [OF s] st] by blast
qed

theorem book_another_resets_witness:
  "\<exists>s. page_exec page_init confirm_trace = Some s \<and> page_enabled s BookAnother \<and>
     current_step (page_step s BookAnother) = Search \<and>
     selected_flight (page_step s BookAnother) = None \<and>
     selected_seats (page_step s BookAnother) = [] \<and> passengers (page_step s BookAnother) = [] \<and>
     flights (page_step s BookAnother) = [] \<and>
     search_form (page_step s BookAnother) = Some search_form_init \<and>
     search_params (page_step s BookAnother) = search_params s \<and>
     booking_id (page_step s BookAnother) = booking_id s"
proof -
  have "\<exists>s. page_exec page_init confirm_trace = Some s \<and> page_enabled s BookAnother"
    by (simp add: scenario_defs page_eval_defs)
  then obtain s where s: "page_exec page_init confirm_trace = Some s"
    and en: "page_enabled s BookAnother"
    by blast
  show ?thesis using s en book_another_resets [OF page_exec_init_reachable [OF s] en] by blast
qed

theorem apply_price_update_unknown_id_witness:
  "update_flight_id (mk_price_update ''F9'' 10) \<notin> flight_id ` set demo_flights \<and>
   apply_price_update (mk_price_update ''F9'' 10) demo_flights = demo_flights"
proof -
  have u: "update_flight_id (mk_price_update ''F9'' 10) \<notin> flight_id ` set demo_flights"
    by (simp add: mk_price_update_def demo_flights_def demo_flight_def)
  show ?thesis using u apply_price_update_unknown_id [OF u] by simp
qed

theorem seat_click_toggle_roundtrip_witness:
  "\<not> is_selected [demo_seat 1 ''A'' Available] (demo_seat 1 ''B'' Available) \<and>
   seat_status (demo_seat 1 ''B'' Available) \<noteq> Occupied \<and>
   length [demo_seat 1 ''A'' Available] < 2 \<and>
   seat_map_click 2 [demo_seat 1 ''A'' Available] (demo_seat 1 ''B'' Available) =
     [demo_seat 1 ''A'' Available, demo_seat 1 ''B'' Available] \<and>
   seat_map_click 2 (seat_map_click 2 [demo_seat 1 ''A'' Available] (demo_seat 1 ''B'' Available))
     (demo_seat 1 ''B'' Available) = [demo_seat 1 ''A'' Available]"
proof -
  have h: "\<not> is_selected [demo_seat 1 ''A'' Available] (demo_seat 1 ''B'' Available)"
    "seat_status (demo_seat 1 ''B'' Available) \<noteq> Occupied" "length [demo_seat 1 ''A'' Available] < 2"
    by (simp_all add: is_selected_def demo_seat_def)
  show ?thesis using h seat_click_toggle_roundtrip [OF h, unfolded append_Cons append_Nil] by blast
qed

theorem seat_map_run_click_order_witness:
  "distinct (map seat_id [demo_seat 2 ''A'' Available, demo_seat 1 ''A'' Available]) \<and>
   seat_status (demo_seat 2 ''A'' Available) \<noteq> Occupied \<and> seat_status (demo_seat 1 ''A'' Available) \<noteq> Occupied \<and>
   length [demo_seat 2 ''A'' Available, demo_seat 1 ''A'' Available] \<le> 2 \<and>
   seat_map_run 2 [demo_seat 2 ''A'' Available, demo_seat 1 ''A'' Available] =
     [demo_seat 2 ''A'' Available, demo_seat 1 ''A'' Available]"
proof -
  have h: "distinct (map seat_id [demo_seat 2 ''A'' Available, demo_seat 1 ''A'' Available])"
    "\<forall>c\<in>set [demo_seat 2 ''A'' Available, demo_seat 1 ''A'' Available]. seat_status c \<noteq> Occupied"
    "length [demo_seat 2 ''A'' Available, demo_seat 1 ''A'' Available] \<le> 2"
    by (simp_all add: demo_seat_def string_of_nat.simps)
  show ?thesis using h seat_map_run_click_order [OF h] by simp
qed

theorem seat_label_roundtrip_witness:
  "(seat_column (demo_seat 12 ''C'' Available) = [] \<or>
    \<not> is_digit (hd (seat_column (demo_seat 12 ''C'' Available)))) \<and>
   parse_seat_label (seat_label (demo_seat 12 ''C'' Available)) = (12, ''C'')"
proof -
  have h: "seat_column (demo_seat 12 ''C'' Available) = [] \<or>
      \<not> is_digit (hd (seat_column (demo_seat 12 ''C'' Available)))"
    by (simp add: demo_seat_def is_digit_def)
  show ?thesis using h seat_label_roundtrip [OF h] by (simp add: demo_seat_def)
qed

theorem search_form_passengers_bounded_witness:
  "list_all search_field_allowed [Origin ''JFK'', Passengers 3] \<and>
   1 \<le> sp_passengers (search_form_run [Origin ''JFK'', Passengers 3]) \<and>
   sp_passengers (search_form_run [Origin ''JFK'', Passengers 3]) \<le> 8"
proof -
  have h: "list_all search_field_allowed [Origin ''JFK'', Passengers 3]"
    by (simp add: passenger_options_def)
  show ?thesis using h search_form_passengers_bounded [OF h] by simp
qed

theorem passenger_form_contact_on_first_only_witness:
  "list_all (edit_allowed 2) [(0, PEmail ''ada@example.com''), (1, PFirstName ''Bob'')] \<and>
   length (passenger_form_run 2 [(0, PEmail ''ada@example.com''), (1, PFirstName ''Bob'')]) = 2 \<and>
   contact_on_first_only (passenger_form_run 2 [(0, PEmail ''ada@example.com''), (1, PFirstName ''Bob'')])"
proof -
  have h: "list_all (edit_allowed 2) [(0, PEmail ''ada@example.com''), (1, PFirstName ''Bob'')]"
    by (simp add: edit_allowed_def sanitized_email_def is_ascii_ws_def)
  show ?thesis using h passenger_form_contact_on_first_only [OF h] by simp
qed

theorem gateway_calls_error_results_witness:
  "\<not> response_ok 500 \<and>
   search_flights (Response 500 None) = Inl FailedToSearchFlights \<and>
   create_booking (Response 500 None) = Inl FailedToCreateBooking \<and>
   search_flights (Response 200 (Some demo_flights)) = Inr demo_flights"
proof -
  have n: "\<not> response_ok 500" by (simp add: response_ok_def)
  note g = gateway_calls_error_results [of "Response 200 (Some demo_flights)" demo_flights
      NetworkFailure demo_booking None]
  have a: "search_flights (Response 200 (Some demo_flights)) = Inr demo_flights"
    using g by simp
  have b: "search_flights (Response 500 None) = Inl FailedToSearchFlights \<and>
      create_booking (Response 500 None) = Inl FailedToCreateBooking"
    using g n by simp
  show ?thesis using n a b by simp
qed

theorem seat_query_two_attempts_witness:
  "2 \<le> length [Inl FailedToFetchSeats, Inr f1_seats, Inr f2_seats] \<and>
   run_query query_retry [Inl FailedToFetchSeats, Inr f1_seats, Inr f2_seats] = Some (Inr f1_seats)"
proof -
  have h: "2 \<le> length [Inl FailedToFetchSeats, Inr f1_seats, Inr f2_seats]" by simp
  have "run_query query_retry [Inl FailedToFetchSeats, Inr f1_seats, Inr f2_seats] =
      run_query query_retry (take 2 [Inl FailedToFetchSeats, Inr f1_seats, Inr f2_seats])"
    using seat_query_two_attempts [OF h] by blast
  then show ?thesis using h by (simp add: query_retry_def numeral_2_eq_2)
qed

end
