(* ===== verification/Price_Feed.thy ===== *)
theory Price_Feed
  imports Domain
begin

text \<open>
  The price-feed hook \<^verbatim>\<open>hooks/usePriceUpdates.ts\<close>.  It keeps two refs, \<open>ws\<close> (the
  last socket created) and \<open>reconnectTimeout\<close> (the last timer scheduled).  \<open>connect\<close>
  creates a socket and attaches its handlers; \<open>onclose\<close> schedules \<open>connect\<close> again after
  3000 ms; if the constructor throws, the \<open>catch\<close> schedules the same retry.  The
  effect calls \<open>connect\<close> and its cleanup clears the timer in \<open>reconnectTimeout\<close> and
  closes the socket in \<open>ws\<close>.  The effect depends on \<open>connect\<close>, which depends on
  \<open>onUpdate\<close>; \<^verbatim>\<open>SearchPage\<close> passes a new arrow function on every render, so every
  render of the page runs the cleanup and then \<open>connect\<close> again (event \<open>Rerender\<close>).

  Sockets and timers are numbered in creation order; their states are the lists
  \<open>feed_sockets\<close> and \<open>feed_timers\<close>.  What the browser and the server do is an event of
  its own: a handshake completes (\<open>SocketOpened\<close>), a socket's \<open>close\<close> event is
  dispatched, after a server or network close or after \<open>close()\<close> (\<open>SocketClosed\<close>), a
  pending timer fires (\<open>TimerFires\<close>), a message arrives on an open socket
  (\<open>Message\<close>, carrying the parsed update or \<open>None\<close> when \<open>JSON.parse\<close> throws).
  \<open>ws_blocked\<close> says whether the browser refuses to construct the socket (the constructor
  throws); it does not change.  \<open>delivered\<close> is the sequence of updates handed to
  \<open>onUpdate\<close>.  Logging is not modelled.
\<close>

datatype socket_status = Connecting | Open | Closing | Closed

datatype timer_status = Pending | Fired | Cleared

record feed_state =
  feed_mounted :: bool
  feed_sockets :: "socket_status list"
  ws_current :: "nat option"
  feed_timers :: "timer_status list"
  reconnect_timeout :: "nat option"
  ws_blocked :: bool
  delivered :: "price_update list"

datatype feed_event =
    Mount
  | Rerender
  | Unmount
  | SocketOpened nat
  | SocketClosed nat
  | TimerFires nat
  | Message nat "price_update option"

definition feed_init :: "bool \<Rightarrow> feed_state" where
  "feed_init blocked =
     \<lparr>feed_mounted = False, feed_sockets = [], ws_current = None, feed_timers = [],
      reconnect_timeout = None, ws_blocked = blocked, delivered = []\<rparr>"

subsection \<open>Operations of the hook\<close>

text \<open>\<open>reconnectTimeout.current = setTimeout(connect, 3000)\<close>\<close>

definition schedule_reconnect :: "feed_state \<Rightarrow> feed_state" where
  "schedule_reconnect s =
     s\<lparr>feed_timers := feed_timers s @ [Pending], reconnect_timeout := Some (length (feed_timers s))\<rparr>"

text \<open>\<open>connect\<close>: \<open>ws.current = new WebSocket(WS_URL)\<close>, or the retry of the \<open>catch\<close>.\<close>

definition connect :: "feed_state \<Rightarrow> feed_state" where
  "connect s =
     (if ws_blocked s then schedule_reconnect s
      else s\<lparr>feed_sockets := feed_sockets s @ [Connecting], ws_current := Some (length (feed_sockets s))\<rparr>)"

text \<open>\<open>clearTimeout\<close> cancels a pending timer and ignores any other.\<close>

definition clear_timeout :: "nat \<Rightarrow> feed_state \<Rightarrow> feed_state" where
  "clear_timeout t s =
     (if t < length (feed_timers s) \<and> feed_timers s ! t = Pending
      then s\<lparr>feed_timers := (feed_timers s)[t := Cleared]\<rparr> else s)"

text \<open>\<open>close()\<close> starts the closing handshake of a connecting or open socket.\<close>

definition close_socket :: "nat \<Rightarrow> feed_state \<Rightarrow> feed_state" where
  "close_socket i s =
     (if i < length (feed_sockets s) \<and> (feed_sockets s ! i = Connecting \<or> feed_sockets s ! i = Open)
      then s\<lparr>feed_sockets := (feed_sockets s)[i := Closing]\<rparr> else s)"

text \<open>The effect's cleanup; neither ref is reset.\<close>

definition effect_cleanup :: "feed_state \<Rightarrow> feed_state" where
  "effect_cleanup s =
     (let s1 = (case reconnect_timeout s of None \<Rightarrow> s | Some t \<Rightarrow> clear_timeout t s)
      in case ws_current s1 of None \<Rightarrow> s1 | Some i \<Rightarrow> close_socket i s1)"

definition set_socket :: "nat \<Rightarrow> socket_status \<Rightarrow> feed_state \<Rightarrow> feed_state" where
  "set_socket i st s = s\<lparr>feed_sockets := (feed_sockets s)[i := st]\<rparr>"

fun feed_handle :: "feed_state \<Rightarrow> feed_event \<Rightarrow> feed_state" where
  "feed_handle s Mount = connect (s\<lparr>feed_mounted := True\<rparr>)"
| "feed_handle s Rerender = connect (effect_cleanup s)"
| "feed_handle s Unmount = (effect_cleanup s)\<lparr>feed_mounted := False\<rparr>"
| "feed_handle s (SocketOpened i) = set_socket i Open s"
| "feed_handle s (SocketClosed i) = schedule_reconnect (set_socket i Closed s)"
| "feed_handle s (TimerFires t) = connect (s\<lparr>feed_timers := (feed_timers s)[t := Fired]\<rparr>)"
| "feed_handle s (Message i m) =
     (case m of None \<Rightarrow> s | Some u \<Rightarrow> s\<lparr>delivered := delivered s @ [u]\<rparr>)"

text \<open>
  The events that can happen: the page mounts once, renders and unmounts while
  mounted; the browser completes a handshake of a connecting socket, dispatches
  \<open>close\<close> once for a socket that is not closed yet, fires a pending timer, and delivers
  messages on open sockets only.
\<close>

fun feed_enabled :: "feed_state \<Rightarrow> feed_event \<Rightarrow> bool" where
  "feed_enabled s Mount = (\<not> feed_mounted s \<and> feed_sockets s = [] \<and> feed_timers s = [])"
| "feed_enabled s Rerender = feed_mounted s"
| "feed_enabled s Unmount = feed_mounted s"
| "feed_enabled s (SocketOpened i) = (i < length (feed_sockets s) \<and> feed_sockets s ! i = Connecting)"
| "feed_enabled s (SocketClosed i) = (i < length (feed_sockets s) \<and> feed_sockets s ! i \<noteq> Closed)"
| "feed_enabled s (TimerFires t) = (t < length (feed_timers s) \<and> feed_timers s ! t = Pending)"
| "feed_enabled s (Message i m) = (i < length (feed_sockets s) \<and> feed_sockets s ! i = Open)"

inductive feed_reachable :: "feed_state \<Rightarrow> bool" where
  init: "feed_reachable (feed_init b)"
| step: "feed_reachable s \<Longrightarrow> feed_enabled s e \<Longrightarrow> feed_reachable (feed_handle s e)"

fun feed_exec :: "feed_state \<Rightarrow> feed_event list \<Rightarrow> feed_state option" where
  "feed_exec s [] = Some s"
| "feed_exec s (e # es) = (if feed_enabled s e then feed_exec (feed_handle s e) es else None)"

text \<open>Sockets that are connecting or open: each is a live subscription.\<close>

definition live_sockets :: "feed_state \<Rightarrow> nat" where
  "live_sockets s = length (filter (\<lambda>st. st = Connecting \<or> st = Open) (feed_sockets s))"

definition message_payload :: "feed_event \<Rightarrow> price_update list" where
  "message_payload e = (case e of Message i (Some u) \<Rightarrow> [u] | _ \<Rightarrow> [])"

text \<open>The refs always name the newest socket and the newest timer.\<close>

text \<open>
  When the constructor throws, no socket exists, a mounted hook has scheduled a timer,
  and a pending timer is always the one the ref names.
\<close>

definition blocked_inv :: "feed_state \<Rightarrow> bool" where
  "blocked_inv s \<longleftrightarrow>
     (ws_blocked s \<longrightarrow> feed_sockets s = [] \<and> (feed_mounted s \<longrightarrow> feed_timers s \<noteq> []) \<and>
        (\<forall>k < length (feed_timers s). feed_timers s ! k = Pending \<longrightarrow> reconnect_timeout s = Some k))"

definition feed_inv :: "feed_state \<Rightarrow> bool" where
  "feed_inv s \<longleftrightarrow>
     ws_current s = (if feed_sockets s = [] then None else Some (length (feed_sockets s) - 1)) \<and>
     reconnect_timeout s = (if feed_timers s = [] then None else Some (length (feed_timers s) - 1))"


subsection \<open>Lemmas\<close>

lemma length_clear_timeout [simp]:
  "length (feed_timers (clear_timeout t s)) = length (feed_timers s)"
  "feed_sockets (clear_timeout t s) = feed_sockets s"
  "ws_current (clear_timeout t s) = ws_current s"
  "reconnect_timeout (clear_timeout t s) = reconnect_timeout s"
  "feed_mounted (clear_timeout t s) = feed_mounted s"
  "ws_blocked (clear_timeout t s) = ws_blocked s"
  "delivered (clear_timeout t s) = delivered s"
  by (simp_all add: clear_timeout_def)

lemma length_close_socket [simp]:
  "length (feed_sockets (close_socket i s)) = length (feed_sockets s)"
  "feed_timers (close_socket i s) = feed_timers s"
  "ws_current (close_socket i s) = ws_current s"
  "reconnect_timeout (close_socket i s) = reconnect_timeout s"
  "feed_mounted (close_socket i s) = feed_mounted s"
  "ws_blocked (close_socket i s) = ws_blocked s"
  "delivered (close_socket i s) = delivered s"
  by (simp_all add: close_socket_def)

lemma effect_cleanup_simps [simp]:
  "length (feed_sockets (effect_cleanup s)) = length (feed_sockets s)"
  "length (feed_timers (effect_cleanup s)) = length (feed_timers s)"
  "ws_current (effect_cleanup s) = ws_current s"
  "reconnect_timeout (effect_cleanup s) = reconnect_timeout s"
  "feed_mounted (effect_cleanup s) = feed_mounted s"
  "ws_blocked (effect_cleanup s) = ws_blocked s"
  "delivered (effect_cleanup s) = delivered s"
  by (simp_all add: effect_cleanup_def Let_def split: option.splits)

lemma feed_inv_init: "feed_inv (feed_init b)"
  by (simp add: feed_inv_def feed_init_def)

lemma feed_inv_connect: "feed_inv s \<Longrightarrow> feed_inv (connect s)"
  by (simp add: feed_inv_def connect_def schedule_reconnect_def)

lemma feed_inv_same:
  assumes "length (feed_sockets t) = length (feed_sockets s)" "length (feed_timers t) = length (feed_timers s)"
    "ws_current t = ws_current s" "reconnect_timeout t = reconnect_timeout s"
  shows "feed_inv t = feed_inv s"
proof -
  have "feed_sockets t = [] \<longleftrightarrow> feed_sockets s = []" "feed_timers t = [] \<longleftrightarrow> feed_timers s = []"
    using assms(1,2) by (metis length_0_conv)+
  then show ?thesis using assms by (simp add: feed_inv_def)
qed

lemma feed_inv_handle: "feed_inv s \<Longrightarrow> feed_inv (feed_handle s e)"
proof (cases e)
  case Mount
  assume "feed_inv s"
  then have "feed_inv (s\<lparr>feed_mounted := True\<rparr>)" by (simp add: feed_inv_def)
  then show ?thesis using Mount by (simp add: feed_inv_connect)
next
  case Rerender
  assume "feed_inv s"
  then have "feed_inv (effect_cleanup s)" using feed_inv_same [of "effect_cleanup s" s] by simp
  then show ?thesis using Rerender by (simp add: feed_inv_connect)
next
  case Unmount
  assume "feed_inv s"
  then show ?thesis using Unmount feed_inv_same [of "feed_handle s e" s] by simp
next
  case (SocketClosed i)
  assume "feed_inv s"
  then show ?thesis using SocketClosed
    by (simp add: feed_inv_def set_socket_def schedule_reconnect_def)
next
  case (TimerFires t)
  assume "feed_inv s"
  then have "feed_inv (s\<lparr>feed_timers := (feed_timers s)[t := Fired]\<rparr>)"
    using feed_inv_same [of "s\<lparr>feed_timers := (feed_timers s)[t := Fired]\<rparr>" s] by simp
  then show ?thesis using TimerFires by (simp add: feed_inv_connect)
qed (simp_all add: feed_inv_def set_socket_def split: option.splits)

lemma feed_reachable_inv: "feed_reachable s \<Longrightarrow> feed_inv s"
  by (induction rule: feed_reachable.induct) (simp_all add: feed_inv_init feed_inv_handle)

lemma delivered_handle: "delivered (feed_handle s e) = delivered s @ message_payload e"
  by (cases e)
     (auto simp: connect_def schedule_reconnect_def set_socket_def message_payload_def
        split: option.splits)

lemma feed_exec_append:
  "feed_exec s (xs @ ys) = (case feed_exec s xs of None \<Rightarrow> None | Some t \<Rightarrow> feed_exec t ys)"
  by (induction s xs rule: feed_exec.induct) auto

lemma feed_exec_reachable: "feed_reachable s \<Longrightarrow> feed_exec s es = Some t \<Longrightarrow> feed_reachable t"
  by (induction s es rule: feed_exec.induct) (auto intro: feed_reachable.step split: if_splits)

lemma delivered_exec:
  "feed_exec s es = Some t \<Longrightarrow> delivered t = delivered s @ concat (map message_payload es)"
  by (induction s es rule: feed_exec.induct) (auto simp: delivered_handle split: if_splits)

lemma feed_sockets_connect:
  "feed_sockets (connect s) = feed_sockets s @ (if ws_blocked s then [] else [Connecting])"
  by (simp add: connect_def schedule_reconnect_def)

lemma feed_sockets_close_socket:
  "feed_sockets (close_socket i s) =
     (if i < length (feed_sockets s) \<and> (feed_sockets s ! i = Connecting \<or> feed_sockets s ! i = Open)
      then (feed_sockets s)[i := Closing] else feed_sockets s)"
  by (auto simp: close_socket_def)

lemma feed_sockets_effect_cleanup:
  "feed_sockets (effect_cleanup s) =
     (case ws_current s of None \<Rightarrow> feed_sockets s
      | Some i \<Rightarrow>
          if i < length (feed_sockets s) \<and> (feed_sockets s ! i = Connecting \<or> feed_sockets s ! i = Open)
          then (feed_sockets s)[i := Closing] else feed_sockets s)"
  by (cases "reconnect_timeout s"; cases "ws_current s")
     (auto simp: effect_cleanup_def feed_sockets_close_socket)

lemma feed_timers_effect_cleanup:
  "feed_timers (effect_cleanup s) =
     (case reconnect_timeout s of None \<Rightarrow> feed_timers s | Some t \<Rightarrow> feed_timers (clear_timeout t s))"
  by (simp add: effect_cleanup_def Let_def split: option.splits)

lemma feed_invD:
  "feed_inv s \<Longrightarrow> feed_sockets s \<noteq> [] \<Longrightarrow> ws_current s = Some (length (feed_sockets s) - 1)"
  by (simp add: feed_inv_def)

text \<open>
  C26 (safety): the hook only ever closes the newest socket.  Every action of the hook
  (mount, render, unmount, a reconnect timer) leaves the state of any older socket as it
  was, so a socket that is no longer the one \<open>ws.current\<close> names stays open until the
  server closes it.
\<close>

theorem hook_closes_only_newest:
  assumes "feed_reachable s" "i + 1 < length (feed_sockets s)"
    "\<forall>j. e \<noteq> SocketOpened j \<and> e \<noteq> SocketClosed j"
  shows "i < length (feed_sockets (feed_handle s e)) \<and> feed_sockets (feed_handle s e) ! i = feed_sockets s ! i"
proof -
  have "feed_sockets s \<noteq> []" using assms(2) by auto
  then have cur: "ws_current s = Some (length (feed_sockets s) - 1)"
    using feed_invD [OF feed_reachable_inv [OF assms(1)]] by simp
  have ne: "length (feed_sockets s) - 1 \<noteq> i" using assms(2) by simp
  have keep: "feed_sockets (effect_cleanup s) ! i = feed_sockets s ! i"
    using cur ne by (simp add: feed_sockets_effect_cleanup)
  show ?thesis
    using assms(2,3) keep
    by (cases e) (auto simp: feed_sockets_connect nth_append split: option.splits)
qed

lemma feed_timers_connect:
  "feed_timers (connect s) = feed_timers s @ (if ws_blocked s then [Pending] else [])"
  by (simp add: connect_def schedule_reconnect_def)

lemma feed_simps_connect [simp]:
  "feed_mounted (connect s) = feed_mounted s"
  "ws_blocked (connect s) = ws_blocked s"
  "\<not> ws_blocked s \<Longrightarrow> ws_current (connect s) = Some (length (feed_sockets s))"
  by (simp_all add: connect_def schedule_reconnect_def)

text \<open>
  Unmounting while the newest socket is live closes it; its \<open>close\<close> event then arms
  a timer the cleanup has already run past, and the timer opens a new socket.
\<close>

lemma unmount_close_fire:
  assumes inv: "feed_inv s" and m: "feed_mounted s" and b: "\<not> ws_blocked s"
    and sk: "feed_sockets s = xs @ [st]" and live: "st = Connecting \<or> st = Open"
  shows "\<exists>s'. feed_exec s [Unmount, SocketClosed (length xs), TimerFires (length (feed_timers s))] = Some s' \<and>
           \<not> feed_mounted s' \<and> \<not> ws_blocked s' \<and> ws_current s' = Some (Suc (length xs)) \<and>
           feed_sockets s' = xs @ [Closed, Connecting] \<and>
           length (feed_timers s') = Suc (length (feed_timers s))"
proof -
  have cur: "ws_current s = Some (length xs)" using inv sk by (simp add: feed_inv_def)
  let ?s1 = "feed_handle s Unmount"
  have s1: "feed_sockets ?s1 = xs @ [Closing]" "length (feed_timers ?s1) = length (feed_timers s)"
    "\<not> feed_mounted ?s1" "\<not> ws_blocked ?s1"
    using cur sk live b by (auto simp: feed_sockets_effect_cleanup)
  let ?s2 = "feed_handle ?s1 (SocketClosed (length xs))"
  have s2: "feed_sockets ?s2 = xs @ [Closed]" "feed_timers ?s2 = feed_timers ?s1 @ [Pending]"
    "\<not> feed_mounted ?s2" "\<not> ws_blocked ?s2"
    using s1 by (simp_all add: set_socket_def schedule_reconnect_def)
  show ?thesis
    using s1 s2 b m by (simp add: connect_def nth_append)
qed

text \<open>
  C24 (liveness): unmounting does not stop the feed.  If the newest socket is connecting
  or open when the page unmounts, the cleanup closes it, its \<open>close\<close> event arms a new
  reconnect timer, and that timer opens a new socket after the unmount -- contrary to
  the specification's promise that no reconnect follows an unmount.
\<close>

theorem reconnect_after_unmount:
  assumes "feed_reachable s" "feed_mounted s" "\<not> ws_blocked s" "ws_current s = Some i"
    "feed_sockets s ! i = Connecting \<or> feed_sockets s ! i = Open"
  shows "\<exists>s'. feed_exec s [Unmount, SocketClosed i, TimerFires (length (feed_timers s))] = Some s' \<and>
           \<not> feed_mounted s' \<and> ws_current s' = Some (length (feed_sockets s)) \<and>
           feed_sockets s' ! length (feed_sockets s) = Connecting"
proof -
  have inv: "feed_inv s" using assms(1) by (rule feed_reachable_inv)
  with assms(4) have ne: "feed_sockets s \<noteq> []" and i: "i = length (feed_sockets s) - 1"
    by (auto simp: feed_inv_def split: if_splits)
  then obtain xs where sk: "feed_sockets s = xs @ [feed_sockets s ! i]"
    by (metis append_butlast_last_id last_conv_nth)
  have li: "length xs = i" using sk i by (metis length_append_singleton diff_Suc_1)
  obtain s' where ex: "feed_exec s [Unmount, SocketClosed i, TimerFires (length (feed_timers s))] = Some s'"
    and props: "\<not> feed_mounted s'" "ws_current s' = Some (Suc (length xs))"
      "feed_sockets s' = xs @ [Closed, Connecting]"
    using unmount_close_fire [OF inv assms(2,3) sk assms(5)] li by blast
  have len: "length (feed_sockets s) = Suc (length xs)" using sk by (metis length_append_singleton)
  show ?thesis
    using ex props by (intro exI [of _ s']) (simp add: len nth_append)
qed

lemma feed_inv_exec: "feed_inv s \<Longrightarrow> feed_exec s es = Some t \<Longrightarrow> feed_inv t"
  by (induction s es rule: feed_exec.induct) (auto simp: feed_inv_handle split: if_splits)

text \<open>
  One render while the newest socket is still connecting: the cleanup closes it and
  \<open>connect\<close> opens a successor; the closed socket's \<open>close\<close> event then arms a timer that
  opens one more.  Two sockets are live where one was.
\<close>

lemma rerender_cycle:
  assumes inv: "feed_inv s" and m: "feed_mounted s" and b: "\<not> ws_blocked s"
    and sk: "feed_sockets s = xs @ [Connecting]"
  shows "\<exists>s'. feed_exec s [Rerender, SocketClosed (length xs), TimerFires (length (feed_timers s))] = Some s' \<and>
           feed_mounted s' \<and> \<not> ws_blocked s' \<and> feed_sockets s' = (xs @ [Closed, Connecting]) @ [Connecting]"
proof -
  have cur: "ws_current s = Some (length xs)" using inv sk by (simp add: feed_inv_def)
  let ?s1 = "feed_handle s Rerender"
  have s1: "feed_sockets ?s1 = xs @ [Closing, Connecting]" "length (feed_timers ?s1) = length (feed_timers s)"
    "feed_mounted ?s1" "\<not> ws_blocked ?s1"
    using cur sk m b by (auto simp: feed_sockets_effect_cleanup feed_sockets_connect feed_timers_connect)
  let ?s2 = "feed_handle ?s1 (SocketClosed (length xs))"
  have s2: "feed_sockets ?s2 = xs @ [Closed, Connecting]" "feed_timers ?s2 = feed_timers ?s1 @ [Pending]"
    "feed_mounted ?s2" "\<not> ws_blocked ?s2"
    using s1 by (simp_all add: set_socket_def schedule_reconnect_def)
  show ?thesis
    using s1 s2 b m by (simp add: connect_def nth_append)
qed

lemma feed_sockets_grow:
  "\<exists>es s xs. feed_exec (feed_init False) es = Some s \<and> feed_inv s \<and> feed_mounted s \<and>
     \<not> ws_blocked s \<and> feed_sockets s = xs @ [Connecting] \<and> n \<le> live_sockets s"
proof (induction n)
  case 0
  show ?case
    by (rule exI [of _ "[Mount]"])
       (simp add: feed_init_def connect_def feed_inv_def live_sockets_def)
next
  case (Suc n)
  then obtain es s xs where ex: "feed_exec (feed_init False) es = Some s" and inv: "feed_inv s"
    and m: "feed_mounted s" and b: "\<not> ws_blocked s" and sk: "feed_sockets s = xs @ [Connecting]"
    and n: "n \<le> live_sockets s"
    by blast
  obtain s' where ex': "feed_exec s [Rerender, SocketClosed (length xs), TimerFires (length (feed_timers s))] = Some s'"
    and m': "feed_mounted s'" and b': "\<not> ws_blocked s'"
    and sk': "feed_sockets s' = (xs @ [Closed, Connecting]) @ [Connecting]"
    using rerender_cycle [OF inv m b sk] by blast
  have "live_sockets s' = Suc (live_sockets s)"
    using sk sk' by (simp add: live_sockets_def)
  moreover have "feed_inv s'" using feed_inv_exec [OF inv ex'] .
  moreover have "feed_exec (feed_init False) (es @ [Rerender, SocketClosed (length xs),
      TimerFires (length (feed_timers s))]) = Some s'"
    using ex ex' by (simp add: feed_exec_append)
  ultimately show ?case using m' b' sk' n by (metis Suc_le_mono)
qed

text \<open>
  C25 (bounds): while the page stays mounted, the number of live sockets is unbounded:
  for every \<open>n\<close> there is a run of renders, close events and timers after which at
  least \<open>n\<close> sockets are connecting or open, where the specification asks for exactly
  one subscription.
\<close>

theorem feed_sockets_unbounded:
  "\<exists>es s. feed_exec (feed_init False) es = Some s \<and> feed_mounted s \<and> n \<le> live_sockets s"
  using feed_sockets_grow [of n] by blast

lemma ws_blocked_handle [simp]: "ws_blocked (feed_handle s e) = ws_blocked s"
  by (cases e) (simp_all add: set_socket_def schedule_reconnect_def split: option.splits)

lemma blocked_inv_init: "blocked_inv (feed_init b)"
  by (simp add: blocked_inv_def feed_init_def)

lemma no_pending_after_clear:
  "\<forall>k < length (feed_timers s). feed_timers s ! k = Pending \<longrightarrow> k = t \<Longrightarrow>
   \<forall>k < length (feed_timers (clear_timeout t s)). feed_timers (clear_timeout t s) ! k \<noteq> Pending"
  by (auto simp: clear_timeout_def nth_list_update)

lemma no_pending_after_cleanup:
  assumes "reconnect_timeout s = Some t" "\<forall>k < length (feed_timers s). feed_timers s ! k = Pending \<longrightarrow> k = t"
  shows "\<forall>k < length (feed_timers (effect_cleanup s)). feed_timers (effect_cleanup s) ! k \<noteq> Pending"
proof -
  have eq: "feed_timers (effect_cleanup s) = feed_timers (clear_timeout t s)"
    using assms(1) by (simp add: feed_timers_effect_cleanup)
  show ?thesis unfolding eq using assms(2) by (rule no_pending_after_clear)
qed

lemma blocked_inv_handle:
  assumes bi: "blocked_inv s" and inv: "feed_inv s" and en: "feed_enabled s e"
  shows "blocked_inv (feed_handle s e)"
proof (cases "ws_blocked s")
  case False
  then show ?thesis by (simp add: blocked_inv_def)
next
  case True
  with bi have sk: "feed_sockets s = []"
    and pend: "\<forall>k < length (feed_timers s). feed_timers s ! k = Pending \<longrightarrow> reconnect_timeout s = Some k"
    and mt: "feed_mounted s \<Longrightarrow> feed_timers s \<noteq> []"
    by (auto simp: blocked_inv_def)
  have cur: "ws_current s = None" using inv sk by (simp add: feed_inv_def)
  have cleanup: "feed_sockets (effect_cleanup s) = []"
    "\<forall>k < length (feed_timers (effect_cleanup s)). feed_timers (effect_cleanup s) ! k \<noteq> Pending"
    if "feed_mounted s"
  proof -
    from mt that obtain t where rt: "reconnect_timeout s = Some t"
      using inv by (auto simp: feed_inv_def)
    with pend have "\<forall>k < length (feed_timers s). feed_timers s ! k = Pending \<longrightarrow> k = t" by auto
    then show "feed_sockets (effect_cleanup s) = []"
      "\<forall>k < length (feed_timers (effect_cleanup s)). feed_timers (effect_cleanup s) ! k \<noteq> Pending"
      using no_pending_after_cleanup [OF rt] cur sk by (simp_all add: feed_sockets_effect_cleanup)
  qed
  show ?thesis
  proof (cases e)
    case Mount
    then show ?thesis using True en by (simp add: blocked_inv_def connect_def schedule_reconnect_def)
  next
    case Rerender
    with en cleanup show ?thesis using True
      by (auto simp: blocked_inv_def connect_def schedule_reconnect_def nth_append)
  next
    case Unmount
    with en cleanup show ?thesis using True by (auto simp: blocked_inv_def)
  next
    case (TimerFires t)
    with en pend have rt: "reconnect_timeout s = Some t" by auto
    with pend have "\<forall>k < length (feed_timers s). feed_timers s ! k = Pending \<longrightarrow> k = t" by auto
    moreover have "t < length (feed_timers s)" using en TimerFires by simp
    ultimately show ?thesis using TimerFires True sk
      by (auto simp: blocked_inv_def connect_def schedule_reconnect_def nth_append nth_list_update)
  qed (use en sk in simp_all)
qed

lemma blocked_inv_reachable: "feed_reachable s \<Longrightarrow> blocked_inv s \<and> feed_inv s"
  by (induction rule: feed_reachable.induct)
     (simp_all add: blocked_inv_init feed_inv_init blocked_inv_handle feed_inv_handle)

text \<open>
  C27 (safety): when the socket constructor throws, the hook only ever has the one timer
  its ref names pending, so unmounting cancels it and nothing can happen afterwards: no
  event of the hook or the browser is possible.
\<close>

theorem blocked_feed_quiet_after_unmount:
  assumes "feed_reachable s" "ws_blocked s" "feed_mounted s"
  shows "\<forall>e. \<not> feed_enabled (feed_handle s Unmount) e"
proof
  fix e
  have bi: "blocked_inv s" and inv: "feed_inv s" using blocked_inv_reachable [OF assms(1)] by auto
  with assms(2,3) have sk: "feed_sockets s = []" and nt: "feed_timers s \<noteq> []"
    and pend: "\<forall>k < length (feed_timers s). feed_timers s ! k = Pending \<longrightarrow> reconnect_timeout s = Some k"
    by (auto simp: blocked_inv_def)
  have cur: "ws_current s = None" using inv sk by (simp add: feed_inv_def)
  from inv nt obtain t where rt: "reconnect_timeout s = Some t" by (simp add: feed_inv_def)
  with pend have "\<forall>k < length (feed_timers s). feed_timers s ! k = Pending \<longrightarrow> k = t"
    by auto
  then have "\<forall>k < length (feed_timers (effect_cleanup s)). feed_timers (effect_cleanup s) ! k \<noteq> Pending"
    by (rule no_pending_after_cleanup [OF rt])
  moreover have "feed_timers (effect_cleanup s) \<noteq> []"
    using nt effect_cleanup_simps(2) [of s] by (metis length_0_conv)
  ultimately show "\<not> feed_enabled (feed_handle s Unmount) e"
    using sk cur by (cases e) (auto simp: feed_sockets_effect_cleanup)
qed

subsection \<open>Witnesses\<close>

lemma feed_exec_init_reachable: "feed_exec (feed_init b) es = Some s \<Longrightarrow> feed_reachable s"
  by (rule feed_exec_reachable [OF feed_reachable.init])

theorem reconnect_after_unmount_witness:
  "\<exists>s. feed_exec (feed_init False) [Mount, SocketOpened 0] = Some s \<and>
     (\<exists>s'. feed_exec s [Unmount, SocketClosed 0, TimerFires 0] = Some s' \<and>
        \<not> feed_mounted s' \<and> ws_current s' = Some 1 \<and> feed_sockets s' ! 1 = Connecting)"
proof -
  have "\<exists>s. feed_exec (feed_init False) [Mount, SocketOpened 0] = Some s \<and> feed_mounted s \<and>
      \<not> ws_blocked s \<and> ws_current s = Some 0 \<and> feed_sockets s ! 0 = Open \<and>
      length (feed_sockets s) = 1 \<and> length (feed_timers s) = 0"
    by (simp add: feed_init_def connect_def set_socket_def)
  then obtain s where s: "feed_exec (feed_init False) [Mount, SocketOpened 0] = Some s"
    and h: "feed_mounted s" "\<not> ws_blocked s" "ws_current s = Some 0" "feed_sockets s ! 0 = Open"
    and l: "length (feed_sockets s) = 1" "length (feed_timers s) = 0"
    by blast
  show ?thesis
    using s reconnect_after_unmount [OF feed_exec_init_reachable [OF s] h(1,2,3)] h(4) l by auto
qed

theorem hook_closes_only_newest_witness:
  "\<exists>s. feed_exec (feed_init False) [Mount, SocketOpened 0, Rerender, SocketClosed 0, TimerFires 0] = Some s \<and>
     feed_sockets s = [Closed, Connecting, Connecting] \<and>
     feed_sockets (feed_handle s Unmount) ! 1 = Connecting"
proof -
  have "\<exists>s. feed_exec (feed_init False) [Mount, SocketOpened 0, Rerender, SocketClosed 0, TimerFires 0] = Some s \<and>
      feed_sockets s = [Closed, Connecting, Connecting]"
    by (simp add: feed_init_def connect_def set_socket_def schedule_reconnect_def effect_cleanup_def
          clear_timeout_def close_socket_def)
  then obtain s where s: "feed_exec (feed_init False) [Mount, SocketOpened 0, Rerender, SocketClosed 0,
      TimerFires 0] = Some s" and sk: "feed_sockets s = [Closed, Connecting, Connecting]"
    by blast
  have "1 + 1 < length (feed_sockets s)" "\<forall>j. Unmount \<noteq> SocketOpened j \<and> Unmount \<noteq> SocketClosed j"
    using sk by simp_all
  from hook_closes_only_newest [OF feed_exec_init_reachable [OF s] this] show ?thesis
    using s sk by simp
qed

theorem blocked_feed_quiet_after_unmount_witness:
  "\<exists>s. feed_exec (feed_init True) [Mount] = Some s \<and> ws_blocked s \<and> feed_mounted s \<and>
     (\<forall>e. \<not> feed_enabled (feed_handle s Unmount) e)"
proof -
  have "\<exists>s. feed_exec (feed_init True) [Mount] = Some s \<and> ws_blocked s \<and> feed_mounted s"
    by (simp add: feed_init_def connect_def schedule_reconnect_def)
  then obtain s where s: "feed_exec (feed_init True) [Mount] = Some s" and h: "ws_blocked s" "feed_mounted s"
    by blast
  show ?thesis using s h blocked_feed_quiet_after_unmount [OF feed_exec_init_reachable [OF s] h] by blast
qed

end
