(* ===== verification/Spec2Isabelle.thy ===== *)
theory Spec2Isabelle
  imports Scenarios Price_Feed Flight_Card
begin

text \<open>
  \<^bold>\<open>A verification development of the SkyBook flight-booking front end\<close>
  (\<^verbatim>\<open>src/frontend/src\<close>, TypeScript and React).

  \<^bold>\<open>The program.\<close>  \<^verbatim>\<open>App.tsx\<close> mounts one page, \<^verbatim>\<open>pages/SearchPage.tsx\<close>, inside a
  react-query client.  The page is a wizard of six steps (search, flight list, seats,
  passenger details, payment, confirmation).  It keeps the committed booking draft in
  state hooks, issues the search and the booking as mutations and the seat fetch as a
  query, all through \<^verbatim>\<open>services/api.ts\<close>, and renders one child view per step
  (\<^verbatim>\<open>SearchForm\<close>, \<^verbatim>\<open>FlightCard\<close>, \<^verbatim>\<open>SeatMap\<close>, \<^verbatim>\<open>PassengerForm\<close>, \<^verbatim>\<open>PaymentForm\<close>), each
  with its own local draft.  The hook \<^verbatim>\<open>hooks/usePriceUpdates.ts\<close> keeps a WebSocket
  to the price feed and hands every parsed message to a callback of the page that
  patches the held flight list.

  \<^bold>\<open>Theories.\<close>
  \<^item> \<open>Prelude\<close>: the JavaScript idioms the sources rely on (string and option
    truthiness, \<open>x || d\<close>, \<open>Array.join\<close>, number to decimal string and back), the
    synonyms \<open>ident\<close> and \<open>money\<close>.
  \<^item> \<open>Domain\<close>: \<^verbatim>\<open>types/index.ts\<close>, one record per interface, one datatype per
    string-literal union.
  \<^item> \<open>Dates\<close>: what the three \<open>type="date"\<close> inputs rely on: the browser's date strings
    (\<open>parse_date\<close>, \<open>format_date\<close>, value sanitization \<open>date_value_ok\<close>, the range checks
    \<open>below_min\<close>/\<open>above_max\<close>) and \<open>new Date().toISOString().split('T')[0]\<close> as
    \<open>iso_date\<close>, the UTC calendar date of the clock (\<open>civil_of_days\<close> walks years and
    months from 1970).
  \<^item> \<open>Reconciler\<close>: the page's price-update callback (\<^verbatim>\<open>SearchPage.tsx\<close> 24--31)
    as \<open>apply_price_update\<close>, a sequence of them as \<open>apply_updates\<close>, and its abstract
    specification \<open>latest_prices\<close>/\<open>overlay\<close> (the latest price per flight id).
  \<^item> \<open>Seat_Map\<close>: \<^verbatim>\<open>SeatMap.tsx\<close>: \<open>handle_seat_click\<close> with its three outcomes,
    \<open>get_seat_class\<close>, the grid layout (\<open>seats_by_row\<close>, \<open>seat_rows\<close>, \<open>row_seats\<close>,
    \<open>row_cells\<close>) and the labels.
  \<^item> \<open>Search_Form\<close>, \<open>Passenger_Form\<close>, \<open>Payment_Form\<close>: the local drafts of the three
    forms, their \<open>handleChange\<close> functions, \<open>isFormValid\<close>, \<open>formatCardNumber\<close>, and the
    \<open>required\<close>, \<open>maxLength\<close>, \<open>select\<close>, \<open>type="email"\<close> and \<open>type="date"\<close>
    constraints of their inputs, with the browser's value sanitization and the
    \<open>min\<close>/\<open>max\<close> dates the renders compute from the clock.
  \<^item> \<open>Gateway\<close>: every call of \<^verbatim>\<open>services/api.ts\<close> as a request and a function from the
    transport outcome to \<open>api_error + 'a\<close>, and the query retry of \<^verbatim>\<open>App.tsx\<close>.
  \<^item> \<open>Booking_Flow\<close>: the page as a state machine.  \<open>page_state\<close> holds the hooks, the
    pending flags of both mutations, the last booking request, the seat-query cache
    and the local state of the mounted child views; \<open>page_handle\<close> runs the handler of
    an event, \<open>sync_views\<close> mounts and unmounts the child views as the JSX conditions
    do, \<open>page_step\<close> is their composition and \<open>page_enabled\<close> the rendered, enabled
    elements; the two submits checked against a date carry the render's clock.
    \<open>flight_list_view\<close> renders the flight list.  \<open>page_reachable\<close> is the inductive set of states reachable from mount,
    \<open>page_exec\<close> the executable run of an event list.
  \<^item> \<open>Page_View\<close>: the rendered controls (button labels and \<open>disabled\<close>
    attributes, seat buttons, select options, the payment total) as functions of the page
    state, and the theorem that they admit exactly the events of \<open>page_enabled\<close>.
  \<^item> \<open>Scenarios\<close>: concrete runs of the page evaluated by \<open>simp\<close>, and the witnesses of
    the page's properties.
  \<^item> \<open>Price_Feed\<close>: \<^verbatim>\<open>usePriceUpdates.ts\<close> as a state machine over the sockets and
    timers the hook creates, with the browser's and the server's events; its witnesses.
  \<^item> \<open>Flight_Card\<close>: \<^verbatim>\<open>FlightCard.tsx\<close>: the rendered card \<open>flight_card_view\<close>,
    \<open>formatDuration\<close>, the stops badge, and the dispatch of a click between the card and
    its button.  \<open>formatTime\<close>, \<open>formatPrice\<close> (\<open>Date\<close>, \<open>Intl\<close>) and \<open>toUpperCase\<close> are
    parameters of the render.

  \<^bold>\<open>Interaction.\<close>  Child views talk to the page through their callbacks, which are
  events of \<open>page_event\<close> (\<open>SubmitSearch\<close>, \<open>ClickSeat\<close>, \<open>SubmitPassengers\<close>, ...); the
  page calls the gateway functions on the outcomes of its requests
  (\<open>SearchSettled\<close>, \<open>SeatsSettled\<close>, \<open>BookingSettled\<close>); the feed's \<open>delivered\<close> updates
  are the page's \<open>PriceUpdate\<close> events.  The theorems below compose the feed with
  the page, and the reconciler with the rendered flight cards.

  \<^bold>\<open>What is proved.\<close>  The page invariant \<open>page_inv\<close> (mounted views agree with the
  step, requests are pending only on their own step, the selection is a valid
  seat-map selection of the searched size, the booking request matches the page's
  draft) holds in every reachable state, by rule induction, and so does the boundary
  between drafts and the committed booking (\<open>commit_inv\<close>: committed search,
  passengers and payment passed their view's checks); the step guards of the
  specification (seat count, passenger fields) are exactly the enabled transitions
  (and, in \<open>Page_View\<close>, the enabled transitions exactly what the rendered controls
  allow); the booking request always carries the searched numbers of seats and
  passengers, and the confirmation shows exactly its seats; every submitted search
  departs on a valid date not before the UTC date of its render and returns on no date
  or not before departure; the reconciler refines the latest-price map and the cards
  display the latest prices, also for the updates the feed delivers; the seat map keeps
  a valid selection, a second click undoes a first one, and distinct clicks give the
  selection in click order; the seat grid is a sorted permutation of the fetched
  seats; the card formatter is idempotent, bounded and equal to a reference
  formatter; the gateway's error results and the two attempts of the retried seat
  query; the passenger keys are distinct; the feed's socket lifecycle; the duration
  label reads back as the duration.  Properties that show where the code departs from
  the specification are general theorems over reachable states: a seat selection that
  survives a change of flight and can be booked on the new one, a payment total that
  ignores live prices, payment inputs that stay editable while the booking is in
  flight, a search without results that leaves the user on a flight list with no
  control to use, reconnects after unmount and an unbounded number of live sockets.
  \<open>Scenarios\<close> evaluates concrete runs that show the same departures (including the
  date bounds taken in UTC rather than in the user's time zone) and witnesses every
  property with a hypothesis.

  \<^bold>\<open>Bounds and fuel.\<close>  No loop of the program is unbounded: every recursion of
  the model is structural (lists, numerals), so no fuel is needed.  The query retry is
  the configured constant 1; the passenger count is bounded by the select's options
  1 to 8.  \<open>year_walk\<close> and \<open>month_walk\<close> terminate by the measures of the days left
  and the months left.  Dates are proved well formed for years up to 9999, the range of
  \<open>toISOString\<close>'s four-digit form; later years use its expanded form, which no date
  input accepts.

  \<^bold>\<open>Not modelled.\<close>  Styling, the App chrome (header, navigation links, footer:
  navigation chrome the specification excludes), static headings,
  \<^verbatim>\<open>alert\<close> and \<^verbatim>\<open>console\<close> output; the arrow U+2192 of the route lines, which lies
  outside the model's characters and is a parameter of those lines;
  the bodies of \<^verbatim>\<open>FlightCard\<close>'s time and price formatting, which go through \<open>Date\<close>
  and \<open>Intl\<close>, and of \<open>toUpperCase\<close>, which maps some Latin-1 letters to characters
  outside the code units 0--255 the model's \<open>char\<close> has (all three are parameters of the
  card); \<open>refetchOnWindowFocus: false\<close>, which only removes refetches while the model
  lets seat responses arrive at any time anyway;
  floating-point rounding of amounts (modelled as rationals); the backend server,
  whose responses are inputs of the model.  \<open>localeCompare\<close> is modelled as code-unit order, which agrees with it on
  the upper-case seat columns.
\<close>

subsection \<open>The price feed and the page\<close>

text \<open>
  C28 (refinement): the updates the price-feed hook hands to the page's callback,
  applied in receipt order, leave the page with its flight list overlaid by the
  latest price received for each flight id.
\<close>

theorem feed_updates_reach_page:
  assumes "feed_exec f es = Some f'"
  shows "\<exists>s'. page_exec s (map PriceUpdate (concat (map message_payload es))) = Some s' \<and>
           delivered f' = delivered f @ concat (map message_payload es) \<and>
           flights s' = overlay (latest_prices (concat (map message_payload es))) (flights s)"
proof -
  obtain s' where s': "page_exec s (map PriceUpdate (concat (map message_payload es))) = Some s'"
    and fl: "flights s' = apply_updates (concat (map message_payload es)) (flights s)"
    using page_exec_price_updates by blast
  have "apply_updates (concat (map message_payload es)) (flights s) =
        overlay (latest_prices (concat (map message_payload es))) (flights s)"
    using apply_updates_overlay [of _ Map.empty "flights s"] by (simp add: latest_prices_def)
  with s' fl delivered_exec [OF assms] show ?thesis by auto
qed

text \<open>
  C15 (refinement, display): while the flight list is shown, the price each card
  displays after any sequence of price updates is the latest price received for that
  flight id, or the searched price if none was received; every card keeps the plain
  \<open>price\<close> class, since the page never passes \<open>isPriceUpdating\<close>.  This holds for any
  currency and time formatter.
\<close>

theorem flight_list_shows_latest_prices:
  assumes "current_step s = SelectFlight"
  shows "\<exists>t cards. page_exec s (map PriceUpdate us) = Some t \<and>
           flight_list_view fmt_time fmt_price to_upper t =
             Some (string_of_nat (length (flights s)) @ '' flights found'', cards) \<and>
           map cv_price cards =
             map (\<lambda>f. fmt_price (case latest_prices us (flight_id f) of None \<Rightarrow> price f | Some p \<Rightarrow> p)
                               (currency f)) (flights s) \<and>
           (\<forall>c\<in>set cards. cv_price_class c = ''price '')"
proof -
  obtain t where t: "page_exec s (map PriceUpdate us) = Some t"
    and fl: "flights t = apply_updates us (flights s)" and st: "current_step t = current_step s"
    using page_exec_price_updates by blast
  have ov: "flights t = overlay (latest_prices us) (flights s)"
    using fl apply_updates_overlay [of us Map.empty "flights s"] by (simp add: latest_prices_def)
  have prices: "\<And>fs. map cv_price (map (\<lambda>f. flight_card_view fmt_time fmt_price to_upper f None) (overlay m fs)) =
      map (\<lambda>f. fmt_price (case m (flight_id f) of None \<Rightarrow> price f | Some p \<Rightarrow> p) (currency f)) fs"
    for m by (induct_tac fs) (auto simp: overlay_def flight_card_view_def split: option.splits)
  have "length (flights t) = length (flights s)" by (simp add: ov overlay_def)
  with t st assms prices [of "latest_prices us" "flights s"] show ?thesis
    by (auto simp: flight_list_view_def ov flight_card_view_def)
qed

subsection \<open>Witnesses\<close>

theorem flight_list_shows_latest_prices_witness:
  "\<exists>s. page_exec page_init (search_trace 2) = Some s \<and> current_step s = SelectFlight \<and>
     (\<exists>t cards. page_exec s (map PriceUpdate [price_update_f1]) = Some t \<and>
        flight_list_view id (\<lambda>p c. c) id t =
          Some (string_of_nat (length (flights s)) @ '' flights found'', cards) \<and>
        map cv_price cards =
          map (\<lambda>f. (\<lambda>p c. c) (case latest_prices [price_update_f1] (flight_id f) of None \<Rightarrow> price f | Some p \<Rightarrow> p)
                      (currency f)) (flights s) \<and>
        (\<forall>c\<in>set cards. cv_price_class c = ''price ''))"
proof -
  have "\<exists>s. page_exec page_init (search_trace 2) = Some s \<and> current_step s = SelectFlight"
    by (simp add: scenario_defs page_eval_defs)
  then obtain s where s: "page_exec page_init (search_trace 2) = Some s"
    and st: "current_step s = SelectFlight"
    by blast
  show ?thesis
    using s st flight_list_shows_latest_prices [OF st, of "[price_update_f1]" id "\<lambda>p c. c" id] by blast
qed

theorem feed_updates_reach_page_witness:
  "\<exists>f'. feed_exec (feed_init False)
          [Mount, SocketOpened 0, Message 0 (Some price_update_f1), Message 0 None] = Some f' \<and>
     (\<exists>s'. page_exec page_init (map PriceUpdate [price_update_f1]) = Some s' \<and>
        delivered f' = [price_update_f1] \<and> flights s' = overlay (latest_prices [price_update_f1]) [])"
proof -
  have "\<exists>f'. feed_exec (feed_init False)
      [Mount, SocketOpened 0, Message 0 (Some price_update_f1), Message 0 None] = Some f'"
    by (simp add: feed_init_def connect_def set_socket_def)
  then obtain f' where f': "feed_exec (feed_init False)
      [Mount, SocketOpened 0, Message 0 (Some price_update_f1), Message 0 None] = Some f'"
    by blast
  have "delivered (feed_init False) = []" by (simp add: feed_init_def)
  with feed_updates_reach_page [OF f', of page_init] show ?thesis
    using f' by (simp add: message_payload_def page_init_def)
qed

end
